theory Spec2Isabelle
  imports Main "HOL-Library.Word" "HOL-Library.Multiset"
begin

unbundle bit_operations_syntax

chapter \<open>Embedding of the decoder sources\<close>

section \<open>Machine integers and library routines\<close>

text \<open>
  \<^verbatim>\<open>int16_t\<close> is a 16-bit word read through \<^const>\<open>sint\<close>. The sums, differences and
  shifts that the code computes in \<^verbatim>\<open>int\<close> from such values and from positions in the frame
  stay inside 32 bits, so they are plain integers; the narrowing back to \<^verbatim>\<open>int16_t\<close> is
  \<^const>\<open>word_of_int\<close>. On \<^typ>\<open>int\<close>, \<^term>\<open>drop_bit n\<close> is the arithmetic right shift
  \<^verbatim>\<open>>> n\<close>.
\<close>

type_synonym int16 = "16 word"

text \<open>
  The products of \<^verbatim>\<open>GetMvProjection\<close> and of \<^verbatim>\<open>SetupGlobalMv\<close> are computed in \<^verbatim>\<open>int\<close> and
  can leave its range: in \<^verbatim>\<open>GetMvProjection\<close> a component of 4229, the numerator 31 and a
  table entry of 16384 do. The embedding takes the two's complement result: \<open>int32 x\<close> is
  what the 32 bits of the result hold, read as a signed number.
\<close>

definition int32 :: "int \<Rightarrow> int" where
  "int32 x = sint (word_of_int x :: 32 word)"

text \<open>
  \<^verbatim>\<open>ApplySign\<close> (utils/common.h) is not among the sources. The comment above
  \<^verbatim>\<open>MotionFieldProjection\<close> in motion_vector.cc describes it: the sign is 0 or -1
  "so that it can be XORed and subtracted directly in ApplySign()".
\<close>

definition ApplySign :: "int \<Rightarrow> int \<Rightarrow> int" where
  "ApplySign val sign = (val XOR sign) - sign"

text \<open>
  \<^verbatim>\<open>std::sort\<close> belongs to the C++ library. It is modelled by insertion with the caller's
  comparator \<open>cmp\<close> (\<open>cmp a b\<close>: \<open>a\<close> goes before \<open>b\<close>). For the two comparators of this
  development, elements that the comparator does not separate are equal or carry equal
  keys, so every sorting algorithm returns the same array of keys.
\<close>

fun insert_by :: "('a \<Rightarrow> 'a \<Rightarrow> bool) \<Rightarrow> 'a \<Rightarrow> 'a list \<Rightarrow> 'a list" where
  "insert_by cmp x [] = [x]"
| "insert_by cmp x (y # ys) =
     (if cmp x y then x # y # ys else y # insert_by cmp x ys)"

fun std_sort :: "('a \<Rightarrow> 'a \<Rightarrow> bool) \<Rightarrow> 'a list \<Rightarrow> 'a list" where
  "std_sort cmp [] = []"
| "std_sort cmp (x # xs) = insert_by cmp x (std_sort cmp xs)"

text \<open>C++ integer division truncates towards zero.\<close>

definition cpp_div :: "int \<Rightarrow> int \<Rightarrow> int" where
  "cpp_div a b = sgn a * sgn b * (\<bar>a\<bar> div \<bar>b\<bar>)"


section \<open>motion_vector.cc: precision of motion vectors\<close>

text \<open>\<^verbatim>\<open>MotionVector\<close>: the array \<^verbatim>\<open>int16_t mv[2]\<close>, row component first.\<close>

record MotionVector =
  mv0 :: int16
  mv1 :: int16

text \<open>
  \<^verbatim>\<open>ReferenceFrameType\<close> is an enumeration over \<^verbatim>\<open>int8_t\<close>: \<^verbatim>\<open>kReferenceFrameNone\<close> is -1,
  \<^verbatim>\<open>kReferenceFrameIntra\<close> is 0, and the seven inter references follow
  (\<^verbatim>\<open>kNumReferenceFrameTypes\<close> is 8). The code compares its values and indexes arrays
  with them.
\<close>

type_synonym ReferenceFrameType = int

definition kReferenceFrameNone :: ReferenceFrameType where
  "kReferenceFrameNone = - 1"

definition kReferenceFrameIntra :: ReferenceFrameType where
  "kReferenceFrameIntra = 0"

datatype GlobalMotionTransformationType =
    kGlobalMotionTransformationTypeIdentity
  | kGlobalMotionTransformationTypeTranslation
  | kGlobalMotionTransformationTypeRotZoom
  | kGlobalMotionTransformationTypeAffine
  | kNumGlobalMotionTransformationTypes

record GlobalMotion =
  type' :: GlobalMotionTransformationType
  params :: "nat \<Rightarrow> int"

text \<open>The fields of \<^verbatim>\<open>ObuFrameHeader\<close> that motion_vector.cc reads.\<close>

record ObuFrameHeader =
  allow_high_precision_mv :: bool
  force_integer_mv :: int
  use_ref_frame_mvs :: bool
  rows4x4 :: int
  columns4x4 :: int
  order_hint :: int
  global_motion :: "ReferenceFrameType \<Rightarrow> GlobalMotion"

text \<open>The body of the first loop of \<^verbatim>\<open>LowerMvPrecision\<close>, for one component.\<close>

definition LowerMv_integer :: "int16 \<Rightarrow> int16" where
  "LowerMv_integer mv =
     (let val = (\<bar>sint mv\<bar> + 3) AND NOT 7;
          sign = drop_bit 15 (sint mv)
      in word_of_int (ApplySign val sign))"

text \<open>The body of the second loop: \<^verbatim>\<open>if ((mv & 1) != 0) mv -= (mv >> 15) | 1;\<close>\<close>

definition LowerMv_low_bit :: "int16 \<Rightarrow> int16" where
  "LowerMv_low_bit mv =
     (if sint mv AND 1 \<noteq> 0
      then word_of_int (sint mv - (drop_bit 15 (sint mv) OR 1))
      else mv)"

definition LowerMvPrecision :: "ObuFrameHeader \<Rightarrow> MotionVector \<Rightarrow> MotionVector" where
  "LowerMvPrecision hdr mvs =
     (if allow_high_precision_mv hdr then mvs
      else if force_integer_mv hdr \<noteq> 0
      then mvs\<lparr>mv0 := LowerMv_integer (mv0 mvs), mv1 := LowerMv_integer (mv1 mvs)\<rparr>
      else mvs\<lparr>mv0 := LowerMv_low_bit (mv0 mvs), mv1 := LowerMv_low_bit (mv1 mvs)\<rparr>)"


section \<open>motion_vector.cc: sorting the weight index stack\<close>

definition DescendingOrderTwo :: "int \<times> int \<Rightarrow> int \<times> int" where
  "DescendingOrderTwo p = (case p of (a, b) \<Rightarrow> if a < b then (b, a) else (a, b))"

definition CompareCandidateMotionVectors :: "int16 \<Rightarrow> int16 \<Rightarrow> bool" where
  "CompareCandidateMotionVectors lhs rhs = (sint rhs < sint lhs)"

text \<open>
  The array \<^verbatim>\<open>weight_index_stack\<close> is a function from indices to entries, and the pointer
  that \<^verbatim>\<open>SortWeightIndexStack\<close> receives is the index \<open>base\<close> of its first entry.
  The branch for sizes 2 and 3:
\<close>

definition SortWeightIndexStack_small ::
  "int \<Rightarrow> nat \<Rightarrow> (nat \<Rightarrow> int16) \<Rightarrow> (nat \<Rightarrow> int16)" where
  "SortWeightIndexStack_small size' base weight_index_stack =
     (let weight_index_0 = sint (weight_index_stack base);
          weight_index_1 = sint (weight_index_stack (base + 1));
          (weight_index_0, weight_index_1) =
             DescendingOrderTwo (weight_index_0, weight_index_1)
      in if size' = 3
         then (let weight_index_2 = sint (weight_index_stack (base + 2));
                   (weight_index_1, weight_index_2) =
                      DescendingOrderTwo (weight_index_1, weight_index_2);
                   (weight_index_0, weight_index_1) =
                      DescendingOrderTwo (weight_index_0, weight_index_1)
               in weight_index_stack
                    (base + 2 := word_of_int weight_index_2,
                     base := word_of_int weight_index_0,
                     base + 1 := word_of_int weight_index_1))
         else weight_index_stack
                (base := word_of_int weight_index_0,
                 base + 1 := word_of_int weight_index_1))"

text \<open>The branch that calls \<^verbatim>\<open>std::sort\<close> on the entries \<open>base, \<dots>, base + size - 1\<close>.\<close>

definition SortWeightIndexStack_generic ::
  "int \<Rightarrow> nat \<Rightarrow> (nat \<Rightarrow> int16) \<Rightarrow> (nat \<Rightarrow> int16)" where
  "SortWeightIndexStack_generic size' base weight_index_stack =
     (let sorted = std_sort CompareCandidateMotionVectors
                     (map weight_index_stack [base ..< base + nat size'])
      in (\<lambda>i. if base \<le> i \<and> i < base + nat size' then sorted ! (i - base)
               else weight_index_stack i))"

definition SortWeightIndexStack ::
  "int \<Rightarrow> nat \<Rightarrow> (nat \<Rightarrow> int16) \<Rightarrow> (nat \<Rightarrow> int16)" where
  "SortWeightIndexStack size' base weight_index_stack =
     (if size' \<le> 1 then weight_index_stack
      else if size' \<le> 3 then SortWeightIndexStack_small size' base weight_index_stack
      else SortWeightIndexStack_generic size' base weight_index_stack)"


section \<open>post_filter.cc: rows of the threaded super-resolution\<close>

text \<open>
  One call of \<^verbatim>\<open>ApplySuperRes\<close>: the first row4x4 of the buffers it receives, the
  number of rows4x4 it processes, and whether it was handed to the thread pool
  (otherwise the calling thread runs it).
\<close>

record SuperResJob =
  job_row4x4_start :: int
  job_rows4x4 :: int
  job_scheduled :: bool

function ApplySuperResThreaded_loop ::
  "int \<Rightarrow> int \<Rightarrow> int \<Rightarrow> int \<Rightarrow> int \<Rightarrow> SuperResJob list" where
  "ApplySuperResThreaded_loop num_threads thread_pool_rows4x4 current_thread_rows4x4
       i row4x4_start =
     (if i < num_threads
      then (if i < num_threads - 1
            then \<lparr>job_row4x4_start = row4x4_start, job_rows4x4 = thread_pool_rows4x4,
                  job_scheduled = True\<rparr>
            else \<lparr>job_row4x4_start = row4x4_start, job_rows4x4 = current_thread_rows4x4,
                  job_scheduled = False\<rparr>)
           # ApplySuperResThreaded_loop num_threads thread_pool_rows4x4
               current_thread_rows4x4 (i + 1) (row4x4_start + thread_pool_rows4x4)
      else [])"
  by pat_completeness auto
termination
  by (relation "measure (\<lambda>(n, p, c, i, r). nat (n - i))") auto

text \<open>
  \<open>thread_count\<close> is \<^verbatim>\<open>thread_pool_->num_threads()\<close> and \<open>frame_rows4x4\<close> is
  \<^verbatim>\<open>frame_header_.rows4x4\<close>.
\<close>

definition ApplySuperResThreaded :: "int \<Rightarrow> int \<Rightarrow> SuperResJob list" where
  "ApplySuperResThreaded thread_count frame_rows4x4 =
     (let num_threads = thread_count + 1;
          thread_pool_rows4x4 = cpp_div frame_rows4x4 num_threads;
          current_thread_rows4x4 = frame_rows4x4 - thread_pool_rows4x4 * (num_threads - 1)
      in ApplySuperResThreaded_loop num_threads thread_pool_rows4x4
           current_thread_rows4x4 0 0)"

text \<open>The rows4x4 of the frame that a job covers.\<close>

definition job_rows :: "SuperResJob \<Rightarrow> int list" where
  "job_rows j = [job_row4x4_start j ..  job_row4x4_start j + job_rows4x4 j - 1]"


section \<open>loop_restoration_10bit_sse4.cc: weights of the self-guided filter\<close>

text \<open>
  The first lines of \<^verbatim>\<open>BoxFilterProcess\<close>. \<open>multiplier0\<close> and \<open>multiplier1\<close> are
  \<^verbatim>\<open>sgr_proj_info.multiplier[0]\<close> and \<^verbatim>\<open>[1]\<close>; the constant \<^verbatim>\<open>kSgrProjPrecisionBits\<close>
  (utils/constants.h) is not among the sources and is a parameter. Each of the three
  weights is narrowed to \<^verbatim>\<open>int16_t\<close>.
\<close>

definition BoxFilterProcess_weights :: "nat \<Rightarrow> int \<Rightarrow> int \<Rightarrow> int16 \<times> int16 \<times> int16" where
  "BoxFilterProcess_weights kSgrProjPrecisionBits multiplier0 multiplier1 =
     (let w0 = (word_of_int multiplier0 :: int16);
          w1 = (word_of_int multiplier1 :: int16);
          w2 = (word_of_int (push_bit kSgrProjPrecisionBits 1 - sint w0 - sint w1) :: int16)
      in (w0, w1, w2))"


section \<open>decoder_impl.h: output layers of a temporal unit\<close>

text \<open>\<open>frame\<close> stands for the \<^verbatim>\<open>RefCountedBufferPtr\<close>: the identity of the buffer.\<close>

record OutputLayer =
  frame :: nat
  position_in_temporal_unit :: int

text \<open>\<^verbatim>\<open>OutputLayer::operator<\<close>\<close>

definition OutputLayer_less :: "OutputLayer \<Rightarrow> OutputLayer \<Rightarrow> bool" where
  "OutputLayer_less lhs rhs =
     (position_in_temporal_unit rhs < position_in_temporal_unit lhs)"

record TemporalUnit =
  output_layers :: "OutputLayer list"
  output_layer_count :: nat

text \<open>
  Modelled from the spec: \<^verbatim>\<open>decoder_impl.cc\<close>, where the table is sorted and where
  \<^verbatim>\<open>DecoderImpl::DequeueFrame\<close> is defined, is not among the sources. By the spec the
  table is "sorted in descending order of position_in_temporal_unit", with \<^verbatim>\<open>std::sort\<close>
  and \<^verbatim>\<open>operator<\<close> as the comment in decoder_impl.h says, and \<^verbatim>\<open>DequeueFrame\<close> reads it with
  "a single monotonically-decreasing-index scan": the comment on \<^verbatim>\<open>output_layers\<close> says that
  it returns "the frames in reverse order (so that the entire process can run with a
  single counter variable)", the counter being \<^verbatim>\<open>output_layer_count\<close>.
\<close>

definition SortOutputLayers :: "TemporalUnit \<Rightarrow> TemporalUnit" where
  "SortOutputLayers tu =
     tu\<lparr>output_layers :=
          std_sort OutputLayer_less (take (output_layer_count tu) (output_layers tu))
          @ drop (output_layer_count tu) (output_layers tu)\<rparr>"

definition DequeueFrame :: "TemporalUnit \<Rightarrow> OutputLayer option \<times> TemporalUnit" where
  "DequeueFrame tu =
     (if 0 < output_layer_count tu \<and> output_layer_count tu \<le> length (output_layers tu)
      then (Some (output_layers tu ! (output_layer_count tu - 1)),
            tu\<lparr>output_layer_count := output_layer_count tu - 1\<rparr>)
      else (None, tu))"

text \<open>The layers that \<open>n\<close> successive calls of \<^const>\<open>DequeueFrame\<close> return.\<close>

fun DequeueFrames :: "nat \<Rightarrow> TemporalUnit \<Rightarrow> OutputLayer option list" where
  "DequeueFrames 0 tu = []"
| "DequeueFrames (Suc n) tu =
     (case DequeueFrame tu of (out, tu') \<Rightarrow> out # DequeueFrames n tu')"

text \<open>
  The scenario of the spec: three layers that finished decoding at positions 2, 0, 1.
\<close>

definition layers_2_0_1 :: TemporalUnit where
  "layers_2_0_1 =
     \<lparr>output_layers =
        [\<lparr>frame = 10, position_in_temporal_unit = 2\<rparr>,
         \<lparr>frame = 11, position_in_temporal_unit = 0\<rparr>,
         \<lparr>frame = 12, position_in_temporal_unit = 1\<rparr>],
      output_layer_count = 3\<rparr>"



section \<open>motion_vector.cc: blocks, tiles and prediction parameters\<close>

text \<open>
  An array of two elements (\<^verbatim>\<open>mv[2]\<close> of a candidate, \<^verbatim>\<open>reference_frame[2]\<close>,
  \<^verbatim>\<open>global_mv[2]\<close>) is a pair; its index is 0 or 1 wherever the code reads or writes it.
\<close>

definition at2 :: "'a \<times> 'a \<Rightarrow> nat \<Rightarrow> 'a" where
  "at2 p i = (if i = 0 then fst p else snd p)"

definition set2 :: "'a \<times> 'a \<Rightarrow> nat \<Rightarrow> 'a \<Rightarrow> 'a \<times> 'a" where
  "set2 p i v = (if i = 0 then (v, snd p) else (fst p, v))"

text \<open>\<^verbatim>\<open>CandidateMotionVector\<close>: \<^verbatim>\<open>MotionVector mv[2]\<close>; \<^verbatim>\<open>operator==\<close> compares both.\<close>

type_synonym CandidateMotionVector = "MotionVector \<times> MotionVector"

definition zero_mv_value :: MotionVector where
  "zero_mv_value = \<lparr>mv0 = 0, mv1 = 0\<rparr>"

text \<open>
  \<^verbatim>\<open>BlockSize\<close>, in the order of the enumeration. The tables \<^verbatim>\<open>kNum4x4BlocksWide\<close> and
  \<^verbatim>\<open>kNum4x4BlocksHigh\<close> (utils/constants.h) are not among the sources: an enumerator
  names the width and the height of the block in pixels, and the tables hold them in
  units of 4 pixels. The table \<^verbatim>\<open>kWarpValidThreshold\<close> of motion_vector.cc, whose entry
  is the larger of the two clipped to 16..112, lists the sizes in this order.
\<close>

datatype BlockSize =
    kBlock4x4 | kBlock4x8 | kBlock4x16
  | kBlock8x4 | kBlock8x8 | kBlock8x16 | kBlock8x32
  | kBlock16x4 | kBlock16x8 | kBlock16x16 | kBlock16x32 | kBlock16x64
  | kBlock32x8 | kBlock32x16 | kBlock32x32 | kBlock32x64
  | kBlock64x16 | kBlock64x32 | kBlock64x64 | kBlock64x128
  | kBlock128x64 | kBlock128x128

fun BlockSize_index :: "BlockSize \<Rightarrow> nat" where
  "BlockSize_index kBlock4x4 = 0"
| "BlockSize_index kBlock4x8 = 1"
| "BlockSize_index kBlock4x16 = 2"
| "BlockSize_index kBlock8x4 = 3"
| "BlockSize_index kBlock8x8 = 4"
| "BlockSize_index kBlock8x16 = 5"
| "BlockSize_index kBlock8x32 = 6"
| "BlockSize_index kBlock16x4 = 7"
| "BlockSize_index kBlock16x8 = 8"
| "BlockSize_index kBlock16x16 = 9"
| "BlockSize_index kBlock16x32 = 10"
| "BlockSize_index kBlock16x64 = 11"
| "BlockSize_index kBlock32x8 = 12"
| "BlockSize_index kBlock32x16 = 13"
| "BlockSize_index kBlock32x32 = 14"
| "BlockSize_index kBlock32x64 = 15"
| "BlockSize_index kBlock64x16 = 16"
| "BlockSize_index kBlock64x32 = 17"
| "BlockSize_index kBlock64x64 = 18"
| "BlockSize_index kBlock64x128 = 19"
| "BlockSize_index kBlock128x64 = 20"
| "BlockSize_index kBlock128x128 = 21"

fun kNum4x4BlocksWide :: "BlockSize \<Rightarrow> int" where
  "kNum4x4BlocksWide kBlock4x4 = 1"
| "kNum4x4BlocksWide kBlock4x8 = 1"
| "kNum4x4BlocksWide kBlock4x16 = 1"
| "kNum4x4BlocksWide kBlock8x4 = 2"
| "kNum4x4BlocksWide kBlock8x8 = 2"
| "kNum4x4BlocksWide kBlock8x16 = 2"
| "kNum4x4BlocksWide kBlock8x32 = 2"
| "kNum4x4BlocksWide kBlock16x4 = 4"
| "kNum4x4BlocksWide kBlock16x8 = 4"
| "kNum4x4BlocksWide kBlock16x16 = 4"
| "kNum4x4BlocksWide kBlock16x32 = 4"
| "kNum4x4BlocksWide kBlock16x64 = 4"
| "kNum4x4BlocksWide kBlock32x8 = 8"
| "kNum4x4BlocksWide kBlock32x16 = 8"
| "kNum4x4BlocksWide kBlock32x32 = 8"
| "kNum4x4BlocksWide kBlock32x64 = 8"
| "kNum4x4BlocksWide kBlock64x16 = 16"
| "kNum4x4BlocksWide kBlock64x32 = 16"
| "kNum4x4BlocksWide kBlock64x64 = 16"
| "kNum4x4BlocksWide kBlock64x128 = 16"
| "kNum4x4BlocksWide kBlock128x64 = 32"
| "kNum4x4BlocksWide kBlock128x128 = 32"

fun kNum4x4BlocksHigh :: "BlockSize \<Rightarrow> int" where
  "kNum4x4BlocksHigh kBlock4x4 = 1"
| "kNum4x4BlocksHigh kBlock4x8 = 2"
| "kNum4x4BlocksHigh kBlock4x16 = 4"
| "kNum4x4BlocksHigh kBlock8x4 = 1"
| "kNum4x4BlocksHigh kBlock8x8 = 2"
| "kNum4x4BlocksHigh kBlock8x16 = 4"
| "kNum4x4BlocksHigh kBlock8x32 = 8"
| "kNum4x4BlocksHigh kBlock16x4 = 1"
| "kNum4x4BlocksHigh kBlock16x8 = 2"
| "kNum4x4BlocksHigh kBlock16x16 = 4"
| "kNum4x4BlocksHigh kBlock16x32 = 8"
| "kNum4x4BlocksHigh kBlock16x64 = 16"
| "kNum4x4BlocksHigh kBlock32x8 = 2"
| "kNum4x4BlocksHigh kBlock32x16 = 4"
| "kNum4x4BlocksHigh kBlock32x32 = 8"
| "kNum4x4BlocksHigh kBlock32x64 = 16"
| "kNum4x4BlocksHigh kBlock64x16 = 4"
| "kNum4x4BlocksHigh kBlock64x32 = 8"
| "kNum4x4BlocksHigh kBlock64x64 = 16"
| "kNum4x4BlocksHigh kBlock64x128 = 32"
| "kNum4x4BlocksHigh kBlock128x64 = 16"
| "kNum4x4BlocksHigh kBlock128x128 = 32"

definition kWarpValidThreshold :: "int list" where
  "kWarpValidThreshold =
     [16, 16, 16, 16, 16, 16, 32, 16, 16, 16, 32,
      64, 32, 32, 32, 64, 64, 64, 64, 112, 112, 112]"

text \<open>
  The prediction modes that \<^verbatim>\<open>kPredictionModeNewMvMask\<close> names; every other enumerator
  of \<^verbatim>\<open>PredictionMode\<close> is \<open>kPredictionModeOther\<close> with its value.
\<close>

datatype PredictionMode =
    kPredictionModeNewMv
  | kPredictionModeNewNewMv
  | kPredictionModeNearNewMv
  | kPredictionModeNewNearMv
  | kPredictionModeNearestNewMv
  | kPredictionModeNewNearestMv
  | kPredictionModeOther nat

fun kPredictionModeNewMvMask :: "PredictionMode \<Rightarrow> bool" where
  "kPredictionModeNewMvMask (kPredictionModeOther n) = False"
| "kPredictionModeNewMvMask m = True"

text \<open>
  The fields of \<^verbatim>\<open>BlockParameters\<close> that the embedded functions read;
  \<open>size'\<close> is the field \<^verbatim>\<open>size\<close>.
\<close>

record BlockParameters =
  size' :: BlockSize
  skip :: bool
  is_inter :: bool
  is_global_mv_block :: bool
  y_mode :: PredictionMode
  reference_frame :: "ReferenceFrameType \<times> ReferenceFrameType"
  mv :: CandidateMotionVector
  deblock_filter_level :: "nat \<Rightarrow> 8 word"

text \<open>
  The class \<^verbatim>\<open>Tile\<close> is not among the sources. Its queries are fields: the predicates
  on positions, and \<open>Parameters\<close>, the block parameters stored for a position, which is
  also what the pointers from \<^verbatim>\<open>BlockParametersAddress\<close> lead to (the scans dereference
  them without a check, so the grid is total here). \<open>order_hint_shift_bits\<close> is the field
  of the sequence header and \<open>current_frame_order_hint\<close> is
  \<^verbatim>\<open>current_frame().order_hint(reference)\<close>.
\<close>

record Tile =
  frame_header :: ObuFrameHeader
  order_hint_shift_bits :: int
  current_frame_order_hint :: "ReferenceFrameType \<Rightarrow> int"
  IsInside :: "int \<Rightarrow> int \<Rightarrow> bool"
  IsTopInside :: "int \<Rightarrow> bool"
  IsLeftInside :: "int \<Rightarrow> bool"
  IsTopLeftInside :: "int \<Rightarrow> int \<Rightarrow> bool"
  HasParameters :: "int \<Rightarrow> int \<Rightarrow> bool"
  Parameters :: "int \<Rightarrow> int \<Rightarrow> BlockParameters"

text \<open>
  \<^verbatim>\<open>Tile::Block\<close>: \<open>block_size\<close> is its field \<^verbatim>\<open>size\<close>, \<open>bp\<close> the parameters of the
  block itself, \<open>top_available\<close> and \<open>left_available\<close> the entries for \<^verbatim>\<open>kPlaneY\<close>.
  The constructor of the block derives its dimensions from its size.
\<close>

record Block =
  tile :: Tile
  row4x4 :: int
  column4x4 :: int
  block_size :: BlockSize
  bp :: BlockParameters
  top_available :: bool
  left_available :: bool

definition width4x4 :: "Block \<Rightarrow> int" where
  "width4x4 block = kNum4x4BlocksWide (block_size block)"

definition height4x4 :: "Block \<Rightarrow> int" where
  "height4x4 block = kNum4x4BlocksHigh (block_size block)"

definition width :: "Block \<Rightarrow> int" where
  "width block = 4 * width4x4 block"

definition height :: "Block \<Rightarrow> int" where
  "height block = 4 * height4x4 block"

record TemporalMotionField =
  mf_mv :: "int \<Rightarrow> int \<Rightarrow> MotionVector"
  mf_reference_offset :: "int \<Rightarrow> int \<Rightarrow> int"

record PredictionParameters =
  ref_mv_stack :: "nat \<Rightarrow> CandidateMotionVector"
  weight_index_stack :: "nat \<Rightarrow> int16"
  nearest_mv_count :: nat
  ref_mv_count :: nat
  global_mv :: "MotionVector \<times> MotionVector"

record MvContexts =
  zero_mv :: int
  new_mv :: int
  reference_mv :: int

text \<open>
  Modelled from the spec: the capacity of \<^verbatim>\<open>ref_mv_stack\<close>, \<^verbatim>\<open>kMaxRefMvStackSize\<close>
  (utils/constants.h), is not among the sources; the spec gives the "ordered array
  (\<open>\<le>\<close> 8 entries)" and its "8-slot capacity".
\<close>

definition kMaxRefMvStackSize :: nat where
  "kMaxRefMvStackSize = 8"

text \<open>
  Functions, tables and constants of the repository that motion_vector.cc uses and that
  are not among the sources. The embedding is parametric in them. The two methods of
  \<^verbatim>\<open>PredictionParameters\<close> write one entry of \<^verbatim>\<open>weight_index_stack\<close> each:
  \<open>WeightIndexStackEntry index weight\<close> is the entry that \<^verbatim>\<open>SetWeightIndexStackEntry\<close>
  stores and \<open>IncreasedWeight entry weight\<close> the entry that \<^verbatim>\<open>IncreaseWeight\<close> leaves.
\<close>

record Externals =
  IsGlobalMvBlock :: "bool \<Rightarrow> GlobalMotionTransformationType \<Rightarrow> bool"
  GetRelativeDistance :: "int \<Rightarrow> int \<Rightarrow> int \<Rightarrow> int"
  RightShiftWithRoundingSigned :: "int \<Rightarrow> nat \<Rightarrow> int"
  kProjectionMvDivisionLookup :: "int \<Rightarrow> int"
  kMaxFrameDistance :: int
  kProjectionMvClamp :: int
  kWarpedModelPrecisionBits :: nat
  kInvalidMvValue :: int
  kMaxLeastSquaresSamples :: nat
  WeightIndexStackEntry :: "nat \<Rightarrow> int \<Rightarrow> int16"
  IncreasedWeight :: "int16 \<Rightarrow> int \<Rightarrow> int16"

definition SetWeightIndexStackEntry ::
  "Externals \<Rightarrow> nat \<Rightarrow> int \<Rightarrow> PredictionParameters \<Rightarrow> PredictionParameters" where
  "SetWeightIndexStackEntry ext index weight pp =
     pp\<lparr>weight_index_stack :=
          (weight_index_stack pp)(index := WeightIndexStackEntry ext index weight)\<rparr>"

definition IncreaseWeight ::
  "Externals \<Rightarrow> nat \<Rightarrow> int \<Rightarrow> PredictionParameters \<Rightarrow> PredictionParameters" where
  "IncreaseWeight ext index weight pp =
     pp\<lparr>weight_index_stack :=
          (weight_index_stack pp)
            (index := IncreasedWeight ext (weight_index_stack pp index) weight)\<rparr>"

text \<open>The helpers of utils/common.h that are named for what they compute.\<close>

definition Clip3 :: "int \<Rightarrow> int \<Rightarrow> int \<Rightarrow> int" where
  "Clip3 val low high = (if val < low then low else if val > high then high else val)"

definition MultiplyBy2 :: "int \<Rightarrow> int" where
  "MultiplyBy2 x = push_bit 1 x"

definition MultiplyBy4 :: "int \<Rightarrow> int" where
  "MultiplyBy4 x = push_bit 2 x"

definition MultiplyBy8 :: "int \<Rightarrow> int" where
  "MultiplyBy8 x = push_bit 3 x"

definition DivideBy2 :: "int \<Rightarrow> int" where
  "DivideBy2 x = drop_bit 1 x"

text \<open>
  \<^verbatim>\<open>std::find_if\<close> over the first \<open>n\<close> entries of an array: the index of the first entry
  that satisfies the predicate, if there is one.
\<close>

definition find_if :: "('a \<Rightarrow> bool) \<Rightarrow> (nat \<Rightarrow> 'a) \<Rightarrow> nat \<Rightarrow> nat option" where
  "find_if P a n = List.find (\<lambda>i. P (a i)) [0 ..< n]"


section \<open>motion_vector.cc: global motion vector and projection\<close>

definition GetMvProjection ::
  "Externals \<Rightarrow> MotionVector \<Rightarrow> int \<Rightarrow> int \<Rightarrow> MotionVector" where
  "GetMvProjection ext mvec numerator denominator =
     (let numerator = Clip3 numerator (- kMaxFrameDistance ext) (kMaxFrameDistance ext);
          project = (\<lambda>c. word_of_int
            (Clip3 (RightShiftWithRoundingSigned ext
                      (int32 (int32 (sint c * numerator)
                                * kProjectionMvDivisionLookup ext denominator)) 14)
               (- kProjectionMvClamp ext) (kProjectionMvClamp ext)))
      in \<lparr>mv0 = project (mv0 mvec), mv1 = project (mv1 mvec)\<rparr>)"

definition SetupGlobalMv :: "Externals \<Rightarrow> Block \<Rightarrow> nat \<Rightarrow> MotionVector" where
  "SetupGlobalMv ext block index =
     (let hdr = frame_header (tile block);
          reference_type = at2 (reference_frame (bp block)) index;
          gm = global_motion hdr reference_type;
          global_motion_type =
            (if reference_type \<noteq> kReferenceFrameIntra then type' gm
             else kNumGlobalMotionTransformationTypes)
      in if reference_type = kReferenceFrameIntra
            \<or> global_motion_type = kGlobalMotionTransformationTypeIdentity
         then zero_mv_value
         else if global_motion_type = kGlobalMotionTransformationTypeTranslation
         then LowerMvPrecision hdr
                \<lparr>mv0 = word_of_int (drop_bit (kWarpedModelPrecisionBits ext - 3) (params gm 0)),
                 mv1 = word_of_int (drop_bit (kWarpedModelPrecisionBits ext - 3) (params gm 1))\<rparr>
         else
           (let x = MultiplyBy4 (column4x4 block) + DivideBy2 (width block) - 1;
                y = MultiplyBy4 (row4x4 block) + DivideBy2 (height block) - 1;
                xc = int32 ((params gm 2 - push_bit (kWarpedModelPrecisionBits ext) 1) * x
                            + params gm 3 * y + params gm 0);
                yc = int32 (params gm 4 * x
                            + (params gm 5 - push_bit (kWarpedModelPrecisionBits ext) 1) * y
                            + params gm 1)
            in if allow_high_precision_mv hdr
               then \<lparr>mv0 = word_of_int (RightShiftWithRoundingSigned ext yc
                                           (kWarpedModelPrecisionBits ext - 3)),
                     mv1 = word_of_int (RightShiftWithRoundingSigned ext xc
                                           (kWarpedModelPrecisionBits ext - 3))\<rparr>
               else LowerMvPrecision hdr
                      \<lparr>mv0 = word_of_int (MultiplyBy2 (RightShiftWithRoundingSigned ext yc
                                              (kWarpedModelPrecisionBits ext - 2))),
                       mv1 = word_of_int (MultiplyBy2 (RightShiftWithRoundingSigned ext xc
                                              (kWarpedModelPrecisionBits ext - 2)))\<rparr>))"


section \<open>motion_vector.cc: the scans of the neighbours\<close>

text \<open>
  The local variables of \<^verbatim>\<open>FindMvStack\<close> and the variables that its callees update
  through pointers. A callee writes \<open>found_new_mv\<close>, \<open>found_match\<close>, \<open>num_mv_found\<close>,
  \<open>zero_mv_context\<close> (\<^verbatim>\<open>*zero_mv_context\<close>, where that pointer is not null) and the
  prediction parameters; \<open>found_row_match\<close>, \<open>found_column_match\<close>, \<open>dummy_bool\<close> and
  \<open>nearest_matches\<close> are locals of \<^verbatim>\<open>FindMvStack\<close>, which passes the address of one of
  the first three for \<open>found_match\<close> or \<open>found_new_mv\<close>.
\<close>

record MvSearch =
  found_new_mv :: bool
  found_match :: bool
  num_mv_found :: nat
  zero_mv_context :: int
  prediction_parameters :: PredictionParameters
  found_row_match :: bool
  found_column_match :: bool
  dummy_bool :: bool
  nearest_matches :: int

text \<open>
  The end of \<^verbatim>\<open>SearchStack\<close> and of both branches of
  \<^verbatim>\<open>AddTemporalReferenceMvCandidate\<close>: the candidate is looked up among the first
  \<open>num_mv_found\<close> entries with \<open>same\<close>; if it is there its weight grows, and if not
  it is appended unless the stack is full.
\<close>

definition AddToStack ::
  "Externals \<Rightarrow> (CandidateMotionVector \<Rightarrow> bool) \<Rightarrow> CandidateMotionVector \<Rightarrow> int
     \<Rightarrow> MvSearch \<Rightarrow> MvSearch" where
  "AddToStack ext same candidate_mv weight s =
     (let pp = prediction_parameters s
      in case find_if same (ref_mv_stack pp) (num_mv_found s) of
           Some result \<Rightarrow> s\<lparr>prediction_parameters := IncreaseWeight ext result weight pp\<rparr>
         | None \<Rightarrow>
             if num_mv_found s \<ge> kMaxRefMvStackSize then s
             else s\<lparr>prediction_parameters :=
                       SetWeightIndexStackEntry ext (num_mv_found s) weight
                         (pp\<lparr>ref_mv_stack :=
                               (ref_mv_stack pp)(num_mv_found s := candidate_mv)\<rparr>),
                    num_mv_found := num_mv_found s + 1\<rparr>)"

definition SearchStack ::
  "Externals \<Rightarrow> bool \<Rightarrow> Block \<Rightarrow> BlockParameters \<Rightarrow> nat \<Rightarrow> int
     \<Rightarrow> MotionVector \<times> MotionVector \<Rightarrow> MvSearch \<Rightarrow> MvSearch" where
  "SearchStack ext is_compound block mv_bp index weight global_mv_candidate s =
     (let hdr = frame_header (tile block);
          global_block = (\<lambda>i. IsGlobalMvBlock ext (is_global_mv_block mv_bp)
                              (type' (global_motion hdr (at2 (reference_frame (bp block)) i))));
          candidate_mv =
            (if is_compound
             then (let c = mv mv_bp;
                       c = (if global_block 0 then set2 c 0 (at2 global_mv_candidate 0) else c);
                       c = (if global_block 1 then set2 c 1 (at2 global_mv_candidate 1) else c)
                   in c)
             else ((if global_block 0 then at2 global_mv_candidate 0
                    else at2 (mv mv_bp) index),
                   zero_mv_value));
          s = s\<lparr>found_new_mv := found_new_mv s \<or> kPredictionModeNewMvMask (y_mode mv_bp),
                found_match := True\<rparr>
      in AddToStack ext
           (\<lambda>ref_mv. if is_compound then ref_mv = candidate_mv
                     else at2 ref_mv 0 = at2 candidate_mv 0)
           candidate_mv weight s)"

definition AddReferenceMvCandidate ::
  "Externals \<Rightarrow> Block \<Rightarrow> BlockParameters \<Rightarrow> bool \<Rightarrow> int
     \<Rightarrow> MotionVector \<times> MotionVector \<Rightarrow> MvSearch \<Rightarrow> MvSearch" where
  "AddReferenceMvCandidate ext block mv_bp is_compound weight global_mv' s =
     (if \<not> is_inter mv_bp then s
      else if is_compound
      then (if at2 (reference_frame mv_bp) 0 = at2 (reference_frame (bp block)) 0
               \<and> at2 (reference_frame mv_bp) 1 = at2 (reference_frame (bp block)) 1
            then SearchStack ext True block mv_bp 0 weight global_mv' s
            else s)
      else
        (let s = (if at2 (reference_frame mv_bp) 0 = at2 (reference_frame (bp block)) 0
                  then SearchStack ext False block mv_bp 0 weight global_mv' s else s);
             s = (if at2 (reference_frame mv_bp) 1 = at2 (reference_frame (bp block)) 0
                  then SearchStack ext False block mv_bp 1 weight global_mv' s else s)
         in s))"

definition GetMinimumStep :: "int \<Rightarrow> int \<Rightarrow> int" where
  "GetMinimumStep block_width_or_height4x4 delta_row_or_column =
     (if block_width_or_height4x4 \<ge> 16 then 4
      else if delta_row_or_column < - 1 then 2
      else 0)"

text \<open>
  The \<^verbatim>\<open>do \<dots> while\<close> loop of \<^verbatim>\<open>ScanRow\<close>. The pointer \<^verbatim>\<open>bps\<close> into the row \<open>mv_row\<close>
  of the grid is the column \<open>col\<close> that it points at; \<open>end_col\<close> is \<^verbatim>\<open>end_bps\<close>.
\<close>

function ScanRow_loop ::
  "Externals \<Rightarrow> Block \<Rightarrow> int \<Rightarrow> bool \<Rightarrow> MotionVector \<times> MotionVector \<Rightarrow> int \<Rightarrow> int
     \<Rightarrow> int \<Rightarrow> MvSearch \<Rightarrow> MvSearch" where
  "ScanRow_loop ext block mv_row is_compound global_mv' min_step end_col col s =
     (let mv_bp = Parameters (tile block) mv_row col;
          step = max (min (width4x4 block) (kNum4x4BlocksWide (size' mv_bp))) min_step;
          s = AddReferenceMvCandidate ext block mv_bp is_compound (MultiplyBy2 step)
                global_mv' s;
          col = col + step
      in if col < end_col
         then ScanRow_loop ext block mv_row is_compound global_mv' min_step end_col col s
         else s)"
  by pat_completeness auto
termination
proof (relation "measure (\<lambda>(ext, block, mv_row, is_compound, g, min_step, end_col, col, s).
                            nat (end_col - col))")
  show "wf (measure (\<lambda>(ext, block, mv_row, is_compound, g, min_step, end_col, col, s).
                        nat (end_col - col)))"
    by simp
next
  fix ext :: Externals and block :: Block and mv_row :: int and is_compound :: bool
    and global_mv' :: "MotionVector \<times> MotionVector" and min_step end_col col :: int
    and s :: MvSearch and mv_bp step sa cola
  assume "mv_bp = Parameters (tile block) mv_row col"
    and step: "step = max (min (width4x4 block) (kNum4x4BlocksWide (size' mv_bp))) min_step"
    and "cola = col + step" and lt: "cola < end_col"
  have "1 \<le> kNum4x4BlocksWide (block_size block)" by (cases "block_size block") simp_all
  moreover have "1 \<le> kNum4x4BlocksWide (size' mv_bp)" by (cases "size' mv_bp") simp_all
  ultimately have "1 \<le> step" unfolding step width4x4_def by simp
  with \<open>cola = col + step\<close> lt
  show "((ext, block, mv_row, is_compound, global_mv', min_step, end_col, cola, sa),
         (ext, block, mv_row, is_compound, global_mv', min_step, end_col, col, s))
        \<in> measure (\<lambda>(ext, block, mv_row, is_compound, g, min_step, end_col, col, s).
                        nat (end_col - col))"
    by simp
qed

declare ScanRow_loop.simps [simp del]

definition ScanRow ::
  "Externals \<Rightarrow> Block \<Rightarrow> int \<Rightarrow> int \<Rightarrow> bool \<Rightarrow> MotionVector \<times> MotionVector
     \<Rightarrow> MvSearch \<Rightarrow> MvSearch" where
  "ScanRow ext block mv_column delta_row is_compound global_mv' s =
     (let mv_row = row4x4 block + delta_row
      in if \<not> IsTopInside (tile block) (mv_row + 1) then s
         else
           (let min_step = GetMinimumStep (width4x4 block) delta_row;
                end_col = mv_column
                  + min (width4x4 block)
                      (min (columns4x4 (frame_header (tile block)) - column4x4 block) 16)
            in ScanRow_loop ext block mv_row is_compound global_mv' min_step end_col
                 mv_column s))"

text \<open>
  The loop of \<^verbatim>\<open>ScanColumn\<close>: \<^verbatim>\<open>bps\<close> moves down the column \<open>mv_column\<close> by
  \<^verbatim>\<open>step * stride\<close>, and is the row \<open>row\<close> that it points at.
\<close>

function ScanColumn_loop ::
  "Externals \<Rightarrow> Block \<Rightarrow> int \<Rightarrow> bool \<Rightarrow> MotionVector \<times> MotionVector \<Rightarrow> int \<Rightarrow> int
     \<Rightarrow> int \<Rightarrow> MvSearch \<Rightarrow> MvSearch" where
  "ScanColumn_loop ext block mv_column is_compound global_mv' min_step end_row row s =
     (let mv_bp = Parameters (tile block) row mv_column;
          step = max (min (height4x4 block) (kNum4x4BlocksHigh (size' mv_bp))) min_step;
          s = AddReferenceMvCandidate ext block mv_bp is_compound (MultiplyBy2 step)
                global_mv' s;
          row = row + step
      in if row < end_row
         then ScanColumn_loop ext block mv_column is_compound global_mv' min_step end_row row s
         else s)"
  by pat_completeness auto
termination
proof (relation "measure (\<lambda>(ext, block, mv_column, is_compound, g, min_step, end_row, row, s).
                            nat (end_row - row))", goal_cases)
  case 1
  show ?case by simp
next
  case (2 ext block mv_column is_compound global_mv' min_step end_row row s mv_bp step sa rowa)
  have "1 \<le> kNum4x4BlocksHigh (block_size block)" by (cases "block_size block") simp_all
  moreover have "1 \<le> kNum4x4BlocksHigh (size' mv_bp)" by (cases "size' mv_bp") simp_all
  ultimately have "1 \<le> step" unfolding 2(2) height4x4_def by simp
  with 2(4,5) show ?case by simp
qed

declare ScanColumn_loop.simps [simp del]

definition ScanColumn ::
  "Externals \<Rightarrow> Block \<Rightarrow> int \<Rightarrow> int \<Rightarrow> bool \<Rightarrow> MotionVector \<times> MotionVector
     \<Rightarrow> MvSearch \<Rightarrow> MvSearch" where
  "ScanColumn ext block mv_row delta_column is_compound global_mv' s =
     (let mv_column = column4x4 block + delta_column
      in if \<not> IsLeftInside (tile block) (mv_column + 1) then s
         else
           (let min_step = GetMinimumStep (height4x4 block) delta_column;
                end_row = mv_row
                  + min (height4x4 block)
                      (min (rows4x4 (frame_header (tile block)) - row4x4 block) 16)
            in ScanColumn_loop ext block mv_column is_compound global_mv' min_step end_row
                 mv_row s))"

definition ScanPoint ::
  "Externals \<Rightarrow> Block \<Rightarrow> int \<Rightarrow> int \<Rightarrow> bool \<Rightarrow> MotionVector \<times> MotionVector
     \<Rightarrow> MvSearch \<Rightarrow> MvSearch" where
  "ScanPoint ext block delta_row delta_column is_compound global_mv' s =
     (let mv_row = row4x4 block + delta_row;
          mv_column = column4x4 block + delta_column
      in if \<not> IsInside (tile block) mv_row mv_column
            \<or> \<not> HasParameters (tile block) mv_row mv_column
         then s
         else
           (let mv_bp = Parameters (tile block) mv_row mv_column
            in if at2 (reference_frame mv_bp) 0 = kReferenceFrameNone then s
               else AddReferenceMvCandidate ext block mv_bp is_compound 4 global_mv' s))"


section \<open>motion_vector.cc: temporal candidates\<close>

text \<open>
  \<open>has_context\<close> says that the pointer \<^verbatim>\<open>zero_mv_context\<close> is not null. The candidate of a
  reference is the projection of the temporal motion vector, or zero where the
  reference offset is 0.
\<close>

definition temporal_candidate ::
  "Externals \<Rightarrow> Block \<Rightarrow> MotionVector \<Rightarrow> int \<Rightarrow> nat \<Rightarrow> MotionVector" where
  "temporal_candidate ext block temporal_mv temporal_reference_offset i =
     (let reference_offset = GetRelativeDistance ext
            (order_hint (frame_header (tile block)))
            (current_frame_order_hint (tile block) (at2 (reference_frame (bp block)) i))
            (order_hint_shift_bits (tile block))
      in if reference_offset \<noteq> 0
         then LowerMvPrecision (frame_header (tile block))
                (GetMvProjection ext temporal_mv reference_offset temporal_reference_offset)
         else zero_mv_value)"

definition AddTemporalReferenceMvCandidate ::
  "Externals \<Rightarrow> Block \<Rightarrow> int \<Rightarrow> int \<Rightarrow> bool \<Rightarrow> MotionVector \<times> MotionVector
     \<Rightarrow> TemporalMotionField \<Rightarrow> bool \<Rightarrow> MvSearch \<Rightarrow> MvSearch" where
  "AddTemporalReferenceMvCandidate ext block delta_row delta_column is_compound global_mv'
       motion_field has_context s =
     (let mv_row = (row4x4 block + delta_row) OR 1;
          mv_column = (column4x4 block + delta_column) OR 1
      in if \<not> IsInside (tile block) mv_row mv_column then s
         else
           (let x8 = drop_bit 1 mv_column;
                y8 = drop_bit 1 mv_row;
                at_block = (has_context \<and> delta_row = 0 \<and> delta_column = 0);
                s = (if at_block then s\<lparr>zero_mv_context := 1\<rparr> else s);
                temporal_mv = mf_mv motion_field y8 x8
            in if sint (mv0 temporal_mv) = kInvalidMvValue ext then s
               else
                 (let temporal_reference_offset = mf_reference_offset motion_field y8 x8
                  in if is_compound
                     then
                       (let candidate_mv =
                              (temporal_candidate ext block temporal_mv
                                 temporal_reference_offset 0,
                               temporal_candidate ext block temporal_mv
                                 temporal_reference_offset 1);
                            s = (if at_block
                                 then s\<lparr>zero_mv_context := of_bool
                                   (\<bar>sint (mv0 (at2 candidate_mv 0))
                                       - sint (mv0 (at2 global_mv' 0))\<bar> \<ge> 16
                                    \<or> \<bar>sint (mv1 (at2 candidate_mv 0))
                                       - sint (mv1 (at2 global_mv' 0))\<bar> \<ge> 16
                                    \<or> \<bar>sint (mv0 (at2 candidate_mv 1))
                                       - sint (mv0 (at2 global_mv' 1))\<bar> \<ge> 16
                                    \<or> \<bar>sint (mv1 (at2 candidate_mv 1))
                                       - sint (mv1 (at2 global_mv' 1))\<bar> \<ge> 16)\<rparr>
                                 else s)
                        in AddToStack ext (\<lambda>ref_mv. ref_mv = candidate_mv) candidate_mv 2 s)
                     else
                       (let candidate_mv = temporal_candidate ext block temporal_mv
                              temporal_reference_offset 0;
                            s = (if at_block
                                 then s\<lparr>zero_mv_context := of_bool
                                   (\<bar>sint (mv0 candidate_mv)
                                       - sint (mv0 (at2 global_mv' 0))\<bar> \<ge> 16
                                    \<or> \<bar>sint (mv1 candidate_mv)
                                       - sint (mv1 (at2 global_mv' 0))\<bar> \<ge> 16)\<rparr>
                                 else s)
                        in AddToStack ext (\<lambda>ref_mv. at2 ref_mv 0 = candidate_mv)
                             (candidate_mv, zero_mv_value) 2 s))))"

definition IsWithinTheSame64x64Block :: "Block \<Rightarrow> int \<Rightarrow> int \<Rightarrow> bool" where
  "IsWithinTheSame64x64Block block delta_row delta_column =
     (let row = (row4x4 block AND 15) + delta_row;
          column = (column4x4 block AND 15) + delta_column
      in row \<ge> 0 \<and> row < 16 \<and> column \<ge> 0 \<and> column < 16)"

fun kTemporalScanMask :: "BlockSize \<Rightarrow> bool" where
  "kTemporalScanMask kBlock8x8 = True"
| "kTemporalScanMask kBlock8x16 = True"
| "kTemporalScanMask kBlock8x32 = True"
| "kTemporalScanMask kBlock16x8 = True"
| "kTemporalScanMask kBlock16x16 = True"
| "kTemporalScanMask kBlock16x32 = True"
| "kTemporalScanMask kBlock32x8 = True"
| "kTemporalScanMask kBlock32x16 = True"
| "kTemporalScanMask kBlock32x32 = True"
| "kTemporalScanMask b = False"

text \<open>
  The two nested loops of \<^verbatim>\<open>TemporalScan\<close>: the columns of one row, then the rows.
  \<open>TemporalScan_step\<close> is \<^verbatim>\<open>step_w\<close> for the width and \<^verbatim>\<open>step_h\<close> for the height.
\<close>

definition TemporalScan_step :: "int \<Rightarrow> int" where
  "TemporalScan_step width_or_height4x4 = (if width_or_height4x4 \<ge> 16 then 4 else 2)"

function TemporalScan_columns ::
  "Externals \<Rightarrow> Block \<Rightarrow> bool \<Rightarrow> MotionVector \<times> MotionVector \<Rightarrow> TemporalMotionField
     \<Rightarrow> bool \<Rightarrow> int \<Rightarrow> int \<Rightarrow> MvSearch \<Rightarrow> MvSearch" where
  "TemporalScan_columns ext block is_compound global_mv' motion_field has_context
       row column s =
     (if column < min (width4x4 block) 16
      then TemporalScan_columns ext block is_compound global_mv' motion_field has_context
             row (column + TemporalScan_step (width4x4 block))
             (AddTemporalReferenceMvCandidate ext block row column is_compound global_mv'
                motion_field has_context s)
      else s)"
  by pat_completeness auto
termination
  by (relation "measure (\<lambda>(ext, block, c, g, m, h, row, column, s).
                   nat (min (width4x4 block) 16 - column))")
     (auto simp: TemporalScan_step_def)

declare TemporalScan_columns.simps [simp del]

function TemporalScan_rows ::
  "Externals \<Rightarrow> Block \<Rightarrow> bool \<Rightarrow> MotionVector \<times> MotionVector \<Rightarrow> TemporalMotionField
     \<Rightarrow> bool \<Rightarrow> int \<Rightarrow> MvSearch \<Rightarrow> MvSearch" where
  "TemporalScan_rows ext block is_compound global_mv' motion_field has_context row s =
     (if row < min (height4x4 block) 16
      then TemporalScan_rows ext block is_compound global_mv' motion_field has_context
             (row + TemporalScan_step (height4x4 block))
             (TemporalScan_columns ext block is_compound global_mv' motion_field
                has_context row 0 s)
      else s)"
  by pat_completeness auto
termination
  by (relation "measure (\<lambda>(ext, block, c, g, m, h, row, s).
                   nat (min (height4x4 block) 16 - row))")
     (auto simp: TemporalScan_step_def)

declare TemporalScan_rows.simps [simp del]

definition TemporalScan ::
  "Externals \<Rightarrow> Block \<Rightarrow> bool \<Rightarrow> MotionVector \<times> MotionVector \<Rightarrow> TemporalMotionField
     \<Rightarrow> bool \<Rightarrow> MvSearch \<Rightarrow> MvSearch" where
  "TemporalScan ext block is_compound global_mv' motion_field has_context s =
     (let s = TemporalScan_rows ext block is_compound global_mv' motion_field has_context 0 s
      in if kTemporalScanMask (block_size block)
         then fold
                (\<lambda>(row, column) s.
                   if \<not> IsWithinTheSame64x64Block block row column then s
                   else AddTemporalReferenceMvCandidate ext block row column is_compound
                          global_mv' motion_field has_context s)
                [(height4x4 block, - 2),
                 (height4x4 block, width4x4 block),
                 (height4x4 block - 2, width4x4 block)]
                s
         else s)"

section \<open>motion_vector.cc: the extra search\<close>

text \<open>The four local arrays of \<^verbatim>\<open>ExtraSearch\<close> that the compound search fills.\<close>

record ExtraCompound =
  ref_id_count :: "nat \<Rightarrow> nat"
  ref_id :: "nat \<Rightarrow> nat \<Rightarrow> MotionVector"
  ref_diff_count :: "nat \<Rightarrow> nat"
  ref_diff :: "nat \<Rightarrow> nat \<Rightarrow> MotionVector"

text \<open>\<^verbatim>\<open>candidate_mv.mv[0] *= -1; candidate_mv.mv[1] *= -1;\<close>\<close>

definition negate_mv :: "MotionVector \<Rightarrow> MotionVector" where
  "negate_mv candidate_mv =
     \<lparr>mv0 = word_of_int (sint (mv0 candidate_mv) * (- 1)),
      mv1 = word_of_int (sint (mv1 candidate_mv) * (- 1))\<rparr>"

text \<open>The body of the inner loop of \<^verbatim>\<open>AddExtraCompoundMvCandidate\<close>, for \<open>i\<close> and \<open>j\<close>.\<close>

definition AddExtraCompoundMvCandidate_body ::
  "Block \<Rightarrow> BlockParameters \<Rightarrow> (ReferenceFrameType \<Rightarrow> bool) \<Rightarrow> nat \<Rightarrow> nat
     \<Rightarrow> ExtraCompound \<Rightarrow> ExtraCompound" where
  "AddExtraCompoundMvCandidate_body block bp' reference_frame_sign_bias i j e =
     (let candidate_reference_frame = at2 (reference_frame bp') i;
          candidate_mv = at2 (mv bp') i;
          block_reference_frame = at2 (reference_frame (bp block)) j
      in if candidate_reference_frame = block_reference_frame \<and> ref_id_count e j < 2
         then e\<lparr>ref_id := (ref_id e)(j := (ref_id e j)(ref_id_count e j := candidate_mv)),
                ref_id_count := (ref_id_count e)(j := ref_id_count e j + 1)\<rparr>
         else if ref_diff_count e j < 2
         then (let candidate_mv =
                     (if reference_frame_sign_bias candidate_reference_frame
                         \<noteq> reference_frame_sign_bias block_reference_frame
                      then negate_mv candidate_mv else candidate_mv)
               in e\<lparr>ref_diff := (ref_diff e)(j := (ref_diff e j)(ref_diff_count e j := candidate_mv)),
                     ref_diff_count := (ref_diff_count e)(j := ref_diff_count e j + 1)\<rparr>)
         else e)"

definition AddExtraCompoundMvCandidate ::
  "Block \<Rightarrow> int \<Rightarrow> int \<Rightarrow> (ReferenceFrameType \<Rightarrow> bool) \<Rightarrow> ExtraCompound
     \<Rightarrow> ExtraCompound" where
  "AddExtraCompoundMvCandidate block mv_row mv_column reference_frame_sign_bias e =
     (let bp' = Parameters (tile block) mv_row mv_column
      in fold
           (\<lambda>i e. if at2 (reference_frame bp') i \<le> kReferenceFrameIntra then e
                   else fold (AddExtraCompoundMvCandidate_body block bp'
                                reference_frame_sign_bias i) [0, 1] e)
           [0, 1] e)"

text \<open>The body of the loop of \<^verbatim>\<open>AddExtraSingleMvCandidate\<close>, for \<open>i\<close>.\<close>

definition AddExtraSingleMvCandidate_body ::
  "Externals \<Rightarrow> Block \<Rightarrow> BlockParameters \<Rightarrow> (ReferenceFrameType \<Rightarrow> bool) \<Rightarrow> nat
     \<Rightarrow> MvSearch \<Rightarrow> MvSearch" where
  "AddExtraSingleMvCandidate_body ext block bp' reference_frame_sign_bias i s =
     (let block_reference_frame = at2 (reference_frame (bp block)) 0;
          candidate_reference_frame = at2 (reference_frame bp') i
      in if candidate_reference_frame \<le> kReferenceFrameIntra then s
         else
           (let candidate_mv = at2 (mv bp') i;
                candidate_mv =
                  (if reference_frame_sign_bias candidate_reference_frame
                      \<noteq> reference_frame_sign_bias block_reference_frame
                   then negate_mv candidate_mv else candidate_mv);
                pp = prediction_parameters s
            in if (num_mv_found s \<noteq> 0 \<and> at2 (ref_mv_stack pp 0) 0 = candidate_mv)
                  \<or> (num_mv_found s = 2 \<and> at2 (ref_mv_stack pp 1) 0 = candidate_mv)
               then s
               else s\<lparr>prediction_parameters :=
                         SetWeightIndexStackEntry ext (num_mv_found s) 0
                           (pp\<lparr>ref_mv_stack :=
                                 (ref_mv_stack pp)
                                   (num_mv_found s := (candidate_mv, zero_mv_value))\<rparr>),
                      num_mv_found := num_mv_found s + 1\<rparr>))"

definition AddExtraSingleMvCandidate ::
  "Externals \<Rightarrow> Block \<Rightarrow> int \<Rightarrow> int \<Rightarrow> (ReferenceFrameType \<Rightarrow> bool) \<Rightarrow> MvSearch
     \<Rightarrow> MvSearch" where
  "AddExtraSingleMvCandidate ext block mv_row mv_column reference_frame_sign_bias s =
     (let bp' = Parameters (tile block) mv_row mv_column
      in fold (AddExtraSingleMvCandidate_body ext block bp' reference_frame_sign_bias)
           [0, 1] s)"

text \<open>
  The inner loop of \<^verbatim>\<open>ExtraSearch\<close> for one \<open>pass\<close>, from \<open>i\<close> on; each \<^verbatim>\<open>break\<close> returns
  the state.
\<close>

function ExtraSearch_loop ::
  "Externals \<Rightarrow> Block \<Rightarrow> bool \<Rightarrow> (ReferenceFrameType \<Rightarrow> bool) \<Rightarrow> int \<Rightarrow> nat \<Rightarrow> int
     \<Rightarrow> ExtraCompound \<times> MvSearch \<Rightarrow> ExtraCompound \<times> MvSearch" where
  "ExtraSearch_loop ext block is_compound reference_frame_sign_bias num4x4 pass i es =
     (if i < num4x4
      then
        (let mv_row = row4x4 block + (if pass = 0 then - 1 else i);
             mv_column = column4x4 block + (if pass = 0 then i else - 1)
         in if \<not> IsTopLeftInside (tile block) (mv_row + 1) (mv_column + 1) then es
            else
              (let es = (if is_compound
                         then (AddExtraCompoundMvCandidate block mv_row mv_column
                                 reference_frame_sign_bias (fst es), snd es)
                         else (fst es, AddExtraSingleMvCandidate ext block mv_row mv_column
                                 reference_frame_sign_bias (snd es)))
               in if \<not> is_compound \<and> num_mv_found (snd es) \<ge> 2 then es
                  else
                    (let bp' = Parameters (tile block) mv_row mv_column
                     in ExtraSearch_loop ext block is_compound reference_frame_sign_bias
                          num4x4 pass
                          (i + (if pass = 0 then kNum4x4BlocksWide (size' bp')
                                else kNum4x4BlocksHigh (size' bp')))
                          es)))
      else es)"
  by pat_completeness auto
termination
proof (relation "measure (\<lambda>(ext, block, c, b, num4x4, pass, i, es). nat (num4x4 - i))",
       goal_cases)
  case 1
  show ?case by simp
next
  case (2 ext block is_compound reference_frame_sign_bias num4x4 pass i es mv_row mv_column
          esa bp')
  have "0 < kNum4x4BlocksWide b" "0 < kNum4x4BlocksHigh b" for b
    by (cases b; simp)+
  with 2(1) show ?case by simp
qed

declare ExtraSearch_loop.simps [simp del]

text \<open>
  The three loops that fill \<^verbatim>\<open>combined_mvs[count].mv[i]\<close>: from \<^verbatim>\<open>ref_id[i]\<close>, from
  \<^verbatim>\<open>ref_diff[i]\<close>, and with the global motion vector.
\<close>

function combine_ref_id ::
  "ExtraCompound \<Rightarrow> nat \<Rightarrow> nat \<Rightarrow> nat \<times> (nat \<Rightarrow> CandidateMotionVector)
     \<Rightarrow> nat \<times> (nat \<Rightarrow> CandidateMotionVector)" where
  "combine_ref_id e i j cc =
     (case cc of (count', combined_mvs) \<Rightarrow>
        if j < ref_id_count e i
        then combine_ref_id e i (j + 1)
               (count' + 1,
                combined_mvs(count' := set2 (combined_mvs count') i (ref_id e i j)))
        else cc)"
  by pat_completeness auto
termination
  by (relation "measure (\<lambda>(e, i, j, cc). ref_id_count e i - j)") auto

declare combine_ref_id.simps [simp del]

function combine_ref_diff ::
  "ExtraCompound \<Rightarrow> nat \<Rightarrow> nat \<Rightarrow> nat \<times> (nat \<Rightarrow> CandidateMotionVector)
     \<Rightarrow> nat \<times> (nat \<Rightarrow> CandidateMotionVector)" where
  "combine_ref_diff e i j cc =
     (case cc of (count', combined_mvs) \<Rightarrow>
        if j < ref_diff_count e i \<and> count' < 2
        then combine_ref_diff e i (j + 1)
               (count' + 1,
                combined_mvs(count' := set2 (combined_mvs count') i (ref_diff e i j)))
        else cc)"
  by pat_completeness auto
termination
  by (relation "measure (\<lambda>(e, i, j, cc). ref_diff_count e i - j)") auto

declare combine_ref_diff.simps [simp del]

function combine_global ::
  "MotionVector \<times> MotionVector \<Rightarrow> nat \<Rightarrow> nat \<times> (nat \<Rightarrow> CandidateMotionVector)
     \<Rightarrow> nat \<times> (nat \<Rightarrow> CandidateMotionVector)" where
  "combine_global global_mv' i cc =
     (case cc of (count', combined_mvs) \<Rightarrow>
        if count' < 2
        then combine_global global_mv' i
               (count' + 1,
                combined_mvs(count' := set2 (combined_mvs count') i (at2 global_mv' i)))
        else cc)"
  by pat_completeness auto
termination
  by (relation "measure (\<lambda>(g, i, cc). 2 - fst cc)") auto

declare combine_global.simps [simp del]

definition combine_mvs ::
  "ExtraCompound \<Rightarrow> MotionVector \<times> MotionVector \<Rightarrow> nat \<Rightarrow> CandidateMotionVector" where
  "combine_mvs e global_mv' =
     fold (\<lambda>i combined_mvs.
             snd (combine_global global_mv' i
                    (combine_ref_diff e i 0
                       (combine_ref_id e i 0 (0, combined_mvs)))))
       [0, 1] (\<lambda>count'. (zero_mv_value, zero_mv_value))"

text \<open>
  The two passes at the head of \<^verbatim>\<open>ExtraSearch\<close>: the row above, then the column to the
  left, each only while fewer than 2 candidates are found.
\<close>

definition ExtraSearch_passes ::
  "Externals \<Rightarrow> Block \<Rightarrow> bool \<Rightarrow> (ReferenceFrameType \<Rightarrow> bool) \<Rightarrow> MvSearch
     \<Rightarrow> ExtraCompound \<times> MvSearch" where
  "ExtraSearch_passes ext block is_compound reference_frame_sign_bias s =
     (let hdr = frame_header (tile block);
          num4x4 = min (width4x4 block)
                     (min (columns4x4 hdr - column4x4 block)
                        (min (height4x4 block) (min (rows4x4 hdr - row4x4 block) 16)));
          e = \<lparr>ref_id_count = (\<lambda>j. 0), ref_id = (\<lambda>j k. zero_mv_value),
               ref_diff_count = (\<lambda>j. 0), ref_diff = (\<lambda>j k. zero_mv_value)\<rparr>;
          es = (e, s);
          es = (if num_mv_found (snd es) < 2
                then ExtraSearch_loop ext block is_compound reference_frame_sign_bias
                       num4x4 0 0 es
                else es);
          es = (if num_mv_found (snd es) < 2
                then ExtraSearch_loop ext block is_compound reference_frame_sign_bias
                       num4x4 1 0 es
                else es)
      in es)"

text \<open>The end of \<^verbatim>\<open>ExtraSearch\<close> in compound mode, and in single prediction mode.\<close>

definition ExtraSearch_merge ::
  "Externals \<Rightarrow> MotionVector \<times> MotionVector \<Rightarrow> ExtraCompound \<Rightarrow> MvSearch \<Rightarrow> MvSearch" where
  "ExtraSearch_merge ext global_mv' e s =
     (let combined_mvs = combine_mvs e global_mv';
          pp = prediction_parameters s;
          pp = (if num_mv_found s = 1
                then SetWeightIndexStackEntry ext 1 0
                       (pp\<lparr>ref_mv_stack :=
                             (ref_mv_stack pp)
                               (1 := (if combined_mvs 0 = ref_mv_stack pp 0
                                      then combined_mvs 1 else combined_mvs 0))\<rparr>)
                else fold
                       (\<lambda>i pp. SetWeightIndexStackEntry ext i 0
                                  (pp\<lparr>ref_mv_stack :=
                                        (ref_mv_stack pp)(i := combined_mvs i)\<rparr>))
                       [0, 1] pp)
      in s\<lparr>prediction_parameters := pp, num_mv_found := 2\<rparr>)"

definition ExtraSearch_fill ::
  "Externals \<Rightarrow> MotionVector \<times> MotionVector \<Rightarrow> MvSearch \<Rightarrow> MvSearch" where
  "ExtraSearch_fill ext global_mv' s =
     s\<lparr>prediction_parameters :=
         fold
           (\<lambda>i pp. SetWeightIndexStackEntry ext i 0
                      (pp\<lparr>ref_mv_stack :=
                            (ref_mv_stack pp)
                              (i := set2 (ref_mv_stack pp i) 0 (at2 global_mv' 0))\<rparr>))
           [num_mv_found s ..< 2] (prediction_parameters s)\<rparr>"

definition ExtraSearch ::
  "Externals \<Rightarrow> Block \<Rightarrow> bool \<Rightarrow> MotionVector \<times> MotionVector
     \<Rightarrow> (ReferenceFrameType \<Rightarrow> bool) \<Rightarrow> MvSearch \<Rightarrow> MvSearch" where
  "ExtraSearch ext block is_compound global_mv' reference_frame_sign_bias s =
     (let es = ExtraSearch_passes ext block is_compound reference_frame_sign_bias s
      in if is_compound then ExtraSearch_merge ext global_mv' (fst es) (snd es)
         else ExtraSearch_fill ext global_mv' (snd es))"


section \<open>motion_vector.cc: contexts and FindMvStack\<close>

definition ComputeContexts :: "bool \<Rightarrow> int \<Rightarrow> int \<Rightarrow> MvContexts \<Rightarrow> MvContexts" where
  "ComputeContexts found_new_mv' nearest_matches' total_matches contexts =
     (if nearest_matches' = 0
      then contexts\<lparr>new_mv := min total_matches 1, reference_mv := total_matches\<rparr>
      else if nearest_matches' = 1
      then contexts\<lparr>new_mv := 3 - of_bool found_new_mv', reference_mv := 2 + total_matches\<rparr>
      else contexts\<lparr>new_mv := 5 - of_bool found_new_mv', reference_mv := 5\<rparr>)"

text \<open>
  A call that receives \<^verbatim>\<open>&found_row_match\<close> (or \<^verbatim>\<open>&found_column_match\<close>) for its
  parameter \<open>found_match\<close>, and a call that receives \<^verbatim>\<open>&dummy_bool\<close> for \<open>found_new_mv\<close>:
  the variable is copied in and copied back.
\<close>

definition with_found_row_match :: "(MvSearch \<Rightarrow> MvSearch) \<Rightarrow> MvSearch \<Rightarrow> MvSearch" where
  "with_found_row_match call s =
     (let s' = call (s\<lparr>found_match := found_row_match s\<rparr>)
      in s'\<lparr>found_row_match := found_match s'\<rparr>)"

definition with_found_column_match :: "(MvSearch \<Rightarrow> MvSearch) \<Rightarrow> MvSearch \<Rightarrow> MvSearch" where
  "with_found_column_match call s =
     (let s' = call (s\<lparr>found_match := found_column_match s\<rparr>)
      in s'\<lparr>found_column_match := found_match s'\<rparr>)"

definition with_dummy_bool :: "(MvSearch \<Rightarrow> MvSearch) \<Rightarrow> MvSearch \<Rightarrow> MvSearch" where
  "with_dummy_bool call s =
     (let s' = call (s\<lparr>found_new_mv := dummy_bool s\<rparr>)
      in s'\<lparr>dummy_bool := found_new_mv s', found_new_mv := found_new_mv s\<rparr>)"

text \<open>
  \<^verbatim>\<open>FindMvStack\<close> in four parts. The first sets up the global motion vectors and the
  locals.
\<close>

definition FindMvStack_init ::
  "Externals \<Rightarrow> Block \<Rightarrow> bool \<Rightarrow> PredictionParameters \<Rightarrow> MvSearch" where
  "FindMvStack_init ext block is_compound pp =
     (let g = global_mv pp;
          g = set2 g 0 (SetupGlobalMv ext block 0);
          g = (if is_compound then set2 g 1 (SetupGlobalMv ext block 1) else g)
      in \<lparr>found_new_mv = False, found_match = False, num_mv_found = 0,
          zero_mv_context = 0, prediction_parameters = pp\<lparr>global_mv := g\<rparr>,
          found_row_match = False, found_column_match = False, dummy_bool = False,
          nearest_matches = 0\<rparr>)"

text \<open>
  The second scans the row above, the column to the left and the point above right, and
  then records \<^verbatim>\<open>nearest_matches\<close> and \<^verbatim>\<open>nearest_mv_count\<close>; \<^verbatim>\<open>contexts->zero_mv = 0\<close>
  is the reset of \<open>zero_mv_context\<close>.
\<close>

definition FindMvStack_nearest ::
  "Externals \<Rightarrow> Block \<Rightarrow> bool \<Rightarrow> MotionVector \<times> MotionVector \<Rightarrow> MvSearch \<Rightarrow> MvSearch" where
  "FindMvStack_nearest ext block is_compound global_mv' s =
     (let s = with_found_row_match
                (ScanRow ext block (column4x4 block) (- 1) is_compound global_mv') s;
          s = with_found_column_match
                (ScanColumn ext block (row4x4 block) (- 1) is_compound global_mv') s;
          s = (if max (width4x4 block) (height4x4 block) \<le> 16
               then with_found_row_match
                      (ScanPoint ext block (- 1) (width4x4 block) is_compound global_mv') s
               else s)
      in s\<lparr>nearest_matches := of_bool (found_row_match s) + of_bool (found_column_match s),
            prediction_parameters :=
              (prediction_parameters s)\<lparr>nearest_mv_count := num_mv_found s\<rparr>,
            zero_mv_context := 0\<rparr>)"

text \<open>The body of the loop over \<^verbatim>\<open>deltas\<close>, for the index \<open>i\<close>.\<close>

definition FindMvStack_deltas ::
  "Externals \<Rightarrow> Block \<Rightarrow> bool \<Rightarrow> MotionVector \<times> MotionVector \<Rightarrow> nat
     \<Rightarrow> MvSearch \<Rightarrow> MvSearch" where
  "FindMvStack_deltas ext block is_compound global_mv' i s =
     (let delta = (if i = 0 then - 3 else - 5);
          s = (if i = 0 \<or> height4x4 block > 1
               then with_dummy_bool (with_found_row_match
                      (ScanRow ext block (column4x4 block OR 1)
                         (delta + (row4x4 block AND 1)) is_compound global_mv')) s
               else s);
          s = (if i = 0 \<or> width4x4 block > 1
               then with_dummy_bool (with_found_column_match
                      (ScanColumn ext block (row4x4 block OR 1)
                         (delta + (column4x4 block AND 1)) is_compound global_mv')) s
               else s)
      in s)"

text \<open>The third part: the temporal scan and the scans further away.\<close>

definition FindMvStack_far ::
  "Externals \<Rightarrow> Block \<Rightarrow> bool \<Rightarrow> MotionVector \<times> MotionVector \<Rightarrow> TemporalMotionField
     \<Rightarrow> bool \<Rightarrow> MvSearch \<Rightarrow> MvSearch" where
  "FindMvStack_far ext block is_compound global_mv' motion_field has_context s =
     (let s = (if use_ref_frame_mvs (frame_header (tile block))
               then TemporalScan ext block is_compound global_mv' motion_field has_context s
               else s);
          s = with_dummy_bool (with_found_row_match
                (ScanPoint ext block (- 1) (- 1) is_compound global_mv')) s
      in fold (FindMvStack_deltas ext block is_compound global_mv') [0, 1] s)"

text \<open>The fourth part: the extra search, or the two sorts of the weight index stack.\<close>

definition FindMvStack_finish ::
  "Externals \<Rightarrow> Block \<Rightarrow> bool \<Rightarrow> MotionVector \<times> MotionVector
     \<Rightarrow> (ReferenceFrameType \<Rightarrow> bool) \<Rightarrow> MvSearch \<Rightarrow> MvSearch" where
  "FindMvStack_finish ext block is_compound global_mv' reference_frame_sign_bias s =
     (if num_mv_found s < 2
      then ExtraSearch ext block is_compound global_mv' reference_frame_sign_bias s
      else
        (let pp = prediction_parameters s;
             w = SortWeightIndexStack (int (nearest_mv_count pp)) 0 (weight_index_stack pp);
             w = SortWeightIndexStack (int (num_mv_found s) - int (nearest_mv_count pp))
                   (nearest_mv_count pp) w
         in s\<lparr>prediction_parameters := pp\<lparr>weight_index_stack := w\<rparr>\<rparr>))"

text \<open>
  The state in which \<^verbatim>\<open>FindMvStack\<close> reaches \<^verbatim>\<open>if (num_mv_found < 2)\<close>, and the state
  after that statement.
\<close>

definition FindMvStack_search ::
  "Externals \<Rightarrow> Block \<Rightarrow> bool \<Rightarrow> TemporalMotionField \<Rightarrow> bool \<Rightarrow> PredictionParameters
     \<Rightarrow> MvSearch" where
  "FindMvStack_search ext block is_compound motion_field has_context pp =
     (let s = FindMvStack_init ext block is_compound pp;
          g = global_mv (prediction_parameters s);
          s = FindMvStack_nearest ext block is_compound g s
      in FindMvStack_far ext block is_compound g motion_field has_context s)"

definition FindMvStack_state ::
  "Externals \<Rightarrow> Block \<Rightarrow> bool \<Rightarrow> (ReferenceFrameType \<Rightarrow> bool) \<Rightarrow> TemporalMotionField
     \<Rightarrow> bool \<Rightarrow> PredictionParameters \<Rightarrow> MvSearch" where
  "FindMvStack_state ext block is_compound reference_frame_sign_bias motion_field
       has_context pp =
     (let s = FindMvStack_search ext block is_compound motion_field has_context pp
      in FindMvStack_finish ext block is_compound (global_mv (prediction_parameters s))
           reference_frame_sign_bias s)"

text \<open>
  \<^verbatim>\<open>FindMvStack\<close>: \<open>contexts\<close> is \<open>None\<close> for a null pointer; the result is the prediction
  parameters and the contexts as the function leaves them.
\<close>

definition FindMvStack ::
  "Externals \<Rightarrow> Block \<Rightarrow> bool \<Rightarrow> (ReferenceFrameType \<Rightarrow> bool) \<Rightarrow> TemporalMotionField
     \<Rightarrow> MvContexts option \<Rightarrow> PredictionParameters
     \<Rightarrow> PredictionParameters \<times> MvContexts option" where
  "FindMvStack ext block is_compound reference_frame_sign_bias motion_field contexts pp =
     (let s = FindMvStack_state ext block is_compound reference_frame_sign_bias motion_field
                (contexts \<noteq> None) pp;
          total_matches = of_bool (found_row_match s) + of_bool (found_column_match s)
      in ((prediction_parameters s)\<lparr>ref_mv_count := num_mv_found s\<rparr>,
          map_option
            (\<lambda>c. ComputeContexts (found_new_mv s) (nearest_matches s) total_matches
                    (c\<lparr>zero_mv := zero_mv_context s\<rparr>))
            contexts))"


section \<open>motion_vector.cc: samples for the local warp\<close>

text \<open>
  The three outputs of \<^verbatim>\<open>AddSample\<close> and \<^verbatim>\<open>FindWarpSamples\<close>: the two counters behind
  the pointers, and the array \<^verbatim>\<open>candidates[kMaxLeastSquaresSamples][4]\<close>.
\<close>

record WarpSamples =
  num_warp_samples :: nat
  num_samples_scanned :: nat
  candidates :: "nat \<Rightarrow> nat \<Rightarrow> int"

definition AddSample :: "Externals \<Rightarrow> Block \<Rightarrow> int \<Rightarrow> int \<Rightarrow> WarpSamples \<Rightarrow> WarpSamples" where
  "AddSample ext block delta_row delta_column w =
     (if num_samples_scanned w \<ge> kMaxLeastSquaresSamples ext then w
      else
        (let mv_row = row4x4 block + delta_row;
             mv_column = column4x4 block + delta_column
         in if \<not> IsInside (tile block) mv_row mv_column
               \<or> \<not> HasParameters (tile block) mv_row mv_column
            then w
            else
              (let bp' = Parameters (tile block) mv_row mv_column
               in if at2 (reference_frame bp') 0 \<noteq> at2 (reference_frame (bp block)) 0
                     \<or> at2 (reference_frame bp') 1 \<noteq> kReferenceFrameNone
                  then w
                  else
                    (let w = w\<lparr>num_samples_scanned := num_samples_scanned w + 1\<rparr>;
                         candidate_height4x4 = kNum4x4BlocksHigh (size' bp');
                         candidate_row = mv_row AND NOT (candidate_height4x4 - 1);
                         candidate_width4x4 = kNum4x4BlocksWide (size' bp');
                         candidate_column = mv_column AND NOT (candidate_width4x4 - 1);
                         candidate_bp = Parameters (tile block) candidate_row candidate_column;
                         mv_diff_row = \<bar>sint (mv0 (at2 (mv candidate_bp) 0))
                                         - sint (mv0 (at2 (mv (bp block)) 0))\<bar>;
                         mv_diff_column = \<bar>sint (mv1 (at2 (mv candidate_bp) 0))
                                            - sint (mv1 (at2 (mv (bp block)) 0))\<bar>;
                         is_valid = (mv_diff_row + mv_diff_column
                                      \<le> kWarpValidThreshold ! BlockSize_index (block_size block))
                     in if \<not> is_valid \<and> num_samples_scanned w > 1 then w
                        else
                          (let mid_y = MultiplyBy4 candidate_row
                                         + MultiplyBy2 candidate_height4x4 - 1;
                               mid_x = MultiplyBy4 candidate_column
                                         + MultiplyBy2 candidate_width4x4 - 1;
                               n = num_warp_samples w;
                               w = w\<lparr>candidates := (candidates w)
                                     (n := (candidates w n)
                                        (0 := MultiplyBy8 mid_y,
                                         1 := MultiplyBy8 mid_x,
                                         2 := MultiplyBy8 mid_y
                                                + sint (mv0 (at2 (mv candidate_bp) 0)),
                                         3 := MultiplyBy8 mid_x
                                                + sint (mv1 (at2 (mv candidate_bp) 0))))\<rparr>
                           in if is_valid then w\<lparr>num_warp_samples := n + 1\<rparr> else w)))))"

text \<open>The loop over the row above the block, and the loop over the column to its left.\<close>

function FindWarpSamples_top ::
  "Externals \<Rightarrow> Block \<Rightarrow> int \<Rightarrow> WarpSamples \<Rightarrow> WarpSamples" where
  "FindWarpSamples_top ext block i w =
     (if i < min (width4x4 block) (columns4x4 (frame_header (tile block)) - column4x4 block)
      then
        (let source_size = size' (Parameters (tile block) (row4x4 block - 1)
                                    (column4x4 block + i));
             step = min (width4x4 block) (kNum4x4BlocksWide source_size)
         in FindWarpSamples_top ext block (i + step) (AddSample ext block (- 1) i w))
      else w)"
  by pat_completeness auto
termination
proof (relation "measure (\<lambda>(ext, block, i, w).
         nat (min (width4x4 block) (columns4x4 (frame_header (tile block)) - column4x4 block)
              - i))", goal_cases)
  case 1
  show ?case by simp
next
  case (2 ext block i w source_size step)
  have "0 < kNum4x4BlocksWide b" for b
    by (cases b) simp_all
  with 2 show ?case by (simp add: width4x4_def)
qed

declare FindWarpSamples_top.simps [simp del]

function FindWarpSamples_left ::
  "Externals \<Rightarrow> Block \<Rightarrow> int \<Rightarrow> WarpSamples \<Rightarrow> WarpSamples" where
  "FindWarpSamples_left ext block i w =
     (if i < min (height4x4 block) (rows4x4 (frame_header (tile block)) - row4x4 block)
      then
        (let source_size = size' (Parameters (tile block) (row4x4 block + i)
                                    (column4x4 block - 1));
             step = min (height4x4 block) (kNum4x4BlocksHigh source_size)
         in FindWarpSamples_left ext block (i + step) (AddSample ext block i (- 1) w))
      else w)"
  by pat_completeness auto
termination
proof (relation "measure (\<lambda>(ext, block, i, w).
         nat (min (height4x4 block) (rows4x4 (frame_header (tile block)) - row4x4 block)
              - i))", goal_cases)
  case 1
  show ?case by simp
next
  case (2 ext block i w source_size step)
  have "0 < kNum4x4BlocksHigh b" for b
    by (cases b) simp_all
  with 2 show ?case by (simp add: height4x4_def)
qed

declare FindWarpSamples_left.simps [simp del]

text \<open>
  \<^verbatim>\<open>FindWarpSamples\<close> up to its last statement; the triple carries \<^verbatim>\<open>top_left\<close> and
  \<^verbatim>\<open>top_right\<close> with the samples.
\<close>

definition FindWarpSamples_scan :: "Externals \<Rightarrow> Block \<Rightarrow> WarpSamples \<Rightarrow> WarpSamples" where
  "FindWarpSamples_scan ext block w =
     (let top_left = True;
          top_right = True;
          (top_left, top_right, w) =
            (if top_available block
             then
               (let source_size = size' (Parameters (tile block) (row4x4 block - 1)
                                           (column4x4 block));
                    source_width4x4 = kNum4x4BlocksWide source_size
                in if width4x4 block \<le> source_width4x4
                   then
                     (let column_offset = - (column4x4 block AND (source_width4x4 - 1));
                          top_left = (if column_offset < 0 then False else top_left);
                          top_right = (if column_offset + source_width4x4 > width4x4 block
                                       then False else top_right)
                      in (top_left, top_right, AddSample ext block (- 1) 0 w))
                   else (top_left, top_right, FindWarpSamples_top ext block 0 w))
             else (top_left, top_right, w));
          (top_left, w) =
            (if left_available block
             then
               (let source_size = size' (Parameters (tile block) (row4x4 block)
                                           (column4x4 block - 1));
                    source_height4x4 = kNum4x4BlocksHigh source_size
                in if height4x4 block \<le> source_height4x4
                   then
                     (let row_offset = - (row4x4 block AND (source_height4x4 - 1));
                          top_left = (if row_offset < 0 then False else top_left)
                      in (top_left, AddSample ext block 0 (- 1) w))
                   else (top_left, FindWarpSamples_left ext block 0 w))
             else (top_left, w));
          w = (if top_left then AddSample ext block (- 1) (- 1) w else w);
          w = (if top_right \<and> BlockSize_index (block_size block) \<le> BlockSize_index kBlock64x64
               then AddSample ext block (- 1) (width4x4 block) w else w)
      in w)"

definition FindWarpSamples :: "Externals \<Rightarrow> Block \<Rightarrow> WarpSamples \<Rightarrow> WarpSamples" where
  "FindWarpSamples ext block w =
     (let w = FindWarpSamples_scan ext block w
      in if num_warp_samples w = 0 \<and> num_samples_scanned w > 0
         then w\<lparr>num_warp_samples := 1\<rparr> else w)"


section \<open>post_filter/deblock.cc: the edges of the deblocking filter\<close>

text \<open>
  A pointer to \<^verbatim>\<open>BlockParameters\<close> is an address, and \<open>mem\<close> below maps the address to
  the parameters stored there: \<^verbatim>\<open>SkipFilter\<close> compares the pointers, not the parameters.
  The enumeration \<^verbatim>\<open>TransformSize\<close> and the tables \<^verbatim>\<open>kTransformWidth\<close> and
  \<^verbatim>\<open>kTransformHeight\<close> (utils/constants.h) are not among the sources: a transform size is
  its number, and the embedding is parametric in the two tables.
\<close>

type_synonym BlockParametersPtr = nat

type_synonym TransformSize = nat

record TransformTables =
  kTransformWidth :: "TransformSize \<Rightarrow> int"
  kTransformHeight :: "TransformSize \<Rightarrow> int"

text \<open>
  The members of \<^verbatim>\<open>PostFilter\<close> that the embedded functions read, named without the
  underscore at their end: \<^verbatim>\<open>inter_transform_sizes_[row4x4][column4x4]\<close>,
  \<open>block_parameters_Find\<close> for \<^verbatim>\<open>block_parameters_.Find(row4x4, column4x4)\<close>, the number of
  planes, the subsampling of each plane, \<open>width'\<close> and \<open>height'\<close> for \<^verbatim>\<open>width_\<close> and
  \<^verbatim>\<open>height_\<close>, and \<open>frame_buffer_stride\<close> for \<^verbatim>\<open>frame_buffer_.stride(plane)\<close>, in bytes.
\<close>

record PostFilter =
  inter_transform_sizes :: "int \<Rightarrow> int \<Rightarrow> TransformSize"
  block_parameters_Find :: "int \<Rightarrow> int \<Rightarrow> BlockParametersPtr"
  planes :: nat
  subsampling_x :: "nat \<Rightarrow> nat"
  subsampling_y :: "nat \<Rightarrow> nat"
  width' :: int
  height' :: int
  frame_buffer_stride :: "nat \<Rightarrow> int"

definition SkipFilter ::
  "(BlockParametersPtr \<Rightarrow> BlockParameters) \<Rightarrow> BlockParametersPtr \<Rightarrow> BlockParametersPtr
     \<Rightarrow> bool" where
  "SkipFilter mem bp' bp_prev \<longleftrightarrow> skip (mem bp') \<and> is_inter (mem bp') \<and> bp' = bp_prev"

text \<open>
  The values behind the pointers \<^verbatim>\<open>level\<close>, \<^verbatim>\<open>step\<close> and \<^verbatim>\<open>filter_length\<close> go in as a
  triple and come out with the returned boolean.
\<close>

type_synonym EdgeInfo = "8 word \<times> int \<times> int"

definition GetHorizontalDeblockFilterEdgeInfo ::
  "TransformTables \<Rightarrow> PostFilter \<Rightarrow> (BlockParametersPtr \<Rightarrow> BlockParameters) \<Rightarrow> int \<Rightarrow> int
     \<Rightarrow> EdgeInfo \<Rightarrow> bool \<times> EdgeInfo" where
  "GetHorizontalDeblockFilterEdgeInfo tables pf mem row4x4' column4x4' out =
     (let (level, step, filter_length) = out;
          step = kTransformHeight tables (inter_transform_sizes pf row4x4' column4x4')
      in if row4x4' = 0 then (False, level, step, filter_length)
         else
           (let bp' = block_parameters_Find pf row4x4' column4x4';
                level_this = deblock_filter_level (mem bp') 1;
                row4x4_prev = row4x4' - 1;
                bp_prev = block_parameters_Find pf row4x4_prev column4x4';
                level_prev = deblock_filter_level (mem bp_prev) 1;
                level = level_this
            in if level_this = 0 \<and> level_prev = 0 then (False, level, step, filter_length)
               else
                 (let level = (if level_this = 0 then level_prev else level)
                  in if SkipFilter mem bp' bp_prev then (False, level, step, filter_length)
                     else
                       (let step_prev = kTransformHeight tables
                              (inter_transform_sizes pf row4x4_prev column4x4');
                            filter_length = min step step_prev
                        in (True, level, step, filter_length)))))"

text \<open>
  \<^verbatim>\<open>bp_ptr\<close> points into an array of pointers: \<open>bp_ptr k\<close> is \<^verbatim>\<open>*(bp_ptr + k)\<close>.
\<close>

definition GetVerticalDeblockFilterEdgeInfo ::
  "TransformTables \<Rightarrow> PostFilter \<Rightarrow> (BlockParametersPtr \<Rightarrow> BlockParameters) \<Rightarrow> int \<Rightarrow> int
     \<Rightarrow> (int \<Rightarrow> BlockParametersPtr) \<Rightarrow> EdgeInfo \<Rightarrow> bool \<times> EdgeInfo" where
  "GetVerticalDeblockFilterEdgeInfo tables pf mem row4x4' column4x4' bp_ptr out =
     (let (level, step, filter_length) = out;
          bp' = bp_ptr 0;
          step = kTransformWidth tables (inter_transform_sizes pf row4x4' column4x4')
      in if column4x4' = 0 then (False, level, step, filter_length)
         else
           (let filter_id = 0;
                level_this = deblock_filter_level (mem bp') filter_id;
                column4x4_prev = column4x4' - 1;
                bp_prev = bp_ptr (- 1);
                level_prev = deblock_filter_level (mem bp_prev) filter_id;
                level = level_this
            in if level_this = 0 \<and> level_prev = 0 then (False, level, step, filter_length)
               else
                 (let level = (if level_this = 0 then level_prev else level)
                  in if SkipFilter mem bp' bp_prev then (False, level, step, filter_length)
                     else
                       (let step_prev = kTransformWidth tables
                              (inter_transform_sizes pf row4x4' column4x4_prev);
                            filter_length = min step step_prev
                        in (True, level, step, filter_length)))))"


section \<open>post_filter.cc: the input window of the CDEF filter\<close>

text \<open>
  An array is a function from the offset of an element to its value, and a pointer into
  it is an offset. \<^verbatim>\<open>Memset\<close> (utils/memory.h) is not among the sources: as in
  \<^verbatim>\<open>ExtendLine\<close>, where \<^verbatim>\<open>Memset(dst, src[0], left)\<close> fills the \<open>left\<close> elements before a
  line, it stores the value into \<open>n\<close> elements from \<open>dst\<close>. \<open>memcpy_elements\<close> is
  \<^verbatim>\<open>memcpy\<close> between two arrays whose elements have the same size, for \<open>n\<close> elements;
  \<^const>\<open>ucast\<close> is then the identity.
\<close>

type_synonym uint16 = "16 word"

definition Memset :: "(int \<Rightarrow> 'a) \<Rightarrow> int \<Rightarrow> 'a \<Rightarrow> int \<Rightarrow> (int \<Rightarrow> 'a)" where
  "Memset mem dst val n = (\<lambda>i. if dst \<le> i \<and> i < dst + n then val else mem i)"

definition memcpy_elements ::
  "(int \<Rightarrow> uint16) \<Rightarrow> int \<Rightarrow> (int \<Rightarrow> 'p::len word) \<Rightarrow> int \<Rightarrow> int \<Rightarrow> (int \<Rightarrow> uint16)" where
  "memcpy_elements mem dst src_mem src n =
     (\<lambda>i. if dst \<le> i \<and> i < dst + n then ucast (src_mem (src + (i - dst))) else mem i)"

text \<open>
  \<^verbatim>\<open>RightShiftWithRounding\<close> and \<^verbatim>\<open>Align\<close> (utils/common.h) are not among the sources.
  They are taken as their names say: the shift adds half of the divisor first, and
  \<^verbatim>\<open>Align\<close> rounds up to a multiple of the alignment, a power of two (the comment in
  \<^verbatim>\<open>PrepareCdefBlock\<close>: "unit_width, unit_height guarantee we build blocks on a multiple
  of 8").
\<close>

definition RightShiftWithRounding :: "int \<Rightarrow> nat \<Rightarrow> int" where
  "RightShiftWithRounding val bits = drop_bit bits (val + drop_bit 1 (push_bit bits 1))"

definition Align :: "int \<Rightarrow> int \<Rightarrow> int" where
  "Align val alignment = (val + (alignment - 1)) AND NOT (alignment - 1)"

text \<open>
  The constants \<^verbatim>\<open>kCdefBorder\<close>, \<^verbatim>\<open>PostFilter::kCdefLargeValue\<close> and
  \<^verbatim>\<open>kRestorationProcessingUnitSizeWithBorders\<close> are not among the sources; the embedding
  is parametric in them. The sentinel is an \<^verbatim>\<open>int\<close> that is stored into \<^verbatim>\<open>uint16_t\<close>.
\<close>

record CdefConstants =
  kCdefBorder :: int
  kCdefLargeValue :: int
  kRestorationProcessingUnitSizeWithBorders :: int

text \<open>
  The body of the second loop of \<^verbatim>\<open>CopyRows\<close>, which writes one row. \<^verbatim>\<open>Pixel\<close> is a word of
  8 or 16 bits, and \<^verbatim>\<open>sizeof(src[0]) == sizeof(dst[0])\<close> says that it has 2 bytes.
\<close>

definition CopyRows_row ::
  "CdefConstants \<Rightarrow> (int \<Rightarrow> 'p::len word) \<Rightarrow> int \<Rightarrow> int \<Rightarrow> bool \<Rightarrow> bool \<Rightarrow> int \<Rightarrow> int
     \<Rightarrow> (int \<Rightarrow> uint16) \<Rightarrow> (int \<Rightarrow> uint16)" where
  "CopyRows_row cst src_mem block_width unit_width is_frame_left is_frame_right src dst
       mem =
     (if LENGTH('p) div 8 = 2
      then
        (let mem = (if is_frame_left
                    then Memset mem (dst - kCdefBorder cst)
                           (word_of_int (kCdefLargeValue cst)) (kCdefBorder cst)
                    else memcpy_elements mem (dst - kCdefBorder cst) src_mem
                           (src - kCdefBorder cst) (kCdefBorder cst));
             mem = memcpy_elements mem dst src_mem src block_width;
             mem = (if is_frame_right
                    then Memset mem (dst + block_width)
                           (word_of_int (kCdefLargeValue cst))
                           (unit_width + kCdefBorder cst - block_width)
                    else memcpy_elements mem (dst + block_width) src_mem (src + block_width)
                           (unit_width + kCdefBorder cst - block_width))
         in mem)
      else
        (let mem = fold (\<lambda>x mem. mem(dst + x :=
                            if is_frame_left then word_of_int (kCdefLargeValue cst)
                            else ucast (src_mem (src + x))))
                     [- kCdefBorder cst .. - 1] mem;
             mem = fold (\<lambda>x mem. mem(dst + x := ucast (src_mem (src + x))))
                     [0 .. block_width - 1] mem;
             mem = fold (\<lambda>x mem. mem(dst + x :=
                            if is_frame_right then word_of_int (kCdefLargeValue cst)
                            else ucast (src_mem (src + x))))
                     [block_width .. unit_width + kCdefBorder cst - 1] mem
         in mem))"

text \<open>The two loops of \<^verbatim>\<open>CopyRows\<close>, for the rows that are left.\<close>

primrec CopyRows_fill ::
  "CdefConstants \<Rightarrow> int \<Rightarrow> int \<Rightarrow> nat \<Rightarrow> int \<Rightarrow> (int \<Rightarrow> uint16) \<Rightarrow> (int \<Rightarrow> uint16)" where
  "CopyRows_fill cst unit_width dst_stride 0 dst mem = mem"
| "CopyRows_fill cst unit_width dst_stride (Suc n) dst mem =
     CopyRows_fill cst unit_width dst_stride n (dst + dst_stride)
       (Memset mem dst (word_of_int (kCdefLargeValue cst))
          (unit_width + 2 * kCdefBorder cst))"

primrec CopyRows_copy ::
  "CdefConstants \<Rightarrow> (int \<Rightarrow> 'p::len word) \<Rightarrow> int \<Rightarrow> int \<Rightarrow> int \<Rightarrow> bool \<Rightarrow> bool \<Rightarrow> int
     \<Rightarrow> nat \<Rightarrow> int \<Rightarrow> int \<Rightarrow> (int \<Rightarrow> uint16) \<Rightarrow> (int \<Rightarrow> uint16)" where
  "CopyRows_copy cst src_mem src_stride block_width unit_width is_frame_left is_frame_right
       dst_stride 0 src dst mem = mem"
| "CopyRows_copy cst src_mem src_stride block_width unit_width is_frame_left is_frame_right
       dst_stride (Suc n) src dst mem =
     CopyRows_copy cst src_mem src_stride block_width unit_width is_frame_left
       is_frame_right dst_stride n (src + src_stride) (dst + dst_stride)
       (CopyRows_row cst src_mem block_width unit_width is_frame_left is_frame_right
          src dst mem)"

definition CopyRows ::
  "CdefConstants \<Rightarrow> (int \<Rightarrow> 'p::len word) \<Rightarrow> int \<Rightarrow> int \<Rightarrow> int \<Rightarrow> int \<Rightarrow> bool \<Rightarrow> bool
     \<Rightarrow> bool \<Rightarrow> bool \<Rightarrow> bool \<Rightarrow> int \<Rightarrow> (int \<Rightarrow> uint16) \<Rightarrow> int \<Rightarrow> int
     \<Rightarrow> (int \<Rightarrow> uint16)" where
  "CopyRows cst src_mem src src_stride block_width unit_width is_frame_top is_frame_bottom
       is_frame_left is_frame_right copy_top num_rows mem dst dst_stride =
     (if is_frame_top \<or> is_frame_bottom
      then
        (let dst = (if is_frame_bottom then dst - kCdefBorder cst else dst)
         in CopyRows_fill cst unit_width dst_stride (nat num_rows) dst mem)
      else
        (let (src, dst) =
               (if copy_top
                then (src - kCdefBorder cst * src_stride, dst + kCdefBorder cst)
                else (src, dst))
         in CopyRows_copy cst src_mem src_stride block_width unit_width is_frame_left
              is_frame_right dst_stride (nat num_rows) src dst mem))"

text \<open>
  The local constants of the loop body of \<^verbatim>\<open>PrepareCdefBlock\<close> for one plane.
  \<open>src_buffer\<close> is an offset into the plane \<^verbatim>\<open>source_buffer_[plane]\<close>, read as an array of
  \<^verbatim>\<open>Pixel\<close>; \<open>pixel_size\<close> is \<^verbatim>\<open>sizeof(Pixel)\<close>.
\<close>

record CdefBlock =
  block_width :: int
  block_height :: int
  unit_width :: int
  unit_height :: int
  is_frame_left :: bool
  is_frame_right :: bool
  is_frame_top :: bool
  is_frame_bottom :: bool
  src_stride :: int
  src_buffer :: int

definition PrepareCdefBlock_locals ::
  "PostFilter \<Rightarrow> int \<Rightarrow> int \<Rightarrow> int \<Rightarrow> int \<Rightarrow> int \<Rightarrow> nat \<Rightarrow> CdefBlock" where
  "PrepareCdefBlock_locals pf pixel_size block_width4x4 block_height4x4 row_64x64
       column_64x64 plane =
     (let start_x = drop_bit (subsampling_x pf plane) (MultiplyBy4 column_64x64);
          start_y = drop_bit (subsampling_y pf plane) (MultiplyBy4 row_64x64);
          plane_width = RightShiftWithRounding (width' pf) (subsampling_x pf plane);
          plane_height = RightShiftWithRounding (height' pf) (subsampling_y pf plane);
          bw = drop_bit (subsampling_x pf plane) (MultiplyBy4 block_width4x4);
          bh = drop_bit (subsampling_y pf plane) (MultiplyBy4 block_height4x4);
          stride = cpp_div (frame_buffer_stride pf plane) pixel_size
      in \<lparr>block_width = bw, block_height = bh,
          unit_width = Align bw (if subsampling_x pf plane > 0 then 4 else 8),
          unit_height = Align bh (if subsampling_y pf plane > 0 then 4 else 8),
          is_frame_left = (column_64x64 = 0),
          is_frame_right = (start_x + bw \<ge> plane_width),
          is_frame_top = (row_64x64 = 0),
          is_frame_bottom = (start_y + bh \<ge> plane_height),
          src_stride = stride,
          src_buffer = start_y * stride + start_x\<rparr>)"

text \<open>
  The loop body of \<^verbatim>\<open>PrepareCdefBlock\<close> for one plane, and the loop over the planes;
  \<open>source_buffer plane\<close> is the array of the pixels of the plane, \<open>mem\<close> the array
  that \<^verbatim>\<open>cdef_source\<close> points into.
\<close>

definition PrepareCdefBlock_plane ::
  "CdefConstants \<Rightarrow> PostFilter \<Rightarrow> (nat \<Rightarrow> int \<Rightarrow> 'p::len word) \<Rightarrow> int \<Rightarrow> int \<Rightarrow> int \<Rightarrow> int
     \<Rightarrow> int \<Rightarrow> int \<Rightarrow> nat \<Rightarrow> (int \<Rightarrow> uint16) \<Rightarrow> (int \<Rightarrow> uint16)" where
  "PrepareCdefBlock_plane cst pf source_buffer block_width4x4 block_height4x4 row_64x64
       column_64x64 cdef_source cdef_stride plane mem =
     (let cdef_src = cdef_source
            + int plane * kRestorationProcessingUnitSizeWithBorders cst
                * kRestorationProcessingUnitSizeWithBorders cst;
          l = PrepareCdefBlock_locals pf (int (LENGTH('p) div 8)) block_width4x4
                block_height4x4 row_64x64 column_64x64 plane;
          mem = CopyRows cst (source_buffer plane) (src_buffer l) (src_stride l)
                  (block_width l) (unit_width l) (is_frame_top l) False (is_frame_left l)
                  (is_frame_right l) True (kCdefBorder cst) mem cdef_src cdef_stride;
          cdef_src = cdef_src + kCdefBorder cst * cdef_stride + kCdefBorder cst;
          mem = CopyRows cst (source_buffer plane) (src_buffer l) (src_stride l)
                  (block_width l) (unit_width l) False False (is_frame_left l)
                  (is_frame_right l) False (block_height l) mem cdef_src cdef_stride;
          src_buffer' = src_buffer l + block_height l * src_stride l;
          cdef_src = cdef_src + block_height l * cdef_stride;
          mem = CopyRows cst (source_buffer plane) src_buffer' (src_stride l)
                  (block_width l) (unit_width l) False (is_frame_bottom l) (is_frame_left l)
                  (is_frame_right l) False
                  (kCdefBorder cst + unit_height l - block_height l) mem cdef_src
                  cdef_stride
      in mem)"

definition PrepareCdefBlock ::
  "CdefConstants \<Rightarrow> PostFilter \<Rightarrow> (nat \<Rightarrow> int \<Rightarrow> 'p::len word) \<Rightarrow> int \<Rightarrow> int \<Rightarrow> int \<Rightarrow> int
     \<Rightarrow> int \<Rightarrow> int \<Rightarrow> (int \<Rightarrow> uint16) \<Rightarrow> (int \<Rightarrow> uint16)" where
  "PrepareCdefBlock cst pf source_buffer block_width4x4 block_height4x4 row_64x64
       column_64x64 cdef_source cdef_stride mem =
     fold (PrepareCdefBlock_plane cst pf source_buffer block_width4x4 block_height4x4
             row_64x64 column_64x64 cdef_source cdef_stride)
       [0 ..< planes pf] mem"


section \<open>Example inputs\<close>

definition example_externals :: Externals where
  "example_externals =
     \<lparr>IsGlobalMvBlock = (\<lambda>is_global t. is_global
          \<and> t \<noteq> kGlobalMotionTransformationTypeIdentity
          \<and> t \<noteq> kGlobalMotionTransformationTypeTranslation),
      GetRelativeDistance = (\<lambda>a b bits. a - b),
      RightShiftWithRoundingSigned = (\<lambda>v bits.
          if v \<ge> 0 then drop_bit bits (v + push_bit bits 1 div 2)
          else - drop_bit bits (- v + push_bit bits 1 div 2)),
      kProjectionMvDivisionLookup = (\<lambda>d. 16384 div d),
      kMaxFrameDistance = 31,
      kProjectionMvClamp = 16383,
      kWarpedModelPrecisionBits = 16,
      kInvalidMvValue = - 32768,
      kMaxLeastSquaresSamples = 8,
      WeightIndexStackEntry = (\<lambda>index weight. word_of_int (weight * 8 + 7 - int index)),
      IncreasedWeight = (\<lambda>entry weight. entry + word_of_int (weight * 8))\<rparr>"

definition example_header :: ObuFrameHeader where
  "example_header =
     \<lparr>allow_high_precision_mv = False, force_integer_mv = 0, use_ref_frame_mvs = False,
      rows4x4 = 16, columns4x4 = 16, order_hint = 0,
      global_motion = (\<lambda>r. \<lparr>type' = kGlobalMotionTransformationTypeIdentity,
                              params = (\<lambda>i. 0)\<rparr>)\<rparr>"

text \<open>
  An inter block of 8x8 pixels that predicts from the reference \<open>r\<close> alone with the
  motion vector \<open>(a, b)\<close>.
\<close>

definition example_bp :: "ReferenceFrameType \<Rightarrow> int16 \<Rightarrow> int16 \<Rightarrow> BlockParameters" where
  "example_bp r a b =
     \<lparr>size' = kBlock8x8, skip = False, is_inter = True, is_global_mv_block = False,
      y_mode = kPredictionModeOther 13, reference_frame = (r, kReferenceFrameNone),
      mv = (\<lparr>mv0 = a, mv1 = b\<rparr>, zero_mv_value),
      deblock_filter_level = (\<lambda>i. 0)\<rparr>"

text \<open>
  A tile of 16x16 units that starts at the corner of the frame, every unit of which holds
  the parameters \<open>neighbour\<close>.
\<close>

definition example_tile :: "BlockParameters \<Rightarrow> Tile" where
  "example_tile neighbour =
     \<lparr>frame_header = example_header, order_hint_shift_bits = 0,
      current_frame_order_hint = (\<lambda>r. 0),
      IsInside = (\<lambda>r c. 0 \<le> r \<and> r < 16 \<and> 0 \<le> c \<and> c < 16),
      IsTopInside = (\<lambda>r. 0 < r),
      IsLeftInside = (\<lambda>c. 0 < c),
      IsTopLeftInside = (\<lambda>r c. 0 < r \<and> 0 < c),
      HasParameters = (\<lambda>r c. True),
      Parameters = (\<lambda>r c. neighbour)\<rparr>"

definition example_block :: "BlockParameters \<Rightarrow> int \<Rightarrow> int \<Rightarrow> Block" where
  "example_block neighbour r c =
     \<lparr>tile = example_tile neighbour, row4x4 = r, column4x4 = c, block_size = kBlock8x8,
      bp = example_bp 1 0 0, top_available = (0 < r), left_available = (0 < c)\<rparr>"

definition example_parameters :: PredictionParameters where
  "example_parameters =
     \<lparr>ref_mv_stack = (\<lambda>i. (zero_mv_value, zero_mv_value)),
      weight_index_stack = (\<lambda>i. 0),
      nearest_mv_count = 0, ref_mv_count = 0,
      global_mv = (zero_mv_value, zero_mv_value)\<rparr>"

definition example_motion_field :: TemporalMotionField where
  "example_motion_field =
     \<lparr>mf_mv = (\<lambda>y x. \<lparr>mv0 = - 32768, mv1 = 0\<rparr>), mf_reference_offset = (\<lambda>y x. 1)\<rparr>"

definition example_samples :: WarpSamples where
  "example_samples =
     \<lparr>num_warp_samples = 0, num_samples_scanned = 0, candidates = (\<lambda>i j. 0)\<rparr>"

text \<open>
  A search state with \<open>n\<close> candidates found, over the example parameters, whose stack
  holds zero vectors.
\<close>

definition example_search :: "nat \<Rightarrow> MvSearch" where
  "example_search n =
     \<lparr>found_new_mv = False, found_match = False, num_mv_found = n, zero_mv_context = 0,
      prediction_parameters = example_parameters, found_row_match = False,
      found_column_match = False, dummy_bool = False, nearest_matches = 0\<rparr>"

text \<open>
  A frame of 16x16 pixels in three planes, the chroma planes subsampled, with pixels of 8
  bits that hold 100 plus their offset; a border of 2 and a sentinel of 16384.
\<close>

definition example_cdef_constants :: CdefConstants where
  "example_cdef_constants =
     \<lparr>kCdefBorder = 2, kCdefLargeValue = 16384,
      kRestorationProcessingUnitSizeWithBorders = 70\<rparr>"

definition example_post_filter :: PostFilter where
  "example_post_filter =
     \<lparr>inter_transform_sizes = (\<lambda>r c. 0), block_parameters_Find = (\<lambda>r c. 0),
      planes = 3, subsampling_x = (\<lambda>p. if p = 0 then 0 else 1),
      subsampling_y = (\<lambda>p. if p = 0 then 0 else 1),
      width' = 16, height' = 16, frame_buffer_stride = (\<lambda>p. 32)\<rparr>"

definition example_source_buffer :: "nat \<Rightarrow> int \<Rightarrow> 8 word" where
  "example_source_buffer p i = word_of_int (100 + i)"


section \<open>Arithmetic forms used in the proofs\<close>

text \<open>What the two loop bodies of \<^verbatim>\<open>LowerMvPrecision\<close> compute, without bit operations.\<close>

definition snap8 :: "int \<Rightarrow> int" where
  "snap8 i = (if i < 0 then - (\<bar>i\<bar> + 3 - (\<bar>i\<bar> + 3) mod 8)
              else \<bar>i\<bar> + 3 - (\<bar>i\<bar> + 3) mod 8)"

definition toward_zero :: "int \<Rightarrow> int" where
  "toward_zero i = (if i < 0 then i + 1 else i - 1)"



section \<open>Invariants used in the proofs\<close>

text \<open>
  What every step of \<^verbatim>\<open>FindMvStack\<close> keeps: the number of candidates does not decrease
  and stays within the capacity of the stack, nothing is written beyond the capacity, and
  \<^verbatim>\<open>nearest_mv_count\<close> and \<^verbatim>\<open>global_mv\<close> are left alone.
\<close>

definition grows :: "MvSearch \<Rightarrow> MvSearch \<Rightarrow> bool" where
  "grows s s' \<longleftrightarrow>
     num_mv_found s \<le> num_mv_found s'
     \<and> (num_mv_found s \<le> kMaxRefMvStackSize \<longrightarrow> num_mv_found s' \<le> kMaxRefMvStackSize)
     \<and> (\<forall>i. kMaxRefMvStackSize \<le> i \<longrightarrow>
            ref_mv_stack (prediction_parameters s') i = ref_mv_stack (prediction_parameters s) i)
     \<and> nearest_mv_count (prediction_parameters s') = nearest_mv_count (prediction_parameters s)
     \<and> global_mv (prediction_parameters s') = global_mv (prediction_parameters s)"

text \<open>
  What every step of \<^verbatim>\<open>FindWarpSamples\<close> keeps, \<open>w\<close> being the samples at the call.
\<close>

definition warp_ok :: "Externals \<Rightarrow> WarpSamples \<Rightarrow> WarpSamples \<Rightarrow> bool" where
  "warp_ok ext w w' \<longleftrightarrow>
     num_warp_samples w' \<le> num_samples_scanned w'
     \<and> num_samples_scanned w' \<le> kMaxLeastSquaresSamples ext
     \<and> (\<forall>i. kMaxLeastSquaresSamples ext \<le> i \<longrightarrow> candidates w' i = candidates w i)"



chapter \<open>Properties\<close>

section \<open>Bit operations on integers\<close>

lemma and_7_eq_mod: "(x::int) AND 7 = x mod 8"
proof -
  have "x AND mask 3 = take_bit 3 x" by (simp only: take_bit_eq_mask)
  then show ?thesis by (simp add: take_bit_eq_mod mask_eq_exp_minus_1)
qed

lemma and_not_7_eq: "(x::int) AND NOT 7 = x - x mod 8"
proof -
  have "NOT x AND (x AND 7) = 0"
    by (rule bit_eqI) (simp add: bit_simps)
  then have "x - (x AND 7) = x AND NOT (x AND 7)"
    by (rule disjunctive_diff_eq_and_not)
  also have "\<dots> = x AND (NOT x OR NOT 7)"
    by (simp only: bit.de_Morgan_conj)
  also have "\<dots> = (x AND NOT x) OR (x AND NOT 7)"
    by (simp only: bit.conj_disj_distrib)
  also have "\<dots> = x AND NOT 7"
    by (simp only: bit.conj_cancel_right or.left_neutral)
  finally show ?thesis by (simp add: and_7_eq_mod)
qed

lemma sint16_range: "- 32768 \<le> sint (w::int16) \<and> sint w < 32768"
  using sint_ge[of w] sint_lt[of w] by simp

lemma shift15_sign:
  "- 32768 \<le> i \<Longrightarrow> i < 32768 \<Longrightarrow> drop_bit 15 (i::int) = (if i < 0 then - 1 else 0)"
  unfolding drop_bit_int_def by (simp; linarith?)

lemma ApplySign_cases: "ApplySign v 0 = v" "ApplySign v (- 1) = - v"
  by (simp_all add: ApplySign_def not_int_def)

lemma sint16_of_int:
  "sint (word_of_int k :: int16) = k - 65536 * ((k + 32768) div 65536)"
proof -
  have "sint (word_of_int k :: int16) = (k + 32768) mod 65536 - 32768"
    by (simp add: int_word_sint)
  also have "\<dots> = k - 65536 * ((k + 32768) div 65536)"
    by (simp add: minus_mult_div_eq_mod[symmetric])
  finally show ?thesis .
qed

lemma sint16_dvd: "8 dvd k \<Longrightarrow> 8 dvd sint (word_of_int k :: int16)"
  unfolding sint16_of_int by (rule dvd_diff) simp_all

lemma sint16_even: "even k \<Longrightarrow> even (sint (word_of_int k :: int16))"
  unfolding sint16_of_int by simp

lemma sint16_id: "- 32768 \<le> k \<Longrightarrow> k < 32768 \<Longrightarrow> sint (word_of_int k :: int16) = k"
  unfolding sint16_of_int by simp


section \<open>LowerMvPrecision\<close>

lemma LowerMv_integer_eq: "LowerMv_integer v = word_of_int (snap8 (sint v))"
proof (cases "sint v < 0")
  case True
  with sint16_range[of v] have "drop_bit 15 (sint v) = - 1"
    by (simp only: shift15_sign if_True)
  then show ?thesis using True
    by (simp only: LowerMv_integer_def Let_def and_not_7_eq ApplySign_cases snap8_def if_True)
next
  case False
  with sint16_range[of v] have "drop_bit 15 (sint v) = 0"
    by (simp only: shift15_sign if_False)
  then show ?thesis using False
    by (simp only: LowerMv_integer_def Let_def and_not_7_eq ApplySign_cases snap8_def if_False)
qed

lemma snap8_dvd: "8 dvd snap8 i"
  unfolding snap8_def by presburger

lemma snap8_fix: "8 dvd i \<Longrightarrow> snap8 i = i"
  unfolding snap8_def by presburger

lemma LowerMv_integer_dvd: "8 dvd sint (LowerMv_integer v)"
  unfolding LowerMv_integer_eq by (rule sint16_dvd) (rule snap8_dvd)

lemma LowerMv_integer_fix:
  assumes "8 dvd sint w"
  shows "LowerMv_integer w = w"
  unfolding LowerMv_integer_eq by (simp add: snap8_fix[OF assms])

lemma LowerMv_low_bit_eq:
  "LowerMv_low_bit v =
     (if odd (sint v) then word_of_int (toward_zero (sint v)) else v)"
proof (cases "sint v < 0")
  case True
  with sint16_range[of v] have "drop_bit 15 (sint v) = - 1"
    by (simp only: shift15_sign if_True)
  then show ?thesis using True
    by (simp add: LowerMv_low_bit_def toward_zero_def and_one_eq mod_2_eq_odd
          del: of_int_add of_int_diff)
next
  case False
  with sint16_range[of v] have "drop_bit 15 (sint v) = 0"
    by (simp only: shift15_sign if_False)
  then show ?thesis using False
    by (simp add: LowerMv_low_bit_def toward_zero_def and_one_eq mod_2_eq_odd
          del: of_int_add of_int_diff)
qed

lemma LowerMv_low_bit_even: "even (sint (LowerMv_low_bit v))"
proof (cases "odd (sint v)")
  case True
  then have "even (toward_zero (sint v))" by (simp add: toward_zero_def)
  then show ?thesis using True by (simp add: LowerMv_low_bit_eq sint16_even)
next
  case False
  then show ?thesis by (simp add: LowerMv_low_bit_eq)
qed

lemma LowerMv_low_bit_fix: "even (sint w) \<Longrightarrow> LowerMv_low_bit w = w"
  unfolding LowerMv_low_bit_eq by simp

text \<open>
  Claim C3. For every motion vector of two signed 16-bit components and every setting of
  the frame header (high precision allowed; integer motion vectors forced, where each
  component is snapped with \<^verbatim>\<open>(abs(mv) + 3) & ~7\<close> and its sign put back; neither, where an
  odd component loses its low bit through \<^verbatim>\<open>mv -= (mv >> 15) | 1\<close>), applying
  \<^verbatim>\<open>LowerMvPrecision\<close> to a vector that it has already lowered changes nothing.
\<close>

theorem LowerMvPrecision_idempotent:
  "LowerMvPrecision hdr (LowerMvPrecision hdr mvs) = LowerMvPrecision hdr mvs"
  by (simp add: LowerMvPrecision_def LowerMv_integer_fix LowerMv_integer_dvd
        LowerMv_low_bit_fix LowerMv_low_bit_even)

section \<open>SortWeightIndexStack\<close>

lemma DescendingOrderTwo_simp:
  "DescendingOrderTwo (a, b) = (if a < b then (b, a) else (a, b))"
  by (simp add: DescendingOrderTwo_def)

lemma upt_2: "[base ..< base + 2] = [base, base + 1]"
  by (simp add: upt_rec)

lemma upt_3: "[base ..< base + 3] = [base, base + 1, base + 2]"
  by (simp add: upt_rec)

lemma generic_0: "sz \<le> 0 \<Longrightarrow> SortWeightIndexStack_generic sz base ws = ws"
  by (auto simp: SortWeightIndexStack_generic_def fun_eq_iff)

lemma generic_1: "SortWeightIndexStack_generic 1 base ws = ws"
proof
  fix i
  show "SortWeightIndexStack_generic 1 base ws i = ws i"
    by (cases "i = base") (auto simp: SortWeightIndexStack_generic_def)
qed

lemma sint_eq_iff: "sint (a::int16) = sint b \<longleftrightarrow> a = b"
  by (auto intro: signed_word_eqI)

lemma small_2:
  "SortWeightIndexStack_small 2 base ws = SortWeightIndexStack_generic 2 base ws"
proof
  fix i
  consider "i = base" | "i = base + 1" | "i < base" | "base + 2 \<le> i" by linarith
  then show "SortWeightIndexStack_small 2 base ws i = SortWeightIndexStack_generic 2 base ws i"
    by cases
      (auto simp: SortWeightIndexStack_small_def SortWeightIndexStack_generic_def
        DescendingOrderTwo_simp CompareCandidateMotionVectors_def upt_2 Let_def sint_eq_iff)
qed

lemma small_3:
  "SortWeightIndexStack_small 3 base ws = SortWeightIndexStack_generic 3 base ws"
proof
  fix i
  consider "i = base" | "i = base + 1" | "i = base + 2" | "i < base" | "base + 3 \<le> i"
    by linarith
  then show "SortWeightIndexStack_small 3 base ws i = SortWeightIndexStack_generic 3 base ws i"
    by cases
      (auto simp: SortWeightIndexStack_small_def SortWeightIndexStack_generic_def
        DescendingOrderTwo_simp CompareCandidateMotionVectors_def upt_3 Let_def sint_eq_iff)
qed

text \<open>
  Claim C4. For every weight index stack and every size of at most 3, whatever the
  entries and their order (equal weights included), \<^verbatim>\<open>SortWeightIndexStack\<close>, which for
  such sizes returns at once or runs its comparison network, leaves exactly the array that
  the branch for larger sizes, \<^verbatim>\<open>std::sort\<close> with \<^verbatim>\<open>CompareCandidateMotionVectors\<close>, would
  leave: on sizes up to 3 the two are the same function.
\<close>

theorem SortWeightIndexStack_small_sizes:
  assumes "sz \<le> 3"
  shows "SortWeightIndexStack sz base stack =
         SortWeightIndexStack_generic sz base stack"
proof -
  consider "sz \<le> 0" | "sz = 1" | "sz = 2" | "sz = 3"
    using assms by linarith
  then show ?thesis
  proof cases
    case 1 then show ?thesis by (simp add: SortWeightIndexStack_def generic_0)
  next
    case 2 then show ?thesis by (simp add: SortWeightIndexStack_def generic_1)
  next
    case 3 then show ?thesis by (simp add: SortWeightIndexStack_def small_2)
  next
    case 4 then show ?thesis by (simp add: SortWeightIndexStack_def small_3)
  qed
qed


text \<open>The stack 3, 7, 5 at \<open>base = 0\<close>: both branches leave 7, 5, 3.\<close>

theorem SortWeightIndexStack_small_sizes_witness:
  "(3::int) \<le> 3
   \<and> map (SortWeightIndexStack 3 0 (\<lambda>i. if i = 0 then 3 else if i = 1 then 7 else 5))
        [0, 1, 2] = [7, 5, 3]
   \<and> SortWeightIndexStack 3 0 (\<lambda>i. if i = 0 then 3 else if i = 1 then 7 else 5)
       = SortWeightIndexStack_generic 3 0 (\<lambda>i. if i = 0 then 3 else if i = 1 then 7 else 5)"
proof -
  have h: "(3::int) \<le> 3" by simp
  have v: "map (SortWeightIndexStack 3 0 (\<lambda>i. if i = 0 then 3 else if i = 1 then 7 else 5))
             [0, 1, 2] = [7, 5, 3]"
    by (simp add: SortWeightIndexStack_def SortWeightIndexStack_small_def
          DescendingOrderTwo_def)
  show ?thesis using h v SortWeightIndexStack_small_sizes[OF h] by blast
qed

lemma insert_by_mset: "mset (insert_by cmp x xs) = add_mset x (mset xs)"
  by (induction xs) auto

lemma std_sort_mset: "mset (std_sort cmp xs) = mset xs"
  by (induction xs) (auto simp: insert_by_mset)

lemma insert_by_set: "set (insert_by cmp x xs) = insert x (set xs)"
  by (induction xs) auto

lemma insert_by_descending:
  "sorted_wrt (\<lambda>a b. sint b \<le> sint a) xs \<Longrightarrow>
   sorted_wrt (\<lambda>a b. sint b \<le> sint a) (insert_by CompareCandidateMotionVectors x xs)"
  by (induction xs) (auto simp: insert_by_set CompareCandidateMotionVectors_def)

lemma std_sort_descending:
  "sorted_wrt (\<lambda>a b. sint b \<le> sint a) (std_sort CompareCandidateMotionVectors xs)"
  by (induction xs) (auto simp: insert_by_descending)

lemma descending_unique:
  assumes "sorted_wrt (\<lambda>a b. sint b \<le> sint a) (ys :: int16 list)"
    and "sorted_wrt (\<lambda>a b. sint b \<le> sint a) zs"
    and "mset ys = mset zs"
  shows "ys = zs"
proof -
  have inj: "inj (sint :: int16 \<Rightarrow> int)"
    by (rule injI) (rule signed_word_eqI)
  have "sorted (rev (map sint ys))" "sorted (rev (map sint zs))"
    using assms(1,2) by (simp_all add: sorted_wrt_rev sorted_wrt_map rev_map[symmetric])
  moreover have "mset (rev (map sint ys)) = mset (rev (map sint zs))"
    using arg_cong[OF assms(3), of "image_mset sint"] by simp
  ultimately have "rev (map sint ys) = rev (map sint zs)"
    by (metis properties_for_sort)
  then have "map sint ys = map sint zs" by simp
  then show ?thesis using inj by (simp add: inj_map_eq_map)
qed



section \<open>ApplySuperResThreaded\<close>

lemma loop_closed:
  "i < n \<Longrightarrow>
   ApplySuperResThreaded_loop n q c i r =
     map (\<lambda>k. \<lparr>job_row4x4_start = r + int k * q, job_rows4x4 = q, job_scheduled = True\<rparr>)
       [0 ..< nat (n - 1 - i)]
     @ [\<lparr>job_row4x4_start = r + (n - 1 - i) * q, job_rows4x4 = c, job_scheduled = False\<rparr>]"
proof (induction "nat (n - 1 - i)" arbitrary: i r)
  case 0
  then have "i = n - 1" by simp
  then show ?case by simp
next
  case (Suc m)
  then have m: "m = nat (n - 1 - (i + 1))" and lt: "i + 1 < n" "i < n - 1" by simp_all
  have up: "[0 ..< nat (n - 1 - i)] = 0 # map Suc [0 ..< m]"
    using Suc(2)[symmetric] by (simp add: upt_conv_Cons map_Suc_upt del: upt_Suc)
  have "ApplySuperResThreaded_loop n q c i r =
        \<lparr>job_row4x4_start = r, job_rows4x4 = q, job_scheduled = True\<rparr>
        # ApplySuperResThreaded_loop n q c (i + 1) (r + q)"
    using lt Suc.prems by simp
  also note Suc(1)[OF m lt(1), of "r + q"]
  finally show ?case
    using lt unfolding up m by (simp add: algebra_simps comp_def)
qed


lemma cpp_div_nonneg: "0 \<le> a \<Longrightarrow> 0 < b \<Longrightarrow> cpp_div a b = a div b"
  by (cases "a = 0") (simp_all add: cpp_div_def)

lemma upto_append: "i \<le> j + 1 \<Longrightarrow> j \<le> k \<Longrightarrow> [i..j] @ [j + 1..k] = [i..k]"
proof (cases "i \<le> j")
  case True
  assume "j \<le> k"
  with True show ?thesis by (simp add: upto_split2[of i j k])
next
  case False
  assume "i \<le> j + 1"
  with False have "i = j + 1" by simp
  then show ?thesis by simp
qed

lemma pool_rows_concat:
  "0 \<le> q \<Longrightarrow>
   concat (map (\<lambda>k. [r + int k * q .. r + int k * q + q - 1]) [0 ..< m])
     = [r .. r + int m * q - 1]"
proof (induction m)
  case 0
  then show ?case by simp
next
  case (Suc m)
  have "[r .. r + int m * q - 1] @ [r + int m * q - 1 + 1 .. r + int (Suc m) * q - 1]
        = [r .. r + int (Suc m) * q - 1]"
    using Suc.prems by (intro upto_append) (simp_all add: algebra_simps)
  with Suc show ?case by (simp add: algebra_simps)
qed

lemma ApplySuperResThreaded_closed:
 assumes "0 \<le> thread_count" and "0 \<le> frame_rows4x4" and q_def: "q = frame_rows4x4 div (thread_count + 1)"
 shows "ApplySuperResThreaded thread_count frame_rows4x4 =
      map (\<lambda>k. \<lparr>job_row4x4_start = int k * q, job_rows4x4 = q, job_scheduled = True\<rparr>)
        [0 ..< nat thread_count]
      @ [\<lparr>job_row4x4_start = thread_count * q, job_rows4x4 = frame_rows4x4 - q * thread_count,
           job_scheduled = False\<rparr>]"
proof -
  have "ApplySuperResThreaded thread_count frame_rows4x4 =
        ApplySuperResThreaded_loop (thread_count + 1) q (frame_rows4x4 - q * thread_count) 0 0"
    using assms(1,2) by (simp only: ApplySuperResThreaded_def Let_def cpp_div_nonneg q_def) simp
  also have "\<dots> = map (\<lambda>k. \<lparr>job_row4x4_start = 0 + int k * q, job_rows4x4 = q, job_scheduled = True\<rparr>)
       [0 ..< nat (thread_count + 1 - 1 - 0)]
     @ [\<lparr>job_row4x4_start = 0 + (thread_count + 1 - 1 - 0) * q, job_rows4x4 = frame_rows4x4 - q * thread_count, job_scheduled = False\<rparr>]"
    using assms(1) by (intro loop_closed) simp
  finally show ?thesis by simp
qed

lemma div_mult_le_int: "0 \<le> b \<Longrightarrow> 0 \<le> a \<Longrightarrow> b * (a div (b + 1)) \<le> (a::int)"
proof -
  assume a: "0 \<le> b" "0 \<le> a"
  have "0 \<le> a mod (b + 1)" using a by simp
  moreover have "0 \<le> a div (b + 1)" using a by (simp add: pos_imp_zdiv_nonneg_iff)
  moreover have "a div (b + 1) * (b + 1) = a div (b + 1) * b + a div (b + 1)"
    by (simp add: algebra_simps)
  ultimately show ?thesis
    using div_mult_mod_eq[of a "b + 1"] by (simp add: mult.commute)
qed

lemma ApplySuperResThreaded_rows:
  assumes "0 \<le> thread_count" and "0 \<le> frame_rows4x4"
  shows "concat (map job_rows (ApplySuperResThreaded thread_count frame_rows4x4)) = [0 .. frame_rows4x4 - 1]"
proof -
  define q where "q = frame_rows4x4 div (thread_count + 1)"
  have q0: "0 \<le> q" using assms by (simp add: q_def pos_imp_zdiv_nonneg_iff)
  have qle: "thread_count * q \<le> frame_rows4x4"
    unfolding q_def using assms by (rule div_mult_le_int)
  have "concat (map job_rows (ApplySuperResThreaded thread_count frame_rows4x4))
        = [0 .. 0 + int (nat thread_count) * q - 1] @ [thread_count * q .. frame_rows4x4 - 1]"
    unfolding ApplySuperResThreaded_closed[OF assms q_def]
    using pool_rows_concat[OF q0, of 0 "nat thread_count"]
    by (simp add: job_rows_def comp_def)
  also have "\<dots> = [0 .. thread_count * q - 1] @ [thread_count * q - 1 + 1 .. frame_rows4x4 - 1]"
    using assms(1) by simp
  also have "\<dots> = [0 .. frame_rows4x4 - 1]"
    using qle q0 assms(1) by (intro upto_append) simp_all
  finally show ?thesis .
qed

text \<open>
  Claim C9. With \<open>thread_count\<close> threads in the pool and \<open>frame_rows4x4\<close> rows4x4 in the frame (both
  not negative), \<^verbatim>\<open>ApplySuperResThreaded\<close> starts \<open>thread_count + 1\<close> jobs: job \<open>k\<close> of the
  pool processes the \<open>q = frame_rows4x4 div (thread_count + 1)\<close> rows4x4 that start at \<open>k * q\<close>, and
  the calling thread processes the last \<open>frame_rows4x4 - q * thread_count\<close> rows, from
  \<open>thread_count * q\<close> on. Listed job after job, the rows are \<open>0, 1, \<dots>, frame_rows4x4 - 1\<close>: the
  shares are consecutive, disjoint, and cover every row4x4 of the frame exactly once.
\<close>

theorem ApplySuperResThreaded_partition:
  assumes "0 \<le> thread_count" and "0 \<le> frame_rows4x4"
  shows "(let q = frame_rows4x4 div (thread_count + 1) in
          ApplySuperResThreaded thread_count frame_rows4x4 =
            map (\<lambda>k. \<lparr>job_row4x4_start = int k * q, job_rows4x4 = q,
                        job_scheduled = True\<rparr>) [0 ..< nat thread_count]
            @ [\<lparr>job_row4x4_start = thread_count * q,
                 job_rows4x4 = frame_rows4x4 - q * thread_count,
                 job_scheduled = False\<rparr>])
         \<and> concat (map job_rows (ApplySuperResThreaded thread_count frame_rows4x4))
             = [0 .. frame_rows4x4 - 1]"
  unfolding Let_def
  using ApplySuperResThreaded_closed[OF assms refl] ApplySuperResThreaded_rows[OF assms]
  by (rule conjI)

text \<open>The partition of 17 rows4x4 over a pool of 3 threads and the calling thread.\<close>

theorem ApplySuperResThreaded_partition_witness:
  "(0::int) \<le> 3 \<and> (0::int) \<le> 17
   \<and> ApplySuperResThreaded 3 17 =
       [\<lparr>job_row4x4_start = 0, job_rows4x4 = 4, job_scheduled = True\<rparr>,
        \<lparr>job_row4x4_start = 4, job_rows4x4 = 4, job_scheduled = True\<rparr>,
        \<lparr>job_row4x4_start = 8, job_rows4x4 = 4, job_scheduled = True\<rparr>,
        \<lparr>job_row4x4_start = 12, job_rows4x4 = 5, job_scheduled = False\<rparr>]
   \<and> concat (map job_rows (ApplySuperResThreaded 3 17)) = [0 .. 16]"
proof -
  have h: "(0::int) \<le> 3" "(0::int) \<le> 17" by simp_all
  note p = ApplySuperResThreaded_partition[OF h]
  have e: "ApplySuperResThreaded 3 17 =
       [\<lparr>job_row4x4_start = 0, job_rows4x4 = 4, job_scheduled = True\<rparr>,
        \<lparr>job_row4x4_start = 4, job_rows4x4 = 4, job_scheduled = True\<rparr>,
        \<lparr>job_row4x4_start = 8, job_rows4x4 = 4, job_scheduled = True\<rparr>,
        \<lparr>job_row4x4_start = 12, job_rows4x4 = 5, job_scheduled = False\<rparr>]"
    using conjunct1[OF p] by (simp add: Let_def upt_rec)
  have c: "concat (map job_rows (ApplySuperResThreaded 3 17)) = [0 .. 16]"
    using conjunct2[OF p] by simp
  show ?thesis using h e c by blast
qed



section \<open>Weights of the self-guided filter\<close>

text \<open>
  Claim C5. In \<^verbatim>\<open>BoxFilterProcess\<close> (both radii of the self-guided filter active) the
  weights \<open>w0\<close> and \<open>w1\<close> are the two multipliers of \<^verbatim>\<open>sgr_proj_info\<close> and
  \<open>w2 = (1 << kSgrProjPrecisionBits) - w0 - w1\<close>, so that
  \<open>w0 + w1 + w2 = 1 << kSgrProjPrecisionBits\<close> exactly. The three weights are 16-bit
  values: the multipliers and the difference must be representable in \<^verbatim>\<open>int16_t\<close>, which
  the multipliers of a restoration unit are.
\<close>

theorem BoxFilterProcess_weights_sum:
  assumes "BoxFilterProcess_weights kSgrProjPrecisionBits multiplier0 multiplier1 = (w0, w1, w2)"
    and "- 32768 \<le> multiplier0" and "multiplier0 < 32768"
    and "- 32768 \<le> multiplier1" and "multiplier1 < 32768"
    and "- 32768 \<le> push_bit kSgrProjPrecisionBits 1 - multiplier0 - multiplier1"
    and "push_bit kSgrProjPrecisionBits 1 - multiplier0 - multiplier1 < 32768"
  shows "sint w0 = multiplier0 \<and> sint w1 = multiplier1
         \<and> sint w0 + sint w1 + sint w2 = push_bit kSgrProjPrecisionBits 1"
proof -
  have w0: "sint w0 = multiplier0" and w1: "sint w1 = multiplier1"
    using assms(1-5) by (auto simp: BoxFilterProcess_weights_def Let_def sint16_id)
  have "w2 = word_of_int (push_bit kSgrProjPrecisionBits 1 - sint w0 - sint w1)"
    using assms(1) by (auto simp: BoxFilterProcess_weights_def Let_def simp del: of_int_diff)
  then have "sint w2 = push_bit kSgrProjPrecisionBits 1 - multiplier0 - multiplier1"
    using assms(6,7) by (simp only: w0 w1 sint16_id)
  with w0 w1 show ?thesis by simp
qed

text \<open>The smallest multipliers that the bitstream codes, -96 and -32, give \<open>w2 = 256\<close>.\<close>

theorem BoxFilterProcess_weights_sum_witness:
  "BoxFilterProcess_weights 7 (- 96) (- 32) = (- 96, - 32, 256)
   \<and> sint (- 96 :: int16) + sint (- 32 :: int16) + sint (256 :: int16) = push_bit 7 1"
  using BoxFilterProcess_weights_sum[of 7 "- 96" "- 32" "- 96" "- 32" 256]
  by (simp add: BoxFilterProcess_weights_def)



section \<open>Output layers\<close>

lemma sorted_2_0_1:
  "map position_in_temporal_unit (output_layers (SortOutputLayers layers_2_0_1)) = [2, 1, 0]"
  by (simp add: SortOutputLayers_def layers_2_0_1_def OutputLayer_less_def)

text \<open>
  Claim C1, as amended. For a temporal unit with three output layers that were stored at
  \<^verbatim>\<open>position_in_temporal_unit\<close> 2, 0, 1: after \<^verbatim>\<open>output_layers\<close> is sorted with
  \<^verbatim>\<open>OutputLayer::operator<\<close> the table holds the positions 2, 1, 0, and three successive
  calls of \<^verbatim>\<open>DequeueFrame\<close>, which read it from the last entry down, return the layers at
  positions 0, 1, 2, in ascending order of position.
\<close>

theorem DequeueFrame_order_2_0_1:
  "map (map_option position_in_temporal_unit)
     (DequeueFrames 3 (SortOutputLayers layers_2_0_1)) = [Some 0, Some 1, Some 2]"
  by (simp add: SortOutputLayers_def layers_2_0_1_def OutputLayer_less_def DequeueFrame_def
        numeral_3_eq_3)

text \<open>
  The order that claim C1 states, 2, 1, 0, is not the order of the calls.
\<close>

theorem DequeueFrame_order_not_descending:
  "map (map_option position_in_temporal_unit)
     (DequeueFrames 3 (SortOutputLayers layers_2_0_1)) \<noteq> [Some 2, Some 1, Some 0]"
  by (simp add: SortOutputLayers_def layers_2_0_1_def OutputLayer_less_def DequeueFrame_def
        numeral_3_eq_3)


section \<open>The stack of FindMvStack stays within its capacity\<close>

lemma grows_refl [simp]: "grows s s"
  by (simp add: grows_def)

lemma grows_trans: "grows a b \<Longrightarrow> grows b c \<Longrightarrow> grows a c"
  by (auto simp: grows_def)

lemma grows_flags [simp]:
  "grows (s\<lparr>found_match := m\<rparr>) s' = grows s s'"
  "grows (s\<lparr>found_new_mv := n\<rparr>) s' = grows s s'"
  "grows (s\<lparr>zero_mv_context := z\<rparr>) s' = grows s s'"
  "grows (s\<lparr>found_row_match := m\<rparr>) s' = grows s s'"
  "grows (s\<lparr>found_column_match := m\<rparr>) s' = grows s s'"
  "grows (s\<lparr>dummy_bool := m\<rparr>) s' = grows s s'"
  "grows s (s'\<lparr>found_match := m\<rparr>) = grows s s'"
  "grows s (s'\<lparr>found_new_mv := n\<rparr>) = grows s s'"
  "grows s (s'\<lparr>zero_mv_context := z\<rparr>) = grows s s'"
  "grows s (s'\<lparr>found_row_match := m\<rparr>) = grows s s'"
  "grows s (s'\<lparr>found_column_match := m\<rparr>) = grows s s'"
  "grows s (s'\<lparr>dummy_bool := m\<rparr>) = grows s s'"
  by (simp_all add: grows_def)

lemma AddToStack_grows: "grows s (AddToStack ext same candidate_mv weight s)"
  by (auto simp: AddToStack_def grows_def Let_def IncreaseWeight_def
        SetWeightIndexStackEntry_def split: option.splits)

lemma SearchStack_grows:
  "grows s (SearchStack ext is_compound block mv_bp index weight g s)"
proof -
  have "grows (s\<lparr>found_new_mv := a, found_match := True\<rparr>)
          (AddToStack ext same c weight (s\<lparr>found_new_mv := a, found_match := True\<rparr>))"
    for a same c
    by (rule AddToStack_grows)
  then show ?thesis
    by (simp add: SearchStack_def Let_def)
qed

lemma AddReferenceMvCandidate_grows:
  "grows s (AddReferenceMvCandidate ext block mv_bp is_compound weight g s)"
  by (auto simp: AddReferenceMvCandidate_def Let_def
        intro: SearchStack_grows grows_trans[OF SearchStack_grows SearchStack_grows])

lemma ScanRow_loop_grows:
  "grows s (ScanRow_loop ext block mv_row is_compound g min_step end_col col s)"
proof (induction ext block mv_row is_compound g min_step end_col col s
       rule: ScanRow_loop.induct)
  case (1 ext block mv_row is_compound g min_step end_col col s)
  define mv_bp where "mv_bp = Parameters (tile block) mv_row col"
  define step where
    "step = max (min (width4x4 block) (kNum4x4BlocksWide (size' mv_bp))) min_step"
  define s1 where
    "s1 = AddReferenceMvCandidate ext block mv_bp is_compound (MultiplyBy2 step) g s"
  have g1: "grows s s1"
    unfolding s1_def by (rule AddReferenceMvCandidate_grows)
  show ?case
  proof (cases "col + step < end_col")
    case True
    have "grows s1 (ScanRow_loop ext block mv_row is_compound g min_step end_col
                      (col + step) s1)"
      using "1.IH"[OF mv_bp_def step_def s1_def refl True] .
    with g1 True show ?thesis
      by (subst ScanRow_loop.simps)
         (auto simp: Let_def mv_bp_def[symmetric] step_def[symmetric] s1_def[symmetric]
            intro: grows_trans)
  next
    case False
    with g1 show ?thesis
      by (subst ScanRow_loop.simps)
         (simp add: Let_def mv_bp_def[symmetric] step_def[symmetric] s1_def[symmetric])
  qed
qed


lemma ScanRow_grows: "grows s (ScanRow ext block mv_column delta_row is_compound g s)"
  by (simp add: ScanRow_def Let_def ScanRow_loop_grows)

lemma ScanColumn_loop_grows:
  "grows s (ScanColumn_loop ext block mv_column is_compound g min_step end_row row s)"
proof (induction ext block mv_column is_compound g min_step end_row row s
       rule: ScanColumn_loop.induct)
  case (1 ext block mv_column is_compound g min_step end_row row s)
  define mv_bp where "mv_bp = Parameters (tile block) row mv_column"
  define step where
    "step = max (min (height4x4 block) (kNum4x4BlocksHigh (size' mv_bp))) min_step"
  define s1 where
    "s1 = AddReferenceMvCandidate ext block mv_bp is_compound (MultiplyBy2 step) g s"
  have g1: "grows s s1"
    unfolding s1_def by (rule AddReferenceMvCandidate_grows)
  show ?case
  proof (cases "row + step < end_row")
    case True
    have "grows s1 (ScanColumn_loop ext block mv_column is_compound g min_step end_row
                      (row + step) s1)"
      using "1.IH"[OF mv_bp_def step_def s1_def refl True] .
    with g1 True show ?thesis
      by (subst ScanColumn_loop.simps)
         (auto simp: Let_def mv_bp_def[symmetric] step_def[symmetric] s1_def[symmetric]
            intro: grows_trans)
  next
    case False
    with g1 show ?thesis
      by (subst ScanColumn_loop.simps)
         (simp add: Let_def mv_bp_def[symmetric] step_def[symmetric] s1_def[symmetric])
  qed
qed

lemma ScanColumn_grows: "grows s (ScanColumn ext block mv_row delta_column is_compound g s)"
  by (simp add: ScanColumn_def Let_def ScanColumn_loop_grows)

lemma ScanPoint_grows: "grows s (ScanPoint ext block delta_row delta_column is_compound g s)"
  by (simp add: ScanPoint_def Let_def AddReferenceMvCandidate_grows)

lemma AddTemporalReferenceMvCandidate_grows:
  "grows s (AddTemporalReferenceMvCandidate ext block delta_row delta_column is_compound g
              motion_field has_context s)"
proof -
  have "grows s (AddToStack ext same c 2 (s\<lparr>zero_mv_context := z\<rparr>))" for same c z
    using AddToStack_grows[of "s\<lparr>zero_mv_context := z\<rparr>" ext same c 2] by simp
  moreover have "grows s (AddToStack ext same c 2 s)" for same c
    by (rule AddToStack_grows)
  ultimately show ?thesis
    by (simp add: AddTemporalReferenceMvCandidate_def Let_def)
qed

lemma TemporalScan_columns_grows:
  "grows s (TemporalScan_columns ext block is_compound g motion_field has_context row
              column s)"
proof (induction ext block is_compound g motion_field has_context row column s
       rule: TemporalScan_columns.induct)
  case (1 ext block is_compound g motion_field has_context row column s)
  show ?case
  proof (cases "column < min (width4x4 block) 16")
    case True
    have "grows s (TemporalScan_columns ext block is_compound g motion_field has_context
                     row (column + TemporalScan_step (width4x4 block))
                     (AddTemporalReferenceMvCandidate ext block row column is_compound g
                        motion_field has_context s))"
      by (rule grows_trans[OF AddTemporalReferenceMvCandidate_grows "1.IH"[OF True]])
    then show ?thesis
      by (subst TemporalScan_columns.simps) (simp only: True if_True)
  next
    case False
    show ?thesis by (subst TemporalScan_columns.simps) (simp only: False if_False grows_refl)
  qed
qed

lemma TemporalScan_rows_grows:
  "grows s (TemporalScan_rows ext block is_compound g motion_field has_context row s)"
proof (induction ext block is_compound g motion_field has_context row s
       rule: TemporalScan_rows.induct)
  case (1 ext block is_compound g motion_field has_context row s)
  show ?case
  proof (cases "row < min (height4x4 block) 16")
    case True
    have "grows s (TemporalScan_rows ext block is_compound g motion_field has_context
                     (row + TemporalScan_step (height4x4 block))
                     (TemporalScan_columns ext block is_compound g motion_field
                        has_context row 0 s))"
      by (rule grows_trans[OF TemporalScan_columns_grows "1.IH"[OF True]])
    then show ?thesis
      by (subst TemporalScan_rows.simps) (simp only: True if_True)
  next
    case False
    show ?thesis by (subst TemporalScan_rows.simps) (simp only: False if_False grows_refl)
  qed
qed

lemma fold_grows:
  assumes "\<And>x t. grows t (f x t)"
  shows "grows s (fold f xs s)"
proof (induction xs arbitrary: s)
  case Nil
  show ?case by simp
next
  case (Cons x xs)
  have "grows s (f x s)" by (rule assms)
  moreover have "grows (f x s) (fold f xs (f x s))" by (rule Cons.IH)
  ultimately show ?case by (auto intro: grows_trans)
qed

lemma TemporalScan_grows:
  "grows s (TemporalScan ext block is_compound g motion_field has_context s)"
proof -
  define s1 where
    "s1 = TemporalScan_rows ext block is_compound g motion_field has_context 0 s"
  have 1: "grows s s1"
    unfolding s1_def by (rule TemporalScan_rows_grows)
  have 2: "grows s1 (fold
          (\<lambda>(row, column) s.
             if \<not> IsWithinTheSame64x64Block block row column then s
             else AddTemporalReferenceMvCandidate ext block row column is_compound g
                    motion_field has_context s) xs s1)" for xs
    by (rule fold_grows) (auto simp: AddTemporalReferenceMvCandidate_grows)
  show ?thesis
  proof (cases "kTemporalScanMask (block_size block)")
    case True
    show ?thesis
      unfolding TemporalScan_def Let_def s1_def[symmetric]
      by (simp only: True if_True) (rule grows_trans[OF 1 2])
  next
    case False
    show ?thesis
      unfolding TemporalScan_def Let_def s1_def[symmetric]
      by (simp only: False if_False) (rule 1)
  qed
qed

lemma with_found_row_match_grows:
  "(\<And>t. grows t (call t)) \<Longrightarrow> grows s (with_found_row_match call s)"
proof -
  assume c: "\<And>t. grows t (call t)"
  show ?thesis
    using c[of "s\<lparr>found_match := found_row_match s\<rparr>"]
    by (simp add: with_found_row_match_def Let_def)
qed

lemma with_found_column_match_grows:
  "(\<And>t. grows t (call t)) \<Longrightarrow> grows s (with_found_column_match call s)"
proof -
  assume c: "\<And>t. grows t (call t)"
  show ?thesis
    using c[of "s\<lparr>found_match := found_column_match s\<rparr>"]
    by (simp add: with_found_column_match_def Let_def)
qed

lemma with_dummy_bool_grows:
  "(\<And>t. grows t (call t)) \<Longrightarrow> grows s (with_dummy_bool call s)"
proof -
  assume c: "\<And>t. grows t (call t)"
  show ?thesis
    using c[of "s\<lparr>found_new_mv := dummy_bool s\<rparr>"]
    by (simp add: with_dummy_bool_def Let_def)
qed

lemmas scan_grows =
  with_dummy_bool_grows with_found_row_match_grows with_found_column_match_grows
  ScanRow_grows ScanColumn_grows ScanPoint_grows TemporalScan_grows

lemma FindMvStack_deltas_grows:
  "grows s (FindMvStack_deltas ext block is_compound g i s)"
proof -
  let ?row = "with_dummy_bool (with_found_row_match
                (ScanRow ext block (column4x4 block OR 1)
                   ((if i = 0 then - 3 else - 5) + (row4x4 block AND 1)) is_compound g))"
  let ?col = "with_dummy_bool (with_found_column_match
                (ScanColumn ext block (row4x4 block OR 1)
                   ((if i = 0 then - 3 else - 5) + (column4x4 block AND 1)) is_compound g))"
  have r: "grows t (?row t)" for t by (intro scan_grows)
  have c: "grows t (?col t)" for t by (intro scan_grows)
  show ?thesis
    unfolding FindMvStack_deltas_def Let_def
    using r c grows_trans[OF r c] by auto
qed

lemma FindMvStack_far_grows:
  "grows s (FindMvStack_far ext block is_compound g motion_field has_context s)"
proof -
  define s1 where "s1 = (if use_ref_frame_mvs (frame_header (tile block))
               then TemporalScan ext block is_compound g motion_field has_context s
               else s)"
  define s2 where "s2 = with_dummy_bool (with_found_row_match
                (ScanPoint ext block (- 1) (- 1) is_compound g)) s1"
  have 1: "grows s s1" unfolding s1_def by (simp add: TemporalScan_grows)
  have 2: "grows s1 s2" unfolding s2_def by (intro scan_grows)
  have 3: "grows s2 (fold (FindMvStack_deltas ext block is_compound g) [0, 1] s2)"
    by (rule fold_grows) (rule FindMvStack_deltas_grows)
  have "FindMvStack_far ext block is_compound g motion_field has_context s
        = fold (FindMvStack_deltas ext block is_compound g) [0, 1] s2"
    by (simp only: FindMvStack_far_def Let_def s1_def s2_def)
  with 1 2 3 show ?thesis by (auto intro: grows_trans)
qed

lemma kMax_ge_3: "3 \<le> kMaxRefMvStackSize"
  by (simp add: kMaxRefMvStackSize_def)

lemma AddExtraSingleMvCandidate_body_grows:
  assumes "num_mv_found s \<le> 2"
  shows "grows s (AddExtraSingleMvCandidate_body ext block bp' sign_bias i s)
         \<and> num_mv_found (AddExtraSingleMvCandidate_body ext block bp' sign_bias i s)
             \<le> num_mv_found s + 1"
  using assms
  by (auto simp: AddExtraSingleMvCandidate_body_def Let_def grows_def
        SetWeightIndexStackEntry_def kMaxRefMvStackSize_def)

lemma AddExtraSingleMvCandidate_grows:
  assumes "num_mv_found s < 2"
  shows "grows s (AddExtraSingleMvCandidate ext block mv_row mv_column sign_bias s)
         \<and> num_mv_found (AddExtraSingleMvCandidate ext block mv_row mv_column sign_bias s)
             \<le> 3"
proof -
  define bp' where "bp' = Parameters (tile block) mv_row mv_column"
  define s1 where "s1 = AddExtraSingleMvCandidate_body ext block bp' sign_bias 0 s"
  define s2 where "s2 = AddExtraSingleMvCandidate_body ext block bp' sign_bias 1 s1"
  have 1: "grows s s1" "num_mv_found s1 \<le> num_mv_found s + 1"
    unfolding s1_def using AddExtraSingleMvCandidate_body_grows[of s] assms by simp_all
  then have "num_mv_found s1 \<le> 2" using assms by simp
  from AddExtraSingleMvCandidate_body_grows[OF this]
  have 2: "grows s1 s2" "num_mv_found s2 \<le> num_mv_found s1 + 1"
    unfolding s2_def by simp_all
  have "AddExtraSingleMvCandidate ext block mv_row mv_column sign_bias s = s2"
    by (simp add: AddExtraSingleMvCandidate_def Let_def s2_def s1_def bp'_def)
  with 1 2 assms grows_trans[OF 1(1) 2(1)] show ?thesis by simp
qed

text \<open>What one pass of the extra search does to the search state: nothing in compound
  mode, and in single prediction mode at most three candidates in all.\<close>

lemma ExtraSearch_loop_grows:
  assumes "num_mv_found (snd es) < 2"
  shows "grows (snd es)
           (snd (ExtraSearch_loop ext block is_compound sign_bias num4x4 pass i es))
         \<and> num_mv_found
             (snd (ExtraSearch_loop ext block is_compound sign_bias num4x4 pass i es)) \<le> 3
         \<and> (is_compound \<longrightarrow>
              snd (ExtraSearch_loop ext block is_compound sign_bias num4x4 pass i es)
                = snd es)"
  using assms
proof (induction ext block is_compound sign_bias num4x4 pass i es
       rule: ExtraSearch_loop.induct)
  case (1 ext block is_compound sign_bias num4x4 pass i es)
  define mv_row where "mv_row = row4x4 block + (if pass = 0 then - 1 else i)"
  define mv_column where "mv_column = column4x4 block + (if pass = 0 then i else - 1)"
  define es1 where
    "es1 = (if is_compound
            then (AddExtraCompoundMvCandidate block mv_row mv_column sign_bias (fst es),
                  snd es)
            else (fst es, AddExtraSingleMvCandidate ext block mv_row mv_column sign_bias
                            (snd es)))"
  define bp' where "bp' = Parameters (tile block) mv_row mv_column"
  define i' where "i' = i + (if pass = 0 then kNum4x4BlocksWide (size' bp')
                                else kNum4x4BlocksHigh (size' bp'))"
  let ?r = "ExtraSearch_loop ext block is_compound sign_bias num4x4 pass i es"
  have e1: "grows (snd es) (snd es1)" "num_mv_found (snd es1) \<le> 3"
           "is_compound \<longrightarrow> snd es1 = snd es"
    using AddExtraSingleMvCandidate_grows[OF "1.prems"] "1.prems"
    by (auto simp: es1_def)
  have unfold: "?r =
      (if i < num4x4
       then (if \<not> IsTopLeftInside (tile block) (mv_row + 1) (mv_column + 1) then es
             else (if \<not> is_compound \<and> num_mv_found (snd es1) \<ge> 2 then es1
                   else ExtraSearch_loop ext block is_compound sign_bias num4x4 pass i' es1))
       else es)"
    by (subst ExtraSearch_loop.simps)
       (simp only: Let_def mv_row_def mv_column_def es1_def bp'_def i'_def)
  consider (stop) "\<not> i < num4x4"
    | (outside) "i < num4x4"
        "\<not> IsTopLeftInside (tile block) (mv_row + 1) (mv_column + 1)"
    | (full) "i < num4x4" "IsTopLeftInside (tile block) (mv_row + 1) (mv_column + 1)"
        "\<not> is_compound \<and> num_mv_found (snd es1) \<ge> 2"
    | (more) "i < num4x4" "IsTopLeftInside (tile block) (mv_row + 1) (mv_column + 1)"
        "\<not> (\<not> is_compound \<and> num_mv_found (snd es1) \<ge> 2)"
    by blast
  then show ?case
  proof cases
    case stop
    then have "?r = es" unfolding unfold by simp
    with "1.prems" show ?thesis by auto
  next
    case outside
    then have "?r = es" unfolding unfold by simp
    with "1.prems" show ?thesis by auto
  next
    case full
    then have "?r = es1" unfolding unfold by simp
    with e1 show ?thesis by auto
  next
    case more
    then have r: "?r = ExtraSearch_loop ext block is_compound sign_bias num4x4 pass i' es1"
      unfolding unfold by auto
    have lt: "num_mv_found (snd es1) < 2"
      using more(3) e1(3) "1.prems" by (cases is_compound) auto
    have ih: "grows (snd es1)
                (snd (ExtraSearch_loop ext block is_compound sign_bias num4x4 pass i' es1))
              \<and> num_mv_found
                  (snd (ExtraSearch_loop ext block is_compound sign_bias num4x4 pass i' es1))
                  \<le> 3
              \<and> (is_compound \<longrightarrow>
                   snd (ExtraSearch_loop ext block is_compound sign_bias num4x4 pass i' es1)
                     = snd es1)"
      unfolding i'_def
      by (rule "1.IH"[OF more(1) mv_row_def mv_column_def _ es1_def _ bp'_def lt])
         (use more in simp_all)
    with e1 show ?thesis
      unfolding r by (auto intro: grows_trans)
  qed
qed

lemma ExtraSearch_passes_grows:
  assumes "num_mv_found s < 2"
  shows "grows s (snd (ExtraSearch_passes ext block is_compound sign_bias s))
         \<and> num_mv_found (snd (ExtraSearch_passes ext block is_compound sign_bias s)) \<le> 3
         \<and> (is_compound \<longrightarrow>
               snd (ExtraSearch_passes ext block is_compound sign_bias s) = s)"
proof -
  define num4x4 where
    "num4x4 = min (width4x4 block)
                (min (columns4x4 (frame_header (tile block)) - column4x4 block)
                   (min (height4x4 block)
                      (min (rows4x4 (frame_header (tile block)) - row4x4 block) 16)))"
  define e where
    "e = \<lparr>ref_id_count = (\<lambda>j. 0), ref_id = (\<lambda>j k. zero_mv_value),
          ref_diff_count = (\<lambda>j. 0), ref_diff = (\<lambda>j k. zero_mv_value)\<rparr>"
  define es1 where
    "es1 = ExtraSearch_loop ext block is_compound sign_bias num4x4 0 0 (e, s)"
  define es2 where
    "es2 = (if num_mv_found (snd es1) < 2
            then ExtraSearch_loop ext block is_compound sign_bias num4x4 1 0 es1
            else es1)"
  have eq: "ExtraSearch_passes ext block is_compound sign_bias s = es2"
    using assms
    by (simp add: ExtraSearch_passes_def Let_def es2_def es1_def e_def num4x4_def)
  have 1: "grows s (snd es1)" "num_mv_found (snd es1) \<le> 3" "is_compound \<longrightarrow> snd es1 = s"
    using ExtraSearch_loop_grows[of "(e, s)" ext block is_compound sign_bias num4x4 0 0]
      assms
    by (simp_all add: es1_def)
  have 2: "grows (snd es1) (snd es2)" "num_mv_found (snd es2) \<le> 3"
          "is_compound \<longrightarrow> snd es2 = snd es1"
    using ExtraSearch_loop_grows[of es1 ext block is_compound sign_bias num4x4 1 0] 1(2)
    by (auto simp: es2_def)
  show ?thesis
    unfolding eq using 1 2 grows_trans[OF 1(1) 2(1)] by auto
qed

lemma upt_0_2: "[0 ..< 2] = [0, Suc 0]"
  by (simp add: upt_rec)

lemma upt_1_2: "[Suc 0 ..< 2] = [Suc 0]"
  by (simp add: upt_rec)

text \<open>The last loop of the extra search in single prediction mode.\<close>

lemma ExtraSearch_fill_count [simp]:
  "num_mv_found (ExtraSearch_fill ext g s) = num_mv_found s"
  by (simp add: ExtraSearch_fill_def)

lemma ExtraSearch_fill_entries:
  assumes "num_mv_found s \<le> i" and "i < 2"
  shows "at2 (ref_mv_stack (prediction_parameters (ExtraSearch_fill ext g s)) i) 0 = at2 g 0"
    and "snd (ref_mv_stack (prediction_parameters (ExtraSearch_fill ext g s)) i)
           = snd (ref_mv_stack (prediction_parameters s) i)"
    and "weight_index_stack (prediction_parameters (ExtraSearch_fill ext g s)) i
           = WeightIndexStackEntry ext i 0"
proof -
  consider "num_mv_found s = 0" "i = 0" | "num_mv_found s = 0" "i = 1"
    | "num_mv_found s = 1" "i = 1"
    using assms by linarith
  then have "at2 (ref_mv_stack (prediction_parameters (ExtraSearch_fill ext g s)) i) 0
               = at2 g 0
             \<and> snd (ref_mv_stack (prediction_parameters (ExtraSearch_fill ext g s)) i)
               = snd (ref_mv_stack (prediction_parameters s) i)
             \<and> weight_index_stack (prediction_parameters (ExtraSearch_fill ext g s)) i
               = WeightIndexStackEntry ext i 0"
    by cases
       (simp_all add: ExtraSearch_fill_def upt_0_2 upt_1_2 SetWeightIndexStackEntry_def
          at2_def set2_def)
  then show
    "at2 (ref_mv_stack (prediction_parameters (ExtraSearch_fill ext g s)) i) 0 = at2 g 0"
    "snd (ref_mv_stack (prediction_parameters (ExtraSearch_fill ext g s)) i)
       = snd (ref_mv_stack (prediction_parameters s) i)"
    "weight_index_stack (prediction_parameters (ExtraSearch_fill ext g s)) i
       = WeightIndexStackEntry ext i 0"
    by simp_all
qed

lemma ExtraSearch_fill_others:
  assumes "i < num_mv_found s \<or> 2 \<le> i"
  shows "ref_mv_stack (prediction_parameters (ExtraSearch_fill ext g s)) i
           = ref_mv_stack (prediction_parameters s) i"
    and "weight_index_stack (prediction_parameters (ExtraSearch_fill ext g s)) i
           = weight_index_stack (prediction_parameters s) i"
proof -
  consider "num_mv_found s = 0" | "num_mv_found s = 1" | "2 \<le> num_mv_found s"
    by linarith
  then have "ref_mv_stack (prediction_parameters (ExtraSearch_fill ext g s)) i
               = ref_mv_stack (prediction_parameters s) i
             \<and> weight_index_stack (prediction_parameters (ExtraSearch_fill ext g s)) i
               = weight_index_stack (prediction_parameters s) i"
    using assms
    by cases
       (auto simp: ExtraSearch_fill_def upt_0_2 upt_1_2 SetWeightIndexStackEntry_def)
  then show "ref_mv_stack (prediction_parameters (ExtraSearch_fill ext g s)) i
               = ref_mv_stack (prediction_parameters s) i"
    "weight_index_stack (prediction_parameters (ExtraSearch_fill ext g s)) i
       = weight_index_stack (prediction_parameters s) i"
    by simp_all
qed

lemma ExtraSearch_fill_rest [simp]:
  "nearest_mv_count (prediction_parameters (ExtraSearch_fill ext g s))
     = nearest_mv_count (prediction_parameters s)"
  "global_mv (prediction_parameters (ExtraSearch_fill ext g s))
     = global_mv (prediction_parameters s)"
proof -
  have "nearest_mv_count (fold
            (\<lambda>i pp. SetWeightIndexStackEntry ext i 0
                       (pp\<lparr>ref_mv_stack :=
                             (ref_mv_stack pp)(i := set2 (ref_mv_stack pp i) 0 (at2 g 0))\<rparr>))
            xs pp) = nearest_mv_count pp
        \<and> global_mv (fold
            (\<lambda>i pp. SetWeightIndexStackEntry ext i 0
                       (pp\<lparr>ref_mv_stack :=
                             (ref_mv_stack pp)(i := set2 (ref_mv_stack pp i) 0 (at2 g 0))\<rparr>))
            xs pp) = global_mv pp" for xs pp
    by (induction xs arbitrary: pp) (simp_all add: SetWeightIndexStackEntry_def)
  then show "nearest_mv_count (prediction_parameters (ExtraSearch_fill ext g s))
     = nearest_mv_count (prediction_parameters s)"
    "global_mv (prediction_parameters (ExtraSearch_fill ext g s))
     = global_mv (prediction_parameters s)"
    by (simp_all add: ExtraSearch_fill_def)
qed

lemma ExtraSearch_fill_grows: "grows s (ExtraSearch_fill ext g s)"
  using ExtraSearch_fill_others(1)[of _ s ext g]
  by (simp add: grows_def kMaxRefMvStackSize_def)

lemma ExtraSearch_merge_count [simp]:
  "num_mv_found (ExtraSearch_merge ext g e s) = 2"
  by (simp add: ExtraSearch_merge_def Let_def)

lemma ExtraSearch_merge_grows:
  "num_mv_found s \<le> 2 \<Longrightarrow> grows s (ExtraSearch_merge ext g e s)"
  by (simp add: grows_def ExtraSearch_merge_def Let_def SetWeightIndexStackEntry_def
        kMaxRefMvStackSize_def)

lemma ExtraSearch_grows:
  assumes "num_mv_found s < 2"
  shows "grows s (ExtraSearch ext block is_compound g sign_bias s)"
proof -
  define es where "es = ExtraSearch_passes ext block is_compound sign_bias s"
  have p: "grows s (snd es)" "is_compound \<longrightarrow> snd es = s"
    using ExtraSearch_passes_grows[OF assms] by (simp_all add: es_def)
  show ?thesis
  proof (cases is_compound)
    case True
    with p assms have "grows s (ExtraSearch_merge ext g (fst es) (snd es))"
      by (simp add: ExtraSearch_merge_grows)
    with True show ?thesis by (simp add: ExtraSearch_def Let_def es_def)
  next
    case False
    have "grows s (ExtraSearch_fill ext g (snd es))"
      by (rule grows_trans[OF p(1) ExtraSearch_fill_grows])
    with False show ?thesis by (simp add: ExtraSearch_def Let_def es_def)
  qed
qed

section \<open>FindMvStack\<close>

lemma FindMvStack_init_fields [simp]:
  "num_mv_found (FindMvStack_init ext block is_compound pp) = 0"
  "ref_mv_stack (prediction_parameters (FindMvStack_init ext block is_compound pp))
     = ref_mv_stack pp"
  by (simp_all add: FindMvStack_init_def Let_def)

lemma FindMvStack_nearest_inv:
  "num_mv_found s \<le> num_mv_found (FindMvStack_nearest ext block is_compound g s)"
  "num_mv_found s \<le> kMaxRefMvStackSize \<Longrightarrow>
     num_mv_found (FindMvStack_nearest ext block is_compound g s) \<le> kMaxRefMvStackSize"
  "kMaxRefMvStackSize \<le> i \<Longrightarrow>
     ref_mv_stack (prediction_parameters (FindMvStack_nearest ext block is_compound g s)) i
       = ref_mv_stack (prediction_parameters s) i"
  "nearest_mv_count (prediction_parameters (FindMvStack_nearest ext block is_compound g s))
     = num_mv_found (FindMvStack_nearest ext block is_compound g s)"
proof -
  define s1 where "s1 = with_found_row_match
                (ScanRow ext block (column4x4 block) (- 1) is_compound g) s"
  define s2 where "s2 = with_found_column_match
                (ScanColumn ext block (row4x4 block) (- 1) is_compound g) s1"
  define s3 where "s3 = (if max (width4x4 block) (height4x4 block) \<le> 16
               then with_found_row_match
                      (ScanPoint ext block (- 1) (width4x4 block) is_compound g) s2
               else s2)"
  have 1: "grows s s1" unfolding s1_def by (intro scan_grows)
  have 2: "grows s1 s2" unfolding s2_def by (intro scan_grows)
  have 3: "grows s2 s3" unfolding s3_def by (auto intro: scan_grows)
  have g: "grows s s3" by (rule grows_trans[OF grows_trans[OF 1 2] 3])
  have eq: "FindMvStack_nearest ext block is_compound g s =
        s3\<lparr>nearest_matches := of_bool (found_row_match s3) + of_bool (found_column_match s3),
            prediction_parameters :=
              (prediction_parameters s3)\<lparr>nearest_mv_count := num_mv_found s3\<rparr>,
            zero_mv_context := 0\<rparr>"
    by (simp only: FindMvStack_nearest_def Let_def s1_def s2_def s3_def)
  show "num_mv_found s \<le> num_mv_found (FindMvStack_nearest ext block is_compound g s)"
    "num_mv_found s \<le> kMaxRefMvStackSize \<Longrightarrow>
     num_mv_found (FindMvStack_nearest ext block is_compound g s) \<le> kMaxRefMvStackSize"
    "kMaxRefMvStackSize \<le> i \<Longrightarrow>
     ref_mv_stack (prediction_parameters (FindMvStack_nearest ext block is_compound g s)) i
       = ref_mv_stack (prediction_parameters s) i"
    "nearest_mv_count (prediction_parameters (FindMvStack_nearest ext block is_compound g s))
     = num_mv_found (FindMvStack_nearest ext block is_compound g s)"
    using g unfolding eq by (simp_all add: grows_def)
qed

lemma SortWeightIndexStack_only_weights:
  "grows s (s\<lparr>prediction_parameters :=
               (prediction_parameters s)\<lparr>weight_index_stack := w\<rparr>\<rparr>)"
  by (simp add: grows_def)

lemma FindMvStack_finish_grows:
  "grows s (FindMvStack_finish ext block is_compound g sign_bias s)"
  by (simp add: FindMvStack_finish_def Let_def ExtraSearch_grows
        SortWeightIndexStack_only_weights)

text \<open>The state of \<^verbatim>\<open>FindMvStack\<close> before it returns.\<close>

lemma FindMvStack_state_inv:
  "num_mv_found (FindMvStack_state ext block is_compound sign_bias motion_field has_context pp)
     \<le> kMaxRefMvStackSize"
  "nearest_mv_count (prediction_parameters
       (FindMvStack_state ext block is_compound sign_bias motion_field has_context pp))
     \<le> num_mv_found
          (FindMvStack_state ext block is_compound sign_bias motion_field has_context pp)"
  "kMaxRefMvStackSize \<le> i \<Longrightarrow>
     ref_mv_stack (prediction_parameters
       (FindMvStack_state ext block is_compound sign_bias motion_field has_context pp)) i
     = ref_mv_stack pp i"
proof -
  define s0 where "s0 = FindMvStack_init ext block is_compound pp"
  define g where "g = global_mv (prediction_parameters s0)"
  define s1 where "s1 = FindMvStack_nearest ext block is_compound g s0"
  define s2 where "s2 = FindMvStack_far ext block is_compound g motion_field has_context s1"
  define s3 where "s3 = FindMvStack_finish ext block is_compound
                          (global_mv (prediction_parameters s2)) sign_bias s2"
  have eq: "FindMvStack_state ext block is_compound sign_bias motion_field has_context pp
            = s3"
    by (simp only: FindMvStack_state_def FindMvStack_search_def Let_def
          s0_def g_def s1_def s2_def s3_def)
  have n1: "num_mv_found s1 \<le> kMaxRefMvStackSize"
    unfolding s1_def by (rule FindMvStack_nearest_inv(2)) (simp add: s0_def)
  have c1: "nearest_mv_count (prediction_parameters s1) = num_mv_found s1"
    unfolding s1_def by (rule FindMvStack_nearest_inv(4))
  have f1: "kMaxRefMvStackSize \<le> i \<Longrightarrow>
              ref_mv_stack (prediction_parameters s1) i = ref_mv_stack pp i"
    unfolding s1_def using FindMvStack_nearest_inv(3)[of i ext block is_compound g s0]
    by (simp add: s0_def)
  have g2: "grows s1 s2" unfolding s2_def by (rule FindMvStack_far_grows)
  have g3: "grows s2 s3" unfolding s3_def by (rule FindMvStack_finish_grows)
  have g13: "grows s1 s3" by (rule grows_trans[OF g2 g3])
  show "num_mv_found (FindMvStack_state ext block is_compound sign_bias motion_field
                        has_context pp) \<le> kMaxRefMvStackSize"
    unfolding eq using g13 n1 by (simp add: grows_def)
  show "nearest_mv_count (prediction_parameters
       (FindMvStack_state ext block is_compound sign_bias motion_field has_context pp))
     \<le> num_mv_found
          (FindMvStack_state ext block is_compound sign_bias motion_field has_context pp)"
    unfolding eq using g13 c1 by (simp add: grows_def)
  show "kMaxRefMvStackSize \<le> i \<Longrightarrow>
     ref_mv_stack (prediction_parameters
       (FindMvStack_state ext block is_compound sign_bias motion_field has_context pp)) i
     = ref_mv_stack pp i"
    unfolding eq using g13 f1 by (simp add: grows_def)
qed

text \<open>
  The two functions that append a candidate during the scans test the capacity first: a
  call leaves the count as it is, or finds it below \<^verbatim>\<open>kMaxRefMvStackSize\<close> and adds one.
\<close>

lemma AddToStack_checks:
  "num_mv_found (AddToStack ext same candidate_mv weight s) = num_mv_found s
   \<or> (num_mv_found s < kMaxRefMvStackSize
       \<and> num_mv_found (AddToStack ext same candidate_mv weight s) = num_mv_found s + 1)"
  by (auto simp: AddToStack_def Let_def IncreaseWeight_def split: option.splits)

lemma SearchStack_checks:
  "num_mv_found (SearchStack ext is_compound block mv_bp index weight g s) = num_mv_found s
   \<or> (num_mv_found s < kMaxRefMvStackSize
       \<and> num_mv_found (SearchStack ext is_compound block mv_bp index weight g s)
           = num_mv_found s + 1)"
  unfolding SearchStack_def Let_def
  using AddToStack_checks[of ext _ _ weight
          "s\<lparr>found_new_mv := found_new_mv s \<or> kPredictionModeNewMvMask (y_mode mv_bp),
             found_match := True\<rparr>"]
  by simp

lemma AddTemporalReferenceMvCandidate_checks:
  "num_mv_found (AddTemporalReferenceMvCandidate ext block delta_row delta_column is_compound
                   g motion_field has_context s) = num_mv_found s
   \<or> (num_mv_found s < kMaxRefMvStackSize
       \<and> num_mv_found (AddTemporalReferenceMvCandidate ext block delta_row delta_column
                          is_compound g motion_field has_context s) = num_mv_found s + 1)"
proof -
  define ok :: "MvSearch \<Rightarrow> bool" where "ok t \<longleftrightarrow> num_mv_found t = num_mv_found s
     \<or> (num_mv_found s < kMaxRefMvStackSize \<and> num_mv_found t = num_mv_found s + 1)" for t
  have 1: "ok (AddToStack ext same c 2 (s\<lparr>zero_mv_context := z\<rparr>))" for same c z
    using AddToStack_checks[of ext same c 2 "s\<lparr>zero_mv_context := z\<rparr>"]
    by (simp add: ok_def)
  have 2: "ok (AddToStack ext same c 2 s)" for same c
    using AddToStack_checks[of ext same c 2 s] by (simp add: ok_def)
  have 3: "ok s" "ok (s\<lparr>zero_mv_context := z\<rparr>)" for z
    by (simp_all add: ok_def)
  have "ok (AddTemporalReferenceMvCandidate ext block delta_row delta_column is_compound
              g motion_field has_context s)"
    using 1 2 3 by (simp add: AddTemporalReferenceMvCandidate_def Let_def)
  then show ?thesis by (simp only: ok_def)
qed

text \<open>
  The last statement of \<^verbatim>\<open>FindMvStack\<close> changes the count only through the extra search,
  which runs on fewer than 2 candidates and leaves at most 3.
\<close>

lemma FindMvStack_finish_count:
  "num_mv_found (FindMvStack_finish ext block is_compound g sign_bias s) = num_mv_found s
   \<or> (num_mv_found s < 2
       \<and> num_mv_found (FindMvStack_finish ext block is_compound g sign_bias s) \<le> 3)"
proof (cases "num_mv_found s < 2")
  case False
  then show ?thesis by (simp add: FindMvStack_finish_def Let_def)
next
  case True
  have p: "num_mv_found (snd (ExtraSearch_passes ext block is_compound sign_bias s)) \<le> 3"
    using ExtraSearch_passes_grows[OF True] by simp
  have "num_mv_found (ExtraSearch ext block is_compound g sign_bias s) \<le> 3"
    using p by (cases is_compound) (simp_all add: ExtraSearch_def Let_def)
  with True show ?thesis by (simp add: FindMvStack_finish_def)
qed




section \<open>FindWarpSamples\<close>

lemma AddSample_ok:
  assumes "warp_ok ext w0 w"
  shows "warp_ok ext w0 (AddSample ext block delta_row delta_column w)"
  using assms
  by (auto simp: AddSample_def warp_ok_def Let_def)

lemma FindWarpSamples_top_ok:
  "warp_ok ext w0 w \<Longrightarrow> warp_ok ext w0 (FindWarpSamples_top ext block i w)"
proof (induction ext block i w rule: FindWarpSamples_top.induct)
  case (1 ext block i w)
  show ?case
  proof (cases "i < min (width4x4 block)
                        (columns4x4 (frame_header (tile block)) - column4x4 block)")
    case True
    have "warp_ok ext w0 (FindWarpSamples_top ext block
            (i + min (width4x4 block)
                   (kNum4x4BlocksWide (size' (Parameters (tile block) (row4x4 block - 1)
                                               (column4x4 block + i)))))
            (AddSample ext block (- 1) i w))"
      by (rule "1.IH"[OF True refl refl AddSample_ok[OF "1.prems"]])
    then show ?thesis
      by (subst FindWarpSamples_top.simps) (simp only: True if_True Let_def)
  next
    case False
    show ?thesis
      by (subst FindWarpSamples_top.simps) (simp only: False if_False "1.prems")
  qed
qed

lemma FindWarpSamples_left_ok:
  "warp_ok ext w0 w \<Longrightarrow> warp_ok ext w0 (FindWarpSamples_left ext block i w)"
proof (induction ext block i w rule: FindWarpSamples_left.induct)
  case (1 ext block i w)
  show ?case
  proof (cases "i < min (height4x4 block)
                        (rows4x4 (frame_header (tile block)) - row4x4 block)")
    case True
    have "warp_ok ext w0 (FindWarpSamples_left ext block
            (i + min (height4x4 block)
                   (kNum4x4BlocksHigh (size' (Parameters (tile block) (row4x4 block + i)
                                               (column4x4 block - 1)))))
            (AddSample ext block i (- 1) w))"
      by (rule "1.IH"[OF True refl refl AddSample_ok[OF "1.prems"]])
    then show ?thesis
      by (subst FindWarpSamples_left.simps) (simp only: True if_True Let_def)
  next
    case False
    show ?thesis
      by (subst FindWarpSamples_left.simps) (simp only: False if_False "1.prems")
  qed
qed

lemma FindWarpSamples_scan_ok:
  assumes "warp_ok ext w0 w"
  shows "warp_ok ext w0 (FindWarpSamples_scan ext block w)"
  using assms
  by (auto simp: FindWarpSamples_scan_def Let_def
        intro!: AddSample_ok FindWarpSamples_top_ok FindWarpSamples_left_ok)

text \<open>
  Claim C8. \<^verbatim>\<open>FindWarpSamples\<close> is called with counters that are consistent
  (\<^verbatim>\<open>num_warp_samples\<close> at most \<^verbatim>\<open>num_samples_scanned\<close>, which is at most
  \<^verbatim>\<open>kMaxLeastSquaresSamples\<close>; the caller clears both). If the scan ends with no valid
  sample and at least one scanned sample, \<^verbatim>\<open>num_warp_samples\<close> is forced to 1, and
  otherwise it is the number that the scan counted. At most \<^verbatim>\<open>kMaxLeastSquaresSamples\<close>
  samples are scanned, no more samples are counted as stored than were scanned, and no row
  of \<^verbatim>\<open>candidates\<close> at an index of \<^verbatim>\<open>kMaxLeastSquaresSamples\<close> or more is written.
\<close>

theorem FindWarpSamples_fallback_and_bound:
  assumes "num_warp_samples w \<le> num_samples_scanned w"
    and "num_samples_scanned w \<le> kMaxLeastSquaresSamples ext"
  shows "num_warp_samples (FindWarpSamples ext block w)
           = (if num_warp_samples (FindWarpSamples_scan ext block w) = 0
                 \<and> num_samples_scanned (FindWarpSamples_scan ext block w) > 0
              then 1 else num_warp_samples (FindWarpSamples_scan ext block w))
         \<and> num_samples_scanned (FindWarpSamples ext block w)
             = num_samples_scanned (FindWarpSamples_scan ext block w)
         \<and> num_samples_scanned (FindWarpSamples ext block w) \<le> kMaxLeastSquaresSamples ext
         \<and> num_warp_samples (FindWarpSamples ext block w)
             \<le> num_samples_scanned (FindWarpSamples ext block w)
         \<and> candidates (FindWarpSamples ext block w) (kMaxLeastSquaresSamples ext + k)
             = candidates w (kMaxLeastSquaresSamples ext + k)"
proof -
  have "warp_ok ext w w" using assms by (simp add: warp_ok_def)
  then have "warp_ok ext w (FindWarpSamples_scan ext block w)"
    by (rule FindWarpSamples_scan_ok)
  then show ?thesis
    by (auto simp: FindWarpSamples_def Let_def warp_ok_def)
qed

text \<open>
  A block of the example tile whose neighbours predict from the same reference with motion
  vectors far from its own: four samples are scanned, none is valid, and
  \<^verbatim>\<open>num_warp_samples\<close> is 1.
\<close>

theorem FindWarpSamples_fallback_and_bound_witness:
  "num_warp_samples example_samples \<le> num_samples_scanned example_samples
   \<and> num_samples_scanned example_samples \<le> kMaxLeastSquaresSamples example_externals
   \<and> num_warp_samples (FindWarpSamples_scan example_externals
         (example_block (example_bp 1 100 100) 2 2) example_samples) = 0
   \<and> num_samples_scanned (FindWarpSamples_scan example_externals
         (example_block (example_bp 1 100 100) 2 2) example_samples) = 4
   \<and> num_warp_samples (FindWarpSamples example_externals
         (example_block (example_bp 1 100 100) 2 2) example_samples) = 1
   \<and> num_samples_scanned (FindWarpSamples example_externals
         (example_block (example_bp 1 100 100) 2 2) example_samples) = 4"
proof -
  have h1: "num_warp_samples example_samples \<le> num_samples_scanned example_samples"
    by (simp add: example_samples_def)
  have h2: "num_samples_scanned example_samples \<le> kMaxLeastSquaresSamples example_externals"
    by (simp add: example_samples_def example_externals_def)
  have scan: "num_warp_samples (FindWarpSamples_scan example_externals
         (example_block (example_bp 1 100 100) 2 2) example_samples) = 0
   \<and> num_samples_scanned (FindWarpSamples_scan example_externals
         (example_block (example_bp 1 100 100) 2 2) example_samples) = 4"
    by code_simp
  show ?thesis
    using FindWarpSamples_fallback_and_bound[OF h1 h2,
            of "example_block (example_bp 1 100 100) 2 2"] h1 h2 scan
    by simp
qed


section \<open>ExtraSearch in single prediction mode\<close>

lemma grows_count: "grows s s' \<Longrightarrow> num_mv_found s \<le> num_mv_found s'"
  by (simp add: grows_def)

text \<open>
  Claim C10, as amended. \<^verbatim>\<open>FindMvStack\<close> calls \<^verbatim>\<open>ExtraSearch\<close> when the scans found fewer
  than 2 candidates. In compound mode the two passes of \<^verbatim>\<open>ExtraSearch\<close> leave the stack and
  the count alone and the merge sets the count to exactly 2. In single prediction mode the
  two passes may add candidates, so that the count after them lies between the count at the
  call and 3; the last loop does not modify the count: \<^verbatim>\<open>ref_mv_count\<close> is the count after
  the passes, the entries below it are those of the passes, and every entry from that count
  up to index 1 holds the global motion vector in \<^verbatim>\<open>mv[0]\<close> with the weight index entry
  of weight 0. So \<^verbatim>\<open>FindMvStack\<close> can return with \<^verbatim>\<open>ref_mv_count\<close> 0 or 1 while the entries
  0 and 1 hold motion vectors.
\<close>

theorem FindMvStack_extra_search_count:
  assumes "num_mv_found (FindMvStack_search ext block is_compound motion_field
                           (contexts \<noteq> None) pp) < 2"
  shows "let s = FindMvStack_search ext block is_compound motion_field (contexts \<noteq> None) pp;
             g = global_mv (prediction_parameters s);
             passes = snd (ExtraSearch_passes ext block is_compound
                             reference_frame_sign_bias s);
             r = fst (FindMvStack ext block is_compound reference_frame_sign_bias
                        motion_field contexts pp)
         in if is_compound
            then passes = s \<and> ref_mv_count r = 2
            else num_mv_found s \<le> num_mv_found passes
                 \<and> num_mv_found passes \<le> 3
                 \<and> ref_mv_count r = num_mv_found passes
                 \<and> (\<forall>i. num_mv_found passes \<le> i \<and> i < 2 \<longrightarrow>
                        at2 (ref_mv_stack r i) 0 = at2 g 0
                        \<and> weight_index_stack r i = WeightIndexStackEntry ext i 0)
                 \<and> (\<forall>i. i < num_mv_found passes \<longrightarrow>
                        ref_mv_stack r i = ref_mv_stack (prediction_parameters passes) i)"
proof -
  define s where
    "s = FindMvStack_search ext block is_compound motion_field (contexts \<noteq> None) pp"
  define g where "g = global_mv (prediction_parameters s)"
  define es where
    "es = ExtraSearch_passes ext block is_compound reference_frame_sign_bias s"
  define r where
    "r = fst (FindMvStack ext block is_compound reference_frame_sign_bias
                motion_field contexts pp)"
  define s' where "s' = ExtraSearch ext block is_compound g reference_frame_sign_bias s"
  have lt: "num_mv_found s < 2" using assms by (simp add: s_def)
  have st: "FindMvStack_state ext block is_compound reference_frame_sign_bias motion_field
              (contexts \<noteq> None) pp = s'"
    unfolding FindMvStack_state_def FindMvStack_finish_def Let_def s_def[symmetric]
      g_def[symmetric] s'_def
    using lt by (simp only: if_True)
  have r: "r = (prediction_parameters s')\<lparr>ref_mv_count := num_mv_found s'\<rparr>"
    unfolding r_def FindMvStack_def Let_def st by (simp only: fst_conv)
  have p: "grows s (snd es)" "num_mv_found (snd es) \<le> 3" "is_compound \<longrightarrow> snd es = s"
    using ExtraSearch_passes_grows[OF lt] by (simp_all add: es_def)
  have goal: "if is_compound
        then snd es = s \<and> ref_mv_count r = 2
        else num_mv_found s \<le> num_mv_found (snd es)
             \<and> num_mv_found (snd es) \<le> 3
             \<and> ref_mv_count r = num_mv_found (snd es)
             \<and> (\<forall>i. num_mv_found (snd es) \<le> i \<and> i < 2 \<longrightarrow>
                    at2 (ref_mv_stack r i) 0 = at2 g 0
                    \<and> weight_index_stack r i = WeightIndexStackEntry ext i 0)
             \<and> (\<forall>i. i < num_mv_found (snd es) \<longrightarrow>
                    ref_mv_stack r i = ref_mv_stack (prediction_parameters (snd es)) i)"
  proof (cases is_compound)
    case True
    then have "s' = ExtraSearch_merge ext g (fst es) (snd es)"
      by (simp add: s'_def ExtraSearch_def Let_def es_def)
    with True p(3) show ?thesis by (simp add: r)
  next
    case False
    then have s': "s' = ExtraSearch_fill ext g (snd es)"
      by (simp add: s'_def ExtraSearch_def Let_def es_def)
    show ?thesis
      using False p(2) grows_count[OF p(1)]
      by (simp add: r s' ExtraSearch_fill_entries ExtraSearch_fill_others)
  qed
  then show ?thesis
    by (simp only: Let_def s_def[symmetric] g_def[symmetric] es_def[symmetric]
          r_def[symmetric])
qed

text \<open>
  Two blocks of the example tile in single prediction mode. For the block in the corner
  no scan finds a candidate: \<^verbatim>\<open>ref_mv_count\<close> is 0, and entries 0 and 1 hold the global
  motion vector. For the block at row 2 of the first column, whose neighbours predict from
  the same reference, one candidate is found: \<^verbatim>\<open>ref_mv_count\<close> is 1, and entry 1 holds the
  global motion vector.
\<close>

theorem FindMvStack_extra_search_count_witness:
  "num_mv_found (FindMvStack_search example_externals
       (example_block (example_bp 1 0 0) 0 0) False example_motion_field
       ((None :: MvContexts option) \<noteq> None) example_parameters) < 2
   \<and> (let r = fst (FindMvStack example_externals (example_block (example_bp 1 0 0) 0 0)
                     False (\<lambda>r. False) example_motion_field None example_parameters)
      in ref_mv_count r = 0
         \<and> at2 (ref_mv_stack r 0) 0 = zero_mv_value
         \<and> at2 (ref_mv_stack r 1) 0 = zero_mv_value
         \<and> weight_index_stack r 0 = 7 \<and> weight_index_stack r 1 = 6)
   \<and> (let r = fst (FindMvStack example_externals (example_block (example_bp 1 40 8) 2 0)
                     False (\<lambda>r. False) example_motion_field None example_parameters)
      in ref_mv_count r = 1
         \<and> at2 (ref_mv_stack r 0) 0 = \<lparr>mv0 = 40, mv1 = 8\<rparr>
         \<and> at2 (ref_mv_stack r 1) 0 = zero_mv_value
         \<and> weight_index_stack r 1 = 6)"
proof -
  have h: "num_mv_found (FindMvStack_search example_externals
       (example_block (example_bp 1 0 0) 0 0) False example_motion_field
       ((None :: MvContexts option) \<noteq> None) example_parameters) < 2"
    by code_simp
  have p: "num_mv_found (snd (ExtraSearch_passes example_externals
             (example_block (example_bp 1 0 0) 0 0) False (\<lambda>r. False)
             (FindMvStack_search example_externals
                (example_block (example_bp 1 0 0) 0 0) False example_motion_field
                ((None :: MvContexts option) \<noteq> None) example_parameters))) = 0"
    by code_simp
  have c: "ref_mv_count (fst (FindMvStack example_externals
             (example_block (example_bp 1 0 0) 0 0) False (\<lambda>r. False)
             example_motion_field None example_parameters)) = 0"
    using FindMvStack_extra_search_count[OF h, of "\<lambda>r. False"] p
    by (simp add: Let_def)
  have a: "let r = fst (FindMvStack example_externals (example_block (example_bp 1 0 0) 0 0)
                     False (\<lambda>r. False) example_motion_field None example_parameters)
      in at2 (ref_mv_stack r 0) 0 = zero_mv_value
         \<and> at2 (ref_mv_stack r 1) 0 = zero_mv_value
         \<and> weight_index_stack r 0 = 7 \<and> weight_index_stack r 1 = 6"
    by code_simp
  have b: "let r = fst (FindMvStack example_externals (example_block (example_bp 1 40 8) 2 0)
                     False (\<lambda>r. False) example_motion_field None example_parameters)
      in ref_mv_count r = 1
         \<and> at2 (ref_mv_stack r 0) 0 = \<lparr>mv0 = 40, mv1 = 8\<rparr>
         \<and> at2 (ref_mv_stack r 1) 0 = zero_mv_value
         \<and> weight_index_stack r 1 = 6"
    by code_simp
  show ?thesis using h c a b unfolding Let_def by blast
qed

text \<open>
  Claim C10 as stated does not hold for \<^verbatim>\<open>ExtraSearch\<close> as a whole. A block whose
  neighbours predict from another reference frame than the block: the scans
  find no candidate, the first pass of the extra search adds the motion vector of the
  neighbour above, and \<^verbatim>\<open>ExtraSearch\<close> returns with \<^verbatim>\<open>*num_mv_found\<close> changed from 0 to 1.
\<close>

theorem ExtraSearch_single_modifies_count:
  "num_mv_found (FindMvStack_search example_externals
       (example_block (example_bp 2 40 8) 2 0) False example_motion_field False
       example_parameters) = 0
   \<and> num_mv_found
       (ExtraSearch example_externals (example_block (example_bp 2 40 8) 2 0) False
          (zero_mv_value, zero_mv_value) (\<lambda>r. False)
          (FindMvStack_search example_externals
             (example_block (example_bp 2 40 8) 2 0) False example_motion_field False
             example_parameters)) = 1
   \<and> ref_mv_count (fst (FindMvStack example_externals
          (example_block (example_bp 2 40 8) 2 0) False (\<lambda>r. False)
          example_motion_field None example_parameters)) = 1"
  by code_simp


section \<open>Edges of the deblocking filter\<close>



section \<open>The input window of the CDEF filter\<close>

lemma Memset_apply:
  "Memset mem dst val n i = (if dst \<le> i \<and> i < dst + n then val else mem i)"
  by (simp add: Memset_def)

lemma memcpy_elements_apply:
  "memcpy_elements mem dst src_mem src n i
     = (if dst \<le> i \<and> i < dst + n then ucast (src_mem (src + (i - dst))) else mem i)"
  by (simp add: memcpy_elements_def)

lemma fold_upto_update:
  "fold (\<lambda>x m. m(d + x := f x)) [a .. b] mem i
     = (if d + a \<le> i \<and> i \<le> d + b then f (i - d) else mem i)"
proof (induction a b arbitrary: mem rule: upto.induct)
  case (1 a b)
  show ?case
  proof (cases "a \<le> b")
    case True
    have "fold (\<lambda>x m. m(d + x := f x)) [a .. b] mem i
          = fold (\<lambda>x m. m(d + x := f x)) [a + 1 .. b] (mem(d + a := f a)) i"
      using True by (simp add: upto_rec1)
    also have "\<dots> = (if d + (a + 1) \<le> i \<and> i \<le> d + b then f (i - d)
                       else (mem(d + a := f a)) i)"
      by (rule "1.IH"[OF True])
    also have "\<dots> = (if d + a \<le> i \<and> i \<le> d + b then f (i - d) else mem i)"
      using True by auto
    finally show ?thesis .
  next
    case False
    then show ?thesis by auto
  qed
qed

lemma CopyRows_row_apply:
  assumes "0 \<le> kCdefBorder cst" and "0 \<le> bw" and "bw \<le> uw"
  shows "CopyRows_row cst src_mem bw uw fl fr src dst mem i
     = (if dst - kCdefBorder cst \<le> i \<and> i < dst + uw + kCdefBorder cst
        then (if (fl \<and> i < dst) \<or> (fr \<and> dst + bw \<le> i)
              then word_of_int (kCdefLargeValue cst)
              else ucast (src_mem (src + (i - dst))))
        else mem i)"
proof (cases "LENGTH('a) div 8 = 2")
  case True
  then show ?thesis
    using assms
    by (auto simp: CopyRows_row_def Let_def Memset_apply memcpy_elements_apply)
next
  case False
  show ?thesis
    using assms False
    by (auto simp: CopyRows_row_def Let_def
          fold_upto_update[where f = "\<lambda>x. if fl then word_of_int (kCdefLargeValue cst)
                                          else ucast (src_mem (src + x))"]
          fold_upto_update[where f = "\<lambda>x. ucast (src_mem (src + x))"]
          fold_upto_update[where f = "\<lambda>x. if fr then word_of_int (kCdefLargeValue cst)
                                          else ucast (src_mem (src + x))"])
qed

lemma CopyRows_fill_below:
  "0 \<le> stride \<Longrightarrow> i < dst \<Longrightarrow> CopyRows_fill cst uw stride n dst mem i = mem i"
proof (induction n arbitrary: dst mem)
  case 0
  show ?case by simp
next
  case (Suc n)
  have "CopyRows_fill cst uw stride n (dst + stride)
          (Memset mem dst (word_of_int (kCdefLargeValue cst))
             (uw + 2 * kCdefBorder cst)) i
        = Memset mem dst (word_of_int (kCdefLargeValue cst))
            (uw + 2 * kCdefBorder cst) i"
    using Suc.prems by (intro Suc.IH) simp_all
  then show ?case using Suc.prems by (simp add: Memset_apply)
qed

lemma CopyRows_fill_cell:
  assumes "0 \<le> x" and "x < uw + 2 * kCdefBorder cst"
    and "uw + 2 * kCdefBorder cst \<le> stride" and "y < n"
  shows "CopyRows_fill cst uw stride n dst mem (dst + int y * stride + x)
           = word_of_int (kCdefLargeValue cst)"
  using assms(4)
proof (induction n arbitrary: dst mem y)
  case 0
  then show ?case by simp
next
  case (Suc n)
  have st: "0 \<le> stride" using assms(1-3) by simp
  show ?case
  proof (cases y)
    case 0
    have "CopyRows_fill cst uw stride n (dst + stride)
            (Memset mem dst (word_of_int (kCdefLargeValue cst))
               (uw + 2 * kCdefBorder cst)) (dst + x)
          = Memset mem dst (word_of_int (kCdefLargeValue cst))
              (uw + 2 * kCdefBorder cst) (dst + x)"
      using assms(1-3) st by (intro CopyRows_fill_below) simp_all
    then show ?thesis using 0 assms(1,2) by (simp add: Memset_apply)
  next
    case (Suc y')
    have "CopyRows_fill cst uw stride n (dst + stride)
            (Memset mem dst (word_of_int (kCdefLargeValue cst))
               (uw + 2 * kCdefBorder cst)) ((dst + stride) + int y' * stride + x)
          = word_of_int (kCdefLargeValue cst)"
      using Suc.prems Suc by (intro Suc.IH) simp
    then show ?thesis using Suc by (simp add: algebra_simps)
  qed
qed

lemma CopyRows_copy_below:
  assumes "0 \<le> stride" and "0 \<le> kCdefBorder cst" and "0 \<le> bw" and "bw \<le> uw"
    and "i < dst - kCdefBorder cst"
  shows "CopyRows_copy cst src_mem sstride bw uw fl fr stride n src dst mem i = mem i"
  using assms(5)
proof (induction n arbitrary: src dst mem)
  case 0
  show ?case by simp
next
  case (Suc n)
  have "CopyRows_copy cst src_mem sstride bw uw fl fr stride n (src + sstride)
          (dst + stride) (CopyRows_row cst src_mem bw uw fl fr src dst mem) i
        = CopyRows_row cst src_mem bw uw fl fr src dst mem i"
    using Suc.prems assms(1) by (intro Suc.IH) simp
  also have "\<dots> = mem i"
    using Suc.prems by (simp add: CopyRows_row_apply[OF assms(2-4)])
  finally show ?case by simp
qed

lemma CopyRows_copy_cell:
  assumes "0 \<le> kCdefBorder cst" and "0 \<le> bw" and "bw \<le> uw"
    and "- kCdefBorder cst \<le> x" and "x < uw + kCdefBorder cst"
    and "uw + 2 * kCdefBorder cst \<le> stride" and "y < n"
  shows "CopyRows_copy cst src_mem sstride bw uw fl fr stride n src dst mem
           (dst + int y * stride + x)
         = (if (fl \<and> x < 0) \<or> (fr \<and> bw \<le> x)
            then word_of_int (kCdefLargeValue cst)
            else ucast (src_mem (src + int y * sstride + x)))"
  using assms(7)
proof (induction n arbitrary: src dst mem y)
  case 0
  then show ?case by simp
next
  case (Suc n)
  have st: "0 \<le> stride" using assms(1-3,6) by simp
  show ?case
  proof (cases y)
    case 0
    have "CopyRows_copy cst src_mem sstride bw uw fl fr stride n (src + sstride)
            (dst + stride) (CopyRows_row cst src_mem bw uw fl fr src dst mem)
            (dst + x)
          = CopyRows_row cst src_mem bw uw fl fr src dst mem (dst + x)"
      using assms(1-6) st by (intro CopyRows_copy_below) simp_all
    also have "\<dots> = (if (fl \<and> x < 0) \<or> (fr \<and> bw \<le> x)
            then word_of_int (kCdefLargeValue cst)
            else ucast (src_mem (src + x)))"
      using assms(4,5) by (simp add: CopyRows_row_apply[OF assms(1-3)])
    finally show ?thesis using 0 by simp
  next
    case (Suc y')
    have "CopyRows_copy cst src_mem sstride bw uw fl fr stride n (src + sstride)
            (dst + stride) (CopyRows_row cst src_mem bw uw fl fr src dst mem)
            ((dst + stride) + int y' * stride + x)
          = (if (fl \<and> x < 0) \<or> (fr \<and> bw \<le> x)
             then word_of_int (kCdefLargeValue cst)
             else ucast (src_mem ((src + sstride) + int y' * sstride + x)))"
      using Suc.prems Suc by (intro Suc.IH) simp
    then show ?thesis using Suc by (simp add: algebra_simps)
  qed
qed

lemma and_not_mask_int: "(x::int) AND NOT (mask n) = x - take_bit n x"
proof -
  have "x AND NOT (mask n) = push_bit n (drop_bit n x)"
    by (rule bit_eqI) (auto simp: bit_simps)
  also have "\<dots> = x - take_bit n x"
    using bits_ident[of n x] by simp
  finally show ?thesis .
qed

lemma Align_ge:
  assumes "alignment = 4 \<or> alignment = 8"
  shows "v \<le> Align v alignment"
proof -
  have 8: "(v + 7) AND NOT 7 = (v + 7) - (v + 7) mod 8"
    using and_not_mask_int[of "v + 7" 3] by (simp add: take_bit_eq_mod mask_eq_exp_minus_1)
  have 4: "(v + 3) AND NOT 3 = (v + 3) - (v + 3) mod 4"
    using and_not_mask_int[of "v + 3" 2] by (simp add: take_bit_eq_mod mask_eq_exp_minus_1)
  have "(v + 7) mod 8 \<le> 7" "(v + 3) mod 4 \<le> 3" by simp_all
  then have "v \<le> (v + 7) AND NOT 7" "v \<le> (v + 3) AND NOT 3"
    unfolding 8 4 by linarith+
  then show ?thesis using assms by (auto simp: Align_def)
qed

lemma CopyRows_below:
  assumes "0 \<le> stride" and "0 \<le> kCdefBorder cst" and "0 \<le> bw" and "bw \<le> uw"
    and "i < (if ft \<or> fb then (if fb then dst - kCdefBorder cst else dst)
              else (if copy_top then dst else dst - kCdefBorder cst))"
  shows "CopyRows cst src_mem src sstride bw uw ft fb fl fr copy_top num_rows
           mem dst stride i = mem i"
proof (cases "ft \<or> fb")
  case True
  then show ?thesis
    using assms by (auto simp: CopyRows_def Let_def intro!: CopyRows_fill_below)
next
  case False
  then show ?thesis
    using assms(5)
    by (auto simp: CopyRows_def Let_def
          intro!: CopyRows_copy_below[OF assms(1) assms(2) assms(3) assms(4)])
qed

lemma CopyRows_cell:
  assumes "0 \<le> kCdefBorder cst" and "0 \<le> bw" and "bw \<le> uw"
    and "0 \<le> x" and "x < uw + 2 * kCdefBorder cst"
    and "uw + 2 * kCdefBorder cst \<le> stride" and "int y < num_rows"
    and lo: "lo = (if ft \<or> fb then (if fb then dst - kCdefBorder cst else dst)
                   else (if copy_top then dst else dst - kCdefBorder cst))"
    and s0: "s0 = (if copy_top then src - kCdefBorder cst * sstride else src)"
  shows "CopyRows cst src_mem src sstride bw uw ft fb fl fr copy_top num_rows
           mem dst stride (lo + int y * stride + x)
         = (if ft \<or> fb \<or> (fl \<and> x < kCdefBorder cst)
               \<or> (fr \<and> kCdefBorder cst + bw \<le> x)
            then word_of_int (kCdefLargeValue cst)
            else ucast (src_mem (s0 + int y * sstride + (x - kCdefBorder cst))))"
proof (cases "ft \<or> fb")
  case True
  have n: "y < nat num_rows" using assms(7) by simp
  show ?thesis
    using True CopyRows_fill_cell[OF assms(4) assms(5) assms(6) n]
    by (auto simp: CopyRows_def Let_def lo)
next
  case False
  have n: "y < nat num_rows" using assms(7) by simp
  have x1: "- kCdefBorder cst \<le> x - kCdefBorder cst" using assms(4) by simp
  have x2: "x - kCdefBorder cst < uw + kCdefBorder cst" using assms(5) by simp
  note c = CopyRows_copy_cell[OF assms(1) assms(2) assms(3) x1 x2 assms(6) n,
             of src_mem sstride fl fr]
  have v: "(if (fl \<and> x - kCdefBorder cst < 0) \<or> (fr \<and> bw \<le> x - kCdefBorder cst)
            then word_of_int (kCdefLargeValue cst) else (u :: uint16))
           = (if ft \<or> fb \<or> (fl \<and> x < kCdefBorder cst)
                 \<or> (fr \<and> kCdefBorder cst + bw \<le> x)
              then word_of_int (kCdefLargeValue cst) else u)" for u
    using False by auto
  show ?thesis
  proof (cases copy_top)
    case True
    have a: "lo + int y * stride + x
             = (dst + kCdefBorder cst) + int y * stride + (x - kCdefBorder cst)"
      using False True by (simp add: lo)
    have f: "CopyRows cst src_mem src sstride bw uw ft fb fl fr copy_top num_rows
               mem dst stride
             = CopyRows_copy cst src_mem sstride bw uw fl fr stride (nat num_rows)
                 (src - kCdefBorder cst * sstride) (dst + kCdefBorder cst) mem"
      using False True by (simp add: CopyRows_def)
    show ?thesis
      unfolding a f
        c[of "src - kCdefBorder cst * sstride" "dst + kCdefBorder cst" mem] v
      using True by (simp add: s0)
  next
    case nt: False
    have a: "lo + int y * stride + x
             = dst + int y * stride + (x - kCdefBorder cst)"
      using False nt by (simp add: lo)
    have f: "CopyRows cst src_mem src sstride bw uw ft fb fl fr copy_top num_rows
               mem dst stride
             = CopyRows_copy cst src_mem sstride bw uw fl fr stride (nat num_rows)
                 src dst mem"
      using False nt by (simp add: CopyRows_def)
    show ?thesis
      unfolding a f c[of src dst mem] v
      using nt by (simp add: s0)
  qed
qed

lemma PrepareCdefBlock_locals_sizes:
  assumes "0 \<le> block_width4x4" and "0 \<le> block_height4x4"
  shows "0 \<le> block_width (PrepareCdefBlock_locals pf pixel_size block_width4x4
                              block_height4x4 row_64x64 column_64x64 plane)"
    and "block_width (PrepareCdefBlock_locals pf pixel_size block_width4x4
                        block_height4x4 row_64x64 column_64x64 plane)
         \<le> unit_width (PrepareCdefBlock_locals pf pixel_size block_width4x4
                          block_height4x4 row_64x64 column_64x64 plane)"
    and "0 \<le> block_height (PrepareCdefBlock_locals pf pixel_size block_width4x4
                              block_height4x4 row_64x64 column_64x64 plane)"
    and "block_height (PrepareCdefBlock_locals pf pixel_size block_width4x4
                         block_height4x4 row_64x64 column_64x64 plane)
         \<le> unit_height (PrepareCdefBlock_locals pf pixel_size block_width4x4
                           block_height4x4 row_64x64 column_64x64 plane)"
  using assms
  by (simp_all add: PrepareCdefBlock_locals_def Let_def MultiplyBy4_def Align_ge)

lemma PrepareCdefBlock_plane_below:
  fixes source_buffer :: "nat \<Rightarrow> int \<Rightarrow> 'p::len word"
  assumes "0 \<le> cdef_stride" and "0 \<le> kCdefBorder cst"
    and "0 \<le> block_width4x4" and "0 \<le> block_height4x4"
    and "i < cdef_source + int plane * kRestorationProcessingUnitSizeWithBorders cst
                 * kRestorationProcessingUnitSizeWithBorders cst"
  shows "PrepareCdefBlock_plane cst pf source_buffer block_width4x4 block_height4x4
           row_64x64 column_64x64 cdef_source cdef_stride plane mem i = mem i"
proof -
  define l where "l = PrepareCdefBlock_locals pf (int (LENGTH('p) div 8)) block_width4x4
                        block_height4x4 row_64x64 column_64x64 plane"
  define base where "base = cdef_source
      + int plane * kRestorationProcessingUnitSizeWithBorders cst
          * kRestorationProcessingUnitSizeWithBorders cst"
  define B where "B = kCdefBorder cst"
  define mem1 where "mem1 = CopyRows cst (source_buffer plane) (src_buffer l)
      (src_stride l) (block_width l) (unit_width l) (is_frame_top l) False (is_frame_left l)
      (is_frame_right l) True B mem base cdef_stride"
  define mem2 where "mem2 = CopyRows cst (source_buffer plane) (src_buffer l)
      (src_stride l) (block_width l) (unit_width l) False False (is_frame_left l)
      (is_frame_right l) False (block_height l) mem1 (base + B * cdef_stride + B)
      cdef_stride"
  define mem3 where "mem3 = CopyRows cst (source_buffer plane)
      (src_buffer l + block_height l * src_stride l)
      (src_stride l) (block_width l) (unit_width l) False (is_frame_bottom l)
      (is_frame_left l) (is_frame_right l) False (B + unit_height l - block_height l) mem2
      (base + B * cdef_stride + B + block_height l * cdef_stride) cdef_stride"
  have eq: "PrepareCdefBlock_plane cst pf source_buffer block_width4x4 block_height4x4
              row_64x64 column_64x64 cdef_source cdef_stride plane mem = mem3"
    by (simp only: PrepareCdefBlock_plane_def Let_def l_def base_def B_def mem1_def mem2_def
          mem3_def)
  note sz = PrepareCdefBlock_locals_sizes[OF assms(3) assms(4),
              of pf "int (LENGTH('p) div 8)" row_64x64 column_64x64 plane,
              folded l_def]
  have B0: "0 \<le> B" using assms(2) by (simp add: B_def)
  have i: "i < base" using assms(5) by (simp add: base_def)
  have s1: "0 \<le> B * cdef_stride" using B0 assms(1) by simp
  have s2: "0 \<le> block_height l * cdef_stride" using sz(3) assms(1) by simp
  have 1: "mem1 i = mem i"
    unfolding mem1_def
    using i by (intro CopyRows_below assms(1) assms(2) sz(1) sz(2)) simp
  have 2: "mem2 i = mem1 i"
    unfolding mem2_def
    using i s1 by (intro CopyRows_below assms(1) assms(2) sz(1) sz(2)) (simp add: B_def)
  have 3: "mem3 i = mem2 i"
    unfolding mem3_def
    using i s1 s2 by (intro CopyRows_below assms(1) assms(2) sz(1) sz(2)) (auto simp: B_def)
  show ?thesis unfolding eq by (simp only: 1 2 3)
qed

lemma PrepareCdefBlock_plane_cell:
  fixes source_buffer :: "nat \<Rightarrow> int \<Rightarrow> 'p::len word"
  assumes "0 \<le> kCdefBorder cst"
    and "0 \<le> block_width4x4" and "0 \<le> block_height4x4"
    and l: "l = PrepareCdefBlock_locals pf (int (LENGTH('p) div 8)) block_width4x4
                  block_height4x4 row_64x64 column_64x64 plane"
    and "unit_width l + 2 * kCdefBorder cst \<le> cdef_stride"
    and "0 \<le> y" and "y < 2 * kCdefBorder cst + unit_height l"
    and "0 \<le> x" and "x < unit_width l + 2 * kCdefBorder cst"
  shows "PrepareCdefBlock_plane cst pf source_buffer block_width4x4 block_height4x4
           row_64x64 column_64x64 cdef_source cdef_stride plane mem
           (cdef_source + int plane * kRestorationProcessingUnitSizeWithBorders cst
                            * kRestorationProcessingUnitSizeWithBorders cst
            + y * cdef_stride + x)
         = (if (is_frame_top l \<and> y < kCdefBorder cst)
               \<or> (is_frame_bottom l \<and> kCdefBorder cst + block_height l \<le> y)
               \<or> (is_frame_left l \<and> x < kCdefBorder cst)
               \<or> (is_frame_right l \<and> kCdefBorder cst + block_width l \<le> x)
            then word_of_int (kCdefLargeValue cst)
            else ucast (source_buffer plane
                          (src_buffer l + (y - kCdefBorder cst) * src_stride l
                           + (x - kCdefBorder cst))))"
proof -
  define base where "base = cdef_source
      + int plane * kRestorationProcessingUnitSizeWithBorders cst
          * kRestorationProcessingUnitSizeWithBorders cst"
  define B where "B = kCdefBorder cst"
  define mem1 where "mem1 = CopyRows cst (source_buffer plane) (src_buffer l)
      (src_stride l) (block_width l) (unit_width l) (is_frame_top l) False (is_frame_left l)
      (is_frame_right l) True B mem base cdef_stride"
  define mem2 where "mem2 = CopyRows cst (source_buffer plane) (src_buffer l)
      (src_stride l) (block_width l) (unit_width l) False False (is_frame_left l)
      (is_frame_right l) False (block_height l) mem1 (base + B * cdef_stride + B)
      cdef_stride"
  define mem3 where "mem3 = CopyRows cst (source_buffer plane)
      (src_buffer l + block_height l * src_stride l)
      (src_stride l) (block_width l) (unit_width l) False (is_frame_bottom l)
      (is_frame_left l) (is_frame_right l) False (B + unit_height l - block_height l) mem2
      (base + B * cdef_stride + B + block_height l * cdef_stride) cdef_stride"
  have eq: "PrepareCdefBlock_plane cst pf source_buffer block_width4x4 block_height4x4
              row_64x64 column_64x64 cdef_source cdef_stride plane mem = mem3"
    by (simp only: PrepareCdefBlock_plane_def Let_def l base_def B_def mem1_def mem2_def
          mem3_def)
  note sz = PrepareCdefBlock_locals_sizes[OF assms(2) assms(3),
              of pf "int (LENGTH('p) div 8)" row_64x64 column_64x64 plane,
              folded l]
  have B0: "0 \<le> B" using assms(1) by (simp add: B_def)
  have st: "0 \<le> cdef_stride" using assms(1,5) sz(1,2) by simp
  have xs: "x < cdef_stride" using assms(5,9) by simp
  define a where "a = base + y * cdef_stride + x"
  have below: "a < base + r * cdef_stride" if "y < r" for r
  proof -
    have "(y + 1) * cdef_stride \<le> r * cdef_stride"
      using that st by (intro mult_right_mono) simp_all
    then show ?thesis using xs by (simp add: a_def algebra_simps)
  qed
  note cb = CopyRows_below[OF st assms(1) sz(1) sz(2)]
  note cc = CopyRows_cell[OF assms(1) sz(1) sz(2) assms(8) assms(9) assms(5)]
  consider (ft) "y < B" | (body) "B \<le> y" "y < B + block_height l"
    | (fb) "B + block_height l \<le> y"
    by linarith
  then have "mem3 a
         = (if (is_frame_top l \<and> y < B)
               \<or> (is_frame_bottom l \<and> B + block_height l \<le> y)
               \<or> (is_frame_left l \<and> x < B)
               \<or> (is_frame_right l \<and> B + block_width l \<le> x)
            then word_of_int (kCdefLargeValue cst)
            else ucast (source_buffer plane
                          (src_buffer l + (y - B) * src_stride l + (x - B))))"
  proof cases
    case ft
    have a3: "a < base + (B + block_height l) * cdef_stride"
      using ft sz(3) by (intro below) simp
    have a2: "a < base + B * cdef_stride" using ft by (intro below)
    have 3: "mem3 a = mem2 a"
      unfolding mem3_def using a3 by (intro cb) (simp add: B_def algebra_simps)
    have 2: "mem2 a = mem1 a"
      unfolding mem2_def using a2 by (intro cb) (simp add: B_def)
    have y: "int (nat y) < B" "int (nat y) = y" using ft assms(6) by simp_all
    have "mem1 (base + int (nat y) * cdef_stride + x)
          = (if is_frame_top l \<or> False \<or> (is_frame_left l \<and> x < kCdefBorder cst)
               \<or> (is_frame_right l \<and> kCdefBorder cst + block_width l \<le> x)
            then word_of_int (kCdefLargeValue cst)
            else ucast (source_buffer plane
                   (src_buffer l - B * src_stride l
                    + int (nat y) * src_stride l + (x - kCdefBorder cst))))"
      unfolding mem1_def
      by (rule cc[OF y(1)]) (simp_all add: B_def)
    then have "mem1 a
          = (if is_frame_top l \<or> (is_frame_left l \<and> x < B)
               \<or> (is_frame_right l \<and> B + block_width l \<le> x)
            then word_of_int (kCdefLargeValue cst)
            else ucast (source_buffer plane
                   (src_buffer l + (y - B) * src_stride l + (x - B))))"
      unfolding y(2) a_def by (simp add: B_def algebra_simps)
    then show ?thesis using ft sz(3) unfolding 3 2 by auto
  next
    case body
    have a3: "a < base + (B + block_height l) * cdef_stride"
      using body by (intro below)
    have 3: "mem3 a = mem2 a"
      unfolding mem3_def using a3 by (intro cb) (simp add: B_def algebra_simps)
    have y: "int (nat (y - B)) < block_height l" "int (nat (y - B)) = y - B"
      using body by simp_all
    have "mem2 (base + B * cdef_stride + int (nat (y - B)) * cdef_stride + x)
          = (if False \<or> False \<or> (is_frame_left l \<and> x < kCdefBorder cst)
               \<or> (is_frame_right l \<and> kCdefBorder cst + block_width l \<le> x)
            then word_of_int (kCdefLargeValue cst)
            else ucast (source_buffer plane
                   (src_buffer l
                    + int (nat (y - B)) * src_stride l + (x - kCdefBorder cst))))"
      unfolding mem2_def
      by (rule cc[OF y(1)]) (simp_all add: B_def)
    then have "mem2 a
          = (if (is_frame_left l \<and> x < B)
               \<or> (is_frame_right l \<and> B + block_width l \<le> x)
            then word_of_int (kCdefLargeValue cst)
            else ucast (source_buffer plane
                   (src_buffer l + (y - B) * src_stride l + (x - B))))"
      unfolding y(2) a_def by (simp add: B_def algebra_simps)
    then show ?thesis using body unfolding 3 by auto
  next
    case fb
    define r where "r = y - B - block_height l"
    have y: "int (nat r) < B + unit_height l - block_height l" "int (nat r) = r"
      using fb assms(7) by (simp_all add: r_def B_def)
    have "mem3 (base + B * cdef_stride + block_height l * cdef_stride
                + int (nat r) * cdef_stride + x)
          = (if False \<or> is_frame_bottom l \<or> (is_frame_left l \<and> x < kCdefBorder cst)
               \<or> (is_frame_right l \<and> kCdefBorder cst + block_width l \<le> x)
            then word_of_int (kCdefLargeValue cst)
            else ucast (source_buffer plane
                   (src_buffer l + block_height l * src_stride l
                    + int (nat r) * src_stride l + (x - kCdefBorder cst))))"
      unfolding mem3_def
      by (rule cc[OF y(1)]) (simp_all add: B_def)
    then have "mem3 a
          = (if is_frame_bottom l \<or> (is_frame_left l \<and> x < B)
               \<or> (is_frame_right l \<and> B + block_width l \<le> x)
            then word_of_int (kCdefLargeValue cst)
            else ucast (source_buffer plane
                   (src_buffer l + (y - B) * src_stride l + (x - B))))"
      unfolding y(2) a_def unfolding r_def by (simp add: B_def algebra_simps)
    then show ?thesis using fb B0 sz(3) by auto
  qed
  then show ?thesis unfolding eq a_def base_def B_def .
qed

lemma fold_planes_below:
  fixes source_buffer :: "nat \<Rightarrow> int \<Rightarrow> 'p::len word"
  assumes "0 \<le> cdef_stride" and "0 \<le> kCdefBorder cst"
    and "0 \<le> block_width4x4" and "0 \<le> block_height4x4"
    and "i < cdef_source + int (Suc p) * (kRestorationProcessingUnitSizeWithBorders cst
                 * kRestorationProcessingUnitSizeWithBorders cst)"
    and "\<forall>q \<in> set qs. Suc p \<le> q"
  shows "fold (PrepareCdefBlock_plane cst pf source_buffer block_width4x4 block_height4x4
                 row_64x64 column_64x64 cdef_source cdef_stride) qs mem i = mem i"
  using assms(6)
proof (induction qs arbitrary: mem)
  case Nil
  show ?case by simp
next
  case (Cons q qs)
  have "int (Suc p) * (kRestorationProcessingUnitSizeWithBorders cst
                 * kRestorationProcessingUnitSizeWithBorders cst)
        \<le> int q * (kRestorationProcessingUnitSizeWithBorders cst
                 * kRestorationProcessingUnitSizeWithBorders cst)"
    using Cons.prems by (intro mult_right_mono) simp_all
  then have i: "i < cdef_source + int q * kRestorationProcessingUnitSizeWithBorders cst
                 * kRestorationProcessingUnitSizeWithBorders cst"
    using assms(5) by (simp add: mult.assoc)
  have "fold (PrepareCdefBlock_plane cst pf source_buffer block_width4x4 block_height4x4
                 row_64x64 column_64x64 cdef_source cdef_stride) qs
          (PrepareCdefBlock_plane cst pf source_buffer block_width4x4 block_height4x4
             row_64x64 column_64x64 cdef_source cdef_stride q mem) i
        = PrepareCdefBlock_plane cst pf source_buffer block_width4x4 block_height4x4
             row_64x64 column_64x64 cdef_source cdef_stride q mem i"
    using Cons.prems by (intro Cons.IH) simp
  also have "\<dots> = mem i"
    by (rule PrepareCdefBlock_plane_below[OF assms(1) assms(2) assms(3) assms(4) i])
  finally show ?case by simp
qed




end
